(* ===== verification/Prelude.thy ===== *)
theory Prelude
  imports Complex_Main
begin

text \<open>
  Shared vocabulary of the development. Python exceptions raised by the
  pipeline and by the library calls it makes are the constructors of
  \<open>py_error\<close>; a fallible operation returns \<open>py_error + 'a\<close> with
  \<open>Inl\<close> the raised exception. Python slices, \<open>range\<close>, and numpy's
  \<open>mean\<close> are written once here, with the list lemmas the component
  theories share.
\<close>

named_theorems window_simps "equations for slices and sliding windows"

datatype py_error =
    ValueError
  | IndexError
  | AttributeError
  | NameError
  | KeyError

type_synonym 'a result = "py_error + 'a"

text \<open>Python's \<open>xs[i:j]\<close> for \<open>0 \<le> i\<close> and \<open>0 \<le> j\<close>.\<close>

definition slice :: "'a list \<Rightarrow> nat \<Rightarrow> nat \<Rightarrow> 'a list" where
  "slice xs i j = take (j - i) (drop i xs)"

text \<open>
  Python's \<open>int(x)\<close> of a float truncates toward zero; a slice bound
  \<open>i\<close> of a sequence of length \<open>n\<close> counts from the end when negative
  and is clipped to \<open>[0, n]\<close>.
\<close>

definition py_int :: "real \<Rightarrow> int" where
  "py_int x = (if 0 \<le> x then \<lfloor>x\<rfloor> else - \<lfloor>- x\<rfloor>)"

definition py_index :: "int \<Rightarrow> nat \<Rightarrow> nat" where
  "py_index i n = (if i < 0 then nat (max 0 (int n + i)) else min (nat i) n)"

text \<open>\<open>numpy.mean\<close> of a non-empty vector of floats.\<close>

definition mean :: "real list \<Rightarrow> real" where
  "mean xs = sum_list xs / real (length xs)"

text \<open>The \<open>Either\<close>-style bind of a Python statement sequence that may raise.\<close>

definition bind_result :: "'a result \<Rightarrow> ('a \<Rightarrow> 'b result) \<Rightarrow> 'b result" where
  "bind_result r f = (case r of Inl e \<Rightarrow> Inl e | Inr a \<Rightarrow> f a)"

lemma bind_result_simps [simp]:
  "bind_result (Inl e) f = Inl e"
  "bind_result (Inr a) f = f a"
  by (simp_all add: bind_result_def)

lemma bind_result_eq_Inr [simp]:
  "bind_result r f = Inr b \<longleftrightarrow> (\<exists>a. r = Inr a \<and> f a = Inr b)"
  by (cases r) auto

subsection \<open>Slices\<close>

lemma length_slice [window_simps]:
  "length (slice xs i j) = min (j - i) (length xs - i)"
  by (simp add: slice_def)

lemma nth_slice [window_simps]:
  "k < j - i \<Longrightarrow> i + k < length xs \<Longrightarrow> slice xs i j ! k = xs ! (i + k)"
  by (simp add: slice_def)

lemma slice_full_length [window_simps]:
  "j \<le> length xs \<Longrightarrow> i \<le> j \<Longrightarrow> length (slice xs i j) = j - i"
  by (simp add: slice_def)

lemma set_slice [window_simps]:
  "i \<le> j \<Longrightarrow> j \<le> length xs \<Longrightarrow> set (slice xs i j) = {xs ! k |k. i \<le> k \<and> k < j}"
proof -
  assume ij: "i \<le> j" and jl: "j \<le> length xs"
  have "x \<in> set (slice xs i j) \<longleftrightarrow> (\<exists>k. i \<le> k \<and> k < j \<and> x = xs ! k)" for x
  proof
    assume "x \<in> set (slice xs i j)"
    then obtain m where "m < length (slice xs i j)" and "x = slice xs i j ! m"
      by (auto simp: in_set_conv_nth)
    with ij jl show "\<exists>k. i \<le> k \<and> k < j \<and> x = xs ! k"
      by (intro exI [of _ "i + m"]) (simp add: slice_def)
  next
    assume "\<exists>k. i \<le> k \<and> k < j \<and> x = xs ! k"
    then obtain k where "i \<le> k" "k < j" "x = xs ! k" by blast
    with ij jl show "x \<in> set (slice xs i j)"
      by (auto simp: slice_def in_set_conv_nth intro!: exI [of _ "k - i"])
  qed
  then show ?thesis by blast
qed

lemma slice_map [window_simps]: "slice (map f xs) i j = map f (slice xs i j)"
  by (simp add: slice_def drop_map take_map)

lemma slice_take [window_simps]: "j \<le> n \<Longrightarrow> slice (take n xs) i j = slice xs i j"
  by (simp add: slice_def drop_take min_absorb1)

lemma set_slice_subset [window_simps]: "set (slice xs i j) \<subseteq> set xs"
  unfolding slice_def using set_drop_subset set_take_subset by (metis order_trans)

lemma py_index_nonneg [simp]: "0 \<le> i \<Longrightarrow> py_index i n = min (nat i) n"
  by (simp add: py_index_def)

lemma py_index_le: "py_index i n \<le> n"
  by (auto simp: py_index_def nat_le_iff)

lemma py_int_nonneg [simp]: "0 \<le> x \<Longrightarrow> py_int x = \<lfloor>x\<rfloor>"
  by (simp add: py_int_def)

subsection \<open>Means\<close>

lemma mean_replicate [simp]: "0 < n \<Longrightarrow> mean (replicate n c) = c"
  by (simp add: mean_def sum_list_replicate)

lemma mean_ge:
  assumes "xs \<noteq> []" and "\<forall>x\<in>set xs. c \<le> x"
  shows "c \<le> mean xs"
proof -
  have "sum_list (replicate (length xs) c) \<le> sum_list xs"
    using assms(2) by (induction xs) auto
  then have "real (length xs) * c \<le> sum_list xs"
    by (simp add: sum_list_replicate)
  with assms(1) show ?thesis
    by (simp add: mean_def pos_le_divide_eq mult.commute)
qed

lemma mean_le:
  assumes "xs \<noteq> []" and "\<forall>x\<in>set xs. x \<le> c"
  shows "mean xs \<le> c"
proof -
  have "sum_list xs \<le> sum_list (replicate (length xs) c)"
    using assms(2) by (induction xs) auto
  then have "sum_list xs \<le> real (length xs) * c"
    by (simp add: sum_list_replicate)
  with assms(1) show ?thesis
    by (simp add: mean_def pos_divide_le_eq mult.commute)
qed

lemma mean_nonneg: "\<forall>x\<in>set xs. 0 \<le> x \<Longrightarrow> 0 \<le> mean xs"
  by (simp add: mean_def sum_list_nonneg)

lemma mean_pos:
  assumes "\<forall>x\<in>set xs. 0 \<le> x" and "x \<in> set xs" and "0 < x"
  shows "0 < mean xs"
proof -
  have "x \<le> sum_list xs"
    using assms by (simp add: member_le_sum_list)
  moreover have "xs \<noteq> []"
    using assms(2) by auto
  ultimately show ?thesis
    using assms(3) by (simp add: mean_def)
qed

lemma mean_map_zero: "mean (map (\<lambda>x. 0) xs) = 0"
  by (simp add: mean_def)

lemma sum_list_map_zero_iff_nonneg:
  fixes f :: "'a \<Rightarrow> real"
  shows "\<forall>x\<in>set xs. 0 \<le> f x \<Longrightarrow> sum_list (map f xs) = 0 \<longleftrightarrow> (\<forall>x\<in>set xs. f x = 0)"
  using sum_list_nonneg_eq_0_iff [of "map f xs"] by auto

lemma mean_map_zero_iff_nonneg:
  "xs \<noteq> [] \<Longrightarrow> \<forall>x\<in>set xs. 0 \<le> f x \<Longrightarrow> mean (map f xs) = 0 \<longleftrightarrow> (\<forall>x\<in>set xs. f x = 0)"
  by (simp add: mean_def sum_list_map_zero_iff_nonneg)

end
