(* ===== verification/PyFloat.thy ===== *)
theory PyFloat
  imports Prelude
begin

text \<open>
  A numpy/pandas float cell: a finite value, one of the two infinities, or
  NaN (pandas' missing value). Finite values are exact reals: rounding and
  the sign of zero are not modelled. The operations follow IEEE 754 on the
  special values: \<open>x / 0\<close> is an infinity of the sign of \<open>x\<close> and NaN
  for \<open>0 / 0\<close>, a finite value over an infinity is 0, \<open>inf - inf\<close> is
  NaN, and every comparison with NaN is false. The column operations of
  the indicator code (\<open>diff\<close>, \<open>where\<close>, \<open>/\<close>, \<open>+\<close>, \<open>-\<close>) are
  built from these.
\<close>

datatype pyfloat = Fin real | PInf | NInf | NaN

fun fneg :: "pyfloat \<Rightarrow> pyfloat" where
  "fneg (Fin x) = Fin (- x)"
| "fneg PInf = NInf"
| "fneg NInf = PInf"
| "fneg NaN = NaN"

fun fadd :: "pyfloat \<Rightarrow> pyfloat \<Rightarrow> pyfloat" where
  "fadd (Fin x) (Fin y) = Fin (x + y)"
| "fadd NaN y = NaN"
| "fadd x NaN = NaN"
| "fadd PInf NInf = NaN"
| "fadd NInf PInf = NaN"
| "fadd PInf y = PInf"
| "fadd x PInf = PInf"
| "fadd NInf y = NInf"
| "fadd x NInf = NInf"

definition fsub :: "pyfloat \<Rightarrow> pyfloat \<Rightarrow> pyfloat" where
  "fsub x y = fadd x (fneg y)"

fun fdiv :: "pyfloat \<Rightarrow> pyfloat \<Rightarrow> pyfloat" where
  "fdiv (Fin x) (Fin y) =
     (if y \<noteq> 0 then Fin (x / y)
      else if 0 < x then PInf else if x < 0 then NInf else NaN)"
| "fdiv NaN y = NaN"
| "fdiv x NaN = NaN"
| "fdiv (Fin x) y = Fin 0"
| "fdiv PInf (Fin y) = (if y < 0 then NInf else PInf)"
| "fdiv NInf (Fin y) = (if y < 0 then PInf else NInf)"
| "fdiv x y = NaN"

text \<open>Comparisons of a cell with a finite constant; NaN compares false.\<close>

fun fgt :: "pyfloat \<Rightarrow> real \<Rightarrow> bool" where
  "fgt (Fin x) c = (c < x)"
| "fgt PInf c = True"
| "fgt NInf c = False"
| "fgt NaN c = False"

fun flt :: "pyfloat \<Rightarrow> real \<Rightarrow> bool" where
  "flt (Fin x) c = (x < c)"
| "flt PInf c = False"
| "flt NInf c = True"
| "flt NaN c = False"

fun is_fin :: "pyfloat \<Rightarrow> bool" where
  "is_fin (Fin x) = True"
| "is_fin _ = False"

text \<open>A column of cells all finite, as a list of reals; \<open>None\<close> otherwise.\<close>

fun fins :: "pyfloat list \<Rightarrow> real list option" where
  "fins [] = Some []"
| "fins (Fin x # xs) = map_option ((#) x) (fins xs)"
| "fins (_ # xs) = None"

subsection \<open>Lemmas\<close>

lemma fsub_Fin [simp]: "fsub (Fin x) (Fin y) = Fin (x - y)"
  by (simp add: fsub_def)

lemma fsub_NaN [simp]: "fsub NaN y = NaN" "fsub x NaN = NaN"
  by (simp_all add: fsub_def) (cases x; simp)

lemma fadd_NaN_right [simp]: "fadd x NaN = NaN"
  by (cases x) simp_all

lemma fdiv_NaN_right [simp]: "fdiv x NaN = NaN"
  by (cases x) simp_all

lemma fins_map_Fin [simp]: "fins (map Fin xs) = Some xs"
  by (induction xs) simp_all

lemma fins_map_Fin_comp [simp]: "fins (map (\<lambda>x. Fin (f x)) xs) = Some (map f xs)"
  by (induction xs) simp_all

lemma fins_Some_iff: "fins xs = Some rs \<longleftrightarrow> xs = map Fin rs"
proof (induction xs arbitrary: rs)
  case Nil
  then show ?case by auto
next
  case (Cons x xs)
  then show ?case by (cases x) (auto simp: Cons_eq_map_conv)
qed

lemma fins_None_iff: "fins xs = None \<longleftrightarrow> (\<exists>x\<in>set xs. \<not> is_fin x)"
proof (induction xs)
  case Nil
  then show ?case by simp
next
  case (Cons x xs)
  then show ?case by (cases x) auto
qed

lemma is_fin_iff: "is_fin x \<longleftrightarrow> (\<exists>r. x = Fin r)"
  by (cases x) simp_all

end
