(* ===== verification/Indicators.thy ===== *)
theory Indicators
  imports PyFloat
begin

text \<open>
  The IndicatorEngine: \<open>DataProcessor._add_technical_indicators\<close> of
  \<open>src/nft/*/src/data_processor.py\<close> (and the sort it is preceded by in
  \<open>get_stock_data\<close>). A DataFrame row is a record; the pandas column
  operations it uses are functions on columns: \<open>rolling(window=w).mean()\<close>
  and \<open>.std()\<close> (NaN until \<open>w\<close> values exist), \<open>ewm(span, adjust=False)\<close>
  (the exponential recursion started at the first value), \<open>diff()\<close> (NaN at
  index 0) and \<open>where\<close>. The lemmas show that every column keeps the length
  of the series, that each row depends only on the rows up to it (no look-ahead),
  where the indicators are NaN, that the recursive EWM equals its closed form
  and stays within the range of its input, and what RSI is when a window has
  no losses.
\<close>

subsection \<open>Rows\<close>

text \<open>
  A daily bar of the market-data provider, with the columns the pipeline uses;
  \<open>trade_date\<close> is the \<open>YYYYMMDD\<close> string read as a number, which orders
  the same way.
\<close>

record bar =
  trade_date :: nat
  open' :: real
  high :: real
  low :: real
  close :: real
  vol :: real

record ebar = bar +
  MA5 :: pyfloat
  MA10 :: pyfloat
  MA20 :: pyfloat
  MACD :: pyfloat
  Signal :: pyfloat
  RSI :: pyfloat
  Volatility :: pyfloat

subsection \<open>Column operations\<close>

text \<open>
  \<open>s.rolling(window=w).agg()\<close>: the value at \<open>i\<close> aggregates
  \<open>s[i-w+1 .. i]\<close>; it is NaN while fewer than \<open>w\<close> values exist
  (\<open>min_periods = w\<close>) or when the window holds a missing value.
\<close>

definition rolling :: "nat \<Rightarrow> (real list \<Rightarrow> pyfloat) \<Rightarrow> pyfloat list \<Rightarrow> pyfloat list" where
  "rolling w agg xs =
     map (\<lambda>i. if i + 1 < w then NaN
               else (case fins (slice xs (i + 1 - w) (i + 1)) of
                       None \<Rightarrow> NaN
                     | Some rs \<Rightarrow> agg rs))
         [0..<length xs]"

definition rolling_mean :: "nat \<Rightarrow> pyfloat list \<Rightarrow> pyfloat list" where
  "rolling_mean w = rolling w (\<lambda>rs. Fin (mean rs))"

text \<open>Sample standard deviation (\<open>ddof = 1\<close>), NaN for a window of one value.\<close>

definition std1 :: "real list \<Rightarrow> pyfloat" where
  "std1 rs =
     (if length rs \<le> 1 then NaN
      else Fin (sqrt (sum_list (map (\<lambda>x. (x - mean rs)\<^sup>2) rs) / real (length rs - 1))))"

definition rolling_std :: "nat \<Rightarrow> pyfloat list \<Rightarrow> pyfloat list" where
  "rolling_std w = rolling w std1"

text \<open>
  \<open>s.ewm(span=n, adjust=False).mean()\<close>: \<open>y\<^sub>0 = x\<^sub>0\<close> and
  \<open>y\<^sub>t = (1 - \<alpha>) y\<^sub>t\<^sub>-\<^sub>1 + \<alpha> x\<^sub>t\<close> with \<open>\<alpha> = 2 / (n + 1)\<close>.
\<close>

definition ewm_alpha :: "nat \<Rightarrow> real" where
  "ewm_alpha n = 2 / (real n + 1)"

fun ewm_from :: "real \<Rightarrow> real \<Rightarrow> real list \<Rightarrow> real list" where
  "ewm_from a prev [] = []"
| "ewm_from a prev (x # xs) = (let y = (1 - a) * prev + a * x in y # ewm_from a y xs)"

definition ewm_mean :: "nat \<Rightarrow> real list \<Rightarrow> real list" where
  "ewm_mean n xs =
     (case xs of [] \<Rightarrow> [] | x # rest \<Rightarrow> x # ewm_from (ewm_alpha n) x rest)"

text \<open>\<open>s.diff()\<close>: NaN, then the differences of consecutive values.\<close>

definition diff :: "real list \<Rightarrow> pyfloat list" where
  "diff xs = (case xs of [] \<Rightarrow> [] | _ # rest \<Rightarrow> NaN # map2 (\<lambda>a b. Fin (a - b)) rest xs)"

text \<open>
  \<open>delta.where(delta > 0, 0)\<close> and \<open>-delta.where(delta < 0, 0)\<close>: the
  cell is kept where the condition holds and replaced by 0 elsewhere, NaN
  included, since a comparison with NaN is false.
\<close>

definition gain_of :: "pyfloat \<Rightarrow> pyfloat" where
  "gain_of d = (if fgt d 0 then d else Fin 0)"

definition loss_of :: "pyfloat \<Rightarrow> pyfloat" where
  "loss_of d = fneg (if flt d 0 then d else Fin 0)"

text \<open>\<open>rs = gain / loss; RSI = 100 - (100 / (1 + rs))\<close>, in float arithmetic.\<close>

definition rsi_of :: "pyfloat \<Rightarrow> pyfloat \<Rightarrow> pyfloat" where
  "rsi_of gain loss =
     (let rs = fdiv gain loss in fsub (Fin 100) (fdiv (Fin 100) (fadd (Fin 1) rs)))"

definition rsi_column :: "nat \<Rightarrow> real list \<Rightarrow> pyfloat list" where
  "rsi_column w c =
     (let delta = diff c;
          gain = rolling_mean w (map gain_of delta);
          loss = rolling_mean w (map loss_of delta)
      in map2 rsi_of gain loss)"

subsection \<open>Reference forms used by the proofs\<close>

text \<open>
  The day-over-day changes as the gain and loss columns see them: the change
  at index 0 is NaN, which \<open>where\<close> turns into 0 in both columns.
\<close>

definition delta0 :: "real list \<Rightarrow> real list" where
  "delta0 c = (case c of [] \<Rightarrow> [] | _ # rest \<Rightarrow> 0 # map2 (-) rest c)"

text \<open>
  The weighted-sum form of \<open>adjust=False\<close> in the pandas documentation:
  \<open>y\<^sub>t = (1 - \<alpha>)\<^sup>t x\<^sub>0 + \<Sum>\<^sub>k\<^sub>=\<^sub>1\<^sub>.\<^sub>.\<^sub>t \<alpha> (1 - \<alpha>)\<^sup>t\<^sup>-\<^sup>k x\<^sub>k\<close>.
\<close>

definition ewm_weighted :: "real \<Rightarrow> real list \<Rightarrow> nat \<Rightarrow> real" where
  "ewm_weighted a xs t = (1 - a) ^ t * xs ! 0 + (\<Sum>k = 1..t. a * (1 - a) ^ (t - k) * xs ! k)"

subsection \<open>The indicator step\<close>

definition enrich :: "bar \<Rightarrow> pyfloat \<Rightarrow> pyfloat \<Rightarrow> pyfloat \<Rightarrow> pyfloat \<Rightarrow> pyfloat \<Rightarrow>
    pyfloat \<Rightarrow> pyfloat \<Rightarrow> ebar" where
  "enrich b m5 m10 m20 md sg r v =
     bar.extend b \<lparr>MA5 = m5, MA10 = m10, MA20 = m20, MACD = md, Signal = sg,
                   RSI = r, Volatility = v\<rparr>"

text \<open>
  \<open>_add_technical_indicators(df)\<close>: each new column is computed over the
  close prices of the whole frame and attached row by row.
\<close>

definition add_technical_indicators :: "bar list \<Rightarrow> ebar list" where
  "add_technical_indicators df =
     (let c = map close df;
          ma5 = rolling_mean 5 (map Fin c);
          ma10 = rolling_mean 10 (map Fin c);
          ma20 = rolling_mean 20 (map Fin c);
          exp1 = ewm_mean 12 c;
          exp2 = ewm_mean 26 c;
          macd = map2 (-) exp1 exp2;
          sig = ewm_mean 9 macd;
          rsi = rsi_column 14 c;
          vola = rolling_std 20 (map Fin c)
      in map (\<lambda>i. enrich (df ! i) (ma5 ! i) (ma10 ! i) (ma20 ! i) (Fin (macd ! i))
                         (Fin (sig ! i)) (rsi ! i) (vola ! i))
             [0..<length df])"

text \<open>
  \<open>df.sort_values('trade_date')\<close>, then the indicators, as
  \<open>get_stock_data\<close> does with the provider's frame (which arrives newest
  first). Dates are distinct, so the order of the sort is determined.
\<close>

definition sort_by_date :: "bar list \<Rightarrow> bar list" where
  "sort_by_date df = sort_key trade_date df"

definition stock_frame :: "bar list \<Rightarrow> ebar list" where
  "stock_frame df = add_technical_indicators (sort_by_date df)"

subsection \<open>Lengths and cells\<close>

lemma length_rolling [simp]: "length (rolling w agg xs) = length xs"
  by (simp add: rolling_def)

lemma nth_rolling:
  "i < length xs \<Longrightarrow> rolling w agg xs ! i =
     (if i + 1 < w then NaN
      else (case fins (slice xs (i + 1 - w) (i + 1)) of None \<Rightarrow> NaN | Some rs \<Rightarrow> agg rs))"
  by (simp add: rolling_def)

lemma length_rolling_mean [simp]: "length (rolling_mean w xs) = length xs"
  by (simp add: rolling_mean_def)

lemma length_rolling_std [simp]: "length (rolling_std w xs) = length xs"
  by (simp add: rolling_std_def)

lemma length_ewm_from [simp]: "length (ewm_from a p xs) = length xs"
  by (induction xs arbitrary: p) (simp_all add: Let_def)

lemma length_ewm_mean [simp]: "length (ewm_mean n xs) = length xs"
  by (simp add: ewm_mean_def split: list.split)

lemma length_diff [simp]: "length (diff xs) = length xs"
  by (simp add: diff_def split: list.split)

lemma length_rsi_column [simp]: "length (rsi_column w c) = length c"
  by (simp add: rsi_column_def Let_def)

lemma enrich_sel [simp]:
  "trade_date (enrich b m5 m10 m20 md sg r v) = trade_date b"
  "open' (enrich b m5 m10 m20 md sg r v) = open' b"
  "high (enrich b m5 m10 m20 md sg r v) = high b"
  "low (enrich b m5 m10 m20 md sg r v) = low b"
  "close (enrich b m5 m10 m20 md sg r v) = close b"
  "vol (enrich b m5 m10 m20 md sg r v) = vol b"
  "MA5 (enrich b m5 m10 m20 md sg r v) = m5"
  "MA10 (enrich b m5 m10 m20 md sg r v) = m10"
  "MA20 (enrich b m5 m10 m20 md sg r v) = m20"
  "MACD (enrich b m5 m10 m20 md sg r v) = md"
  "Signal (enrich b m5 m10 m20 md sg r v) = sg"
  "RSI (enrich b m5 m10 m20 md sg r v) = r"
  "Volatility (enrich b m5 m10 m20 md sg r v) = v"
  by (simp_all add: enrich_def bar.defs)

lemma length_add_technical_indicators [simp]:
  "length (add_technical_indicators df) = length df"
  by (simp add: add_technical_indicators_def Let_def)

text \<open>The cells of row \<open>i\<close> of the enriched frame.\<close>

lemma nth_add_technical_indicators:
  assumes "i < length df"
  shows "add_technical_indicators df ! i =
    enrich (df ! i)
      (rolling_mean 5 (map (Fin \<circ> close) df) ! i)
      (rolling_mean 10 (map (Fin \<circ> close) df) ! i)
      (rolling_mean 20 (map (Fin \<circ> close) df) ! i)
      (Fin (map2 (-) (ewm_mean 12 (map close df)) (ewm_mean 26 (map close df)) ! i))
      (Fin (ewm_mean 9 (map2 (-) (ewm_mean 12 (map close df)) (ewm_mean 26 (map close df))) ! i))
      (rsi_column 14 (map close df) ! i)
      (rolling_std 20 (map (Fin \<circ> close) df) ! i)"
  using assms by (simp add: add_technical_indicators_def Let_def)

lemma bar_fields_add_technical_indicators [simp]:
  assumes "i < length df"
  shows "trade_date (add_technical_indicators df ! i) = trade_date (df ! i)"
    and "open' (add_technical_indicators df ! i) = open' (df ! i)"
    and "high (add_technical_indicators df ! i) = high (df ! i)"
    and "low (add_technical_indicators df ! i) = low (df ! i)"
    and "close (add_technical_indicators df ! i) = close (df ! i)"
    and "vol (add_technical_indicators df ! i) = vol (df ! i)"
  using assms by (simp_all add: nth_add_technical_indicators)

lemma truncate_enrich [simp]: "bar.truncate (enrich b m5 m10 m20 md sg r v) = b"
  by (simp add: enrich_def bar.defs)

text \<open>
  C1. The indicator step keeps the series: the enriched frame has one row per
  input bar, in the same order, and each row carries its bar's fields unchanged.
\<close>

theorem add_technical_indicators_shape:
  "length (add_technical_indicators df) = length df
   \<and> (\<forall>i<length df. bar.truncate (add_technical_indicators df ! i) = df ! i)"
  by (simp add: nth_add_technical_indicators)

theorem add_technical_indicators_shape_witness:
  "length (add_technical_indicators [\<lparr>trade_date = 7, open' = 1, high = 2, low = 1, close = 2, vol = 9\<rparr>]) = 1
   \<and> bar.truncate (add_technical_indicators [\<lparr>trade_date = 7, open' = 1, high = 2, low = 1, close = 2, vol = 9\<rparr>] ! 0)
       = \<lparr>trade_date = 7, open' = 1, high = 2, low = 1, close = 2, vol = 9\<rparr>"
  using add_technical_indicators_shape [of "[\<lparr>trade_date = 7, open' = 1, high = 2, low = 1, close = 2, vol = 9\<rparr>]"]
  by simp

subsection \<open>No look-ahead: every column commutes with taking a prefix\<close>

lemma take_rolling: "take k (rolling w agg xs) = rolling w agg (take k xs)"
proof (rule nth_equalityI)
  show "length (take k (rolling w agg xs)) = length (rolling w agg (take k xs))"
    by simp
next
  fix i assume "i < length (take k (rolling w agg xs))"
  then have i: "i < k" "i < length xs" by simp_all
  then have "slice (take k xs) (i + 1 - w) (i + 1) = slice xs (i + 1 - w) (i + 1)"
    by (simp add: slice_take)
  with i show "take k (rolling w agg xs) ! i = rolling w agg (take k xs) ! i"
    by (simp add: nth_rolling)
qed

lemma take_rolling_mean: "take k (rolling_mean w xs) = rolling_mean w (take k xs)"
  by (simp add: rolling_mean_def take_rolling)

lemma take_rolling_std: "take k (rolling_std w xs) = rolling_std w (take k xs)"
  by (simp add: rolling_std_def take_rolling)

lemma take_ewm_from: "take k (ewm_from a p xs) = ewm_from a p (take k xs)"
proof (induction xs arbitrary: k p)
  case Nil
  then show ?case by simp
next
  case (Cons x xs)
  then show ?case by (cases k) (simp_all add: Let_def)
qed

lemma take_ewm_mean: "take k (ewm_mean n xs) = ewm_mean n (take k xs)"
  by (cases k; cases xs) (simp_all add: ewm_mean_def take_ewm_from)

lemma take_map2: "take k (map2 f xs ys) = map2 f (take k xs) (take k ys)"
  by (simp add: take_map take_zip)

lemma nth_diff:
  "i < length xs \<Longrightarrow> diff xs ! i = (if i = 0 then NaN else Fin (xs ! i - xs ! (i - 1)))"
  by (cases xs) (auto simp: diff_def nth_Cons' split: list.split)

lemma take_diff: "take k (diff xs) = diff (take k xs)"
  by (rule nth_equalityI) (auto simp: nth_diff)

lemma take_rsi_column: "take k (rsi_column w c) = rsi_column w (take k c)"
  by (simp add: rsi_column_def Let_def take_zip take_rolling_mean take_map take_diff)


text \<open>
  C2. Causality of the indicator step: the enriched rows of a prefix of the
  series are the prefix of the enriched rows, so no indicator of bar \<open>i\<close>
  looks at a bar after \<open>i\<close>.
\<close>

theorem add_technical_indicators_prefix:
  "add_technical_indicators (take k df) = take k (add_technical_indicators df)"
proof (rule nth_equalityI)
  show "length (add_technical_indicators (take k df)) = length (take k (add_technical_indicators df))"
    by simp
next
  fix i assume "i < length (add_technical_indicators (take k df))"
  then have ik: "i < k" and il: "i < length df" by simp_all
  have col: "rolling_mean w (map (Fin \<circ> close) (take k df)) ! i
             = rolling_mean w (map (Fin \<circ> close) df) ! i" for w
    using ik by (simp flip: take_map take_rolling_mean)
  have vola: "rolling_std w (map (Fin \<circ> close) (take k df)) ! i
              = rolling_std w (map (Fin \<circ> close) df) ! i" for w
    using ik by (simp flip: take_map take_rolling_std)
  have rsi: "rsi_column 14 (map close (take k df)) ! i = rsi_column 14 (map close df) ! i"
    using ik by (simp flip: take_map take_rsi_column)
  have macd: "map2 (-) (ewm_mean 12 (map close (take k df))) (ewm_mean 26 (map close (take k df)))
              = take k (map2 (-) (ewm_mean 12 (map close df)) (ewm_mean 26 (map close df)))"
    by (simp only: take_zip take_map take_ewm_mean)
  have sig: "ewm_mean 9 (take k (map2 (-) (ewm_mean 12 (map close df)) (ewm_mean 26 (map close df))))
             = take k (ewm_mean 9 (map2 (-) (ewm_mean 12 (map close df)) (ewm_mean 26 (map close df))))"
    by (simp only: take_ewm_mean)
  show "add_technical_indicators (take k df) ! i = take k (add_technical_indicators df) ! i"
    using ik il
    by (simp add: nth_add_technical_indicators col vola rsi macd sig del: map_map)
qed

subsection \<open>Moving averages and volatility\<close>

lemma rolling_map_Fin:
  "i < length xs \<Longrightarrow> rolling w agg (map Fin xs) ! i =
     (if i + 1 < w then NaN else agg (slice xs (i + 1 - w) (i + 1)))"
  by (simp add: nth_rolling slice_map)

text \<open>
  C3. Each moving average is the mean of the trailing closes: MA5, MA10 and MA20
  of row \<open>i\<close> are NaN until 5, 10 and 20 bars exist, and then the mean of the
  closes of rows \<open>i-4..i\<close>, \<open>i-9..i\<close> and \<open>i-19..i\<close>.
\<close>

theorem moving_averages_trailing:
  assumes "i < length df"
  shows "MA5 (add_technical_indicators df ! i) =
           (if i < 4 then NaN else Fin (mean (map close (slice df (i - 4) (i + 1)))))
       \<and> MA10 (add_technical_indicators df ! i) =
           (if i < 9 then NaN else Fin (mean (map close (slice df (i - 9) (i + 1)))))
       \<and> MA20 (add_technical_indicators df ! i) =
           (if i < 19 then NaN else Fin (mean (map close (slice df (i - 19) (i + 1)))))"
  using assms
  by (simp add: nth_add_technical_indicators rolling_mean_def rolling_map_Fin slice_map
      flip: map_map)

theorem moving_averages_trailing_witness:
  "(4::nat) < length (map (\<lambda>k. \<lparr>trade_date = k, open' = real k, high = real k, low = real k, close = real k, vol = 1\<rparr>) [0..<5])
   \<and> MA5 (add_technical_indicators (map (\<lambda>k. \<lparr>trade_date = k, open' = real k, high = real k, low = real k, close = real k, vol = 1\<rparr>) [0..<5]) ! 4) = Fin 2"
proof -
  have "MA5 (add_technical_indicators (map (\<lambda>k. \<lparr>trade_date = k, open' = real k, high = real k, low = real k, close = real k, vol = 1\<rparr>) [0..<5]) ! 4)
        = Fin (mean (map close (slice (map (\<lambda>k. \<lparr>trade_date = k, open' = real k, high = real k, low = real k, close = real k, vol = 1\<rparr>) [0..<5]) 0 5)))"
    using moving_averages_trailing [of 4 "map (\<lambda>k. \<lparr>trade_date = k, open' = real k, high = real k, low = real k, close = real k, vol = 1\<rparr>) [0..<5]"]
    by simp
  then show ?thesis
    by (simp add: slice_def mean_def upt_rec)
qed

lemma Volatility_add_technical_indicators:
  assumes "i < length df"
  shows "Volatility (add_technical_indicators df ! i) =
           (if i < 19 then NaN else std1 (map close (slice df (i - 19) (i + 1))))"
  using assms
  by (simp add: nth_add_technical_indicators rolling_std_def rolling_map_Fin slice_map
      flip: map_map)

lemma sum_sq_dev_nonneg: "0 \<le> sum_list (map (\<lambda>x. (x - m)\<^sup>2) rs)"
  for m :: real
  by (rule sum_list_nonneg) auto

lemma std1_window_Fin:
  "length rs = 20 \<Longrightarrow> \<exists>r. std1 rs = Fin r \<and> 0 \<le> r"
  by (simp add: std1_def sum_sq_dev_nonneg)

lemma MACD_Signal_add_technical_indicators:
  assumes "i < length df"
  shows "\<exists>r. MACD (add_technical_indicators df ! i) = Fin r"
    and "\<exists>r. Signal (add_technical_indicators df ! i) = Fin r"
  using assms by (simp_all add: nth_add_technical_indicators)

subsection \<open>RSI\<close>

text \<open>
  The float arithmetic of \<open>100 - 100 / (1 + gain / loss)\<close> on non-negative
  averages: the RSI is \<open>100 g / (g + l)\<close>, which is 100 when there are no
  losses (\<open>gain / 0 = inf\<close> and \<open>100 / inf = 0\<close>), and NaN when the window
  has neither gains nor losses (\<open>0 / 0\<close>).
\<close>

lemma rsi_of_NaN: "rsi_of NaN y = NaN"
  by (simp add: rsi_of_def)

lemma rsi_of_Fin:
  assumes "0 \<le> g" and "0 \<le> l"
  shows "rsi_of (Fin g) (Fin l) = (if g + l = 0 then NaN else Fin (100 * g / (g + l)))"
proof (cases "l = 0")
  case True
  then show ?thesis
    using assms by (cases "g = 0") (simp_all add: rsi_of_def)
next
  case False
  with assms have l: "0 < l" by simp
  moreover have "0 \<le> g / l"
    using l assms by simp
  ultimately have "1 + g / l \<noteq> 0"
    by linarith
  moreover have "100 - 100 / (1 + g / l) = 100 * g / (g + l)"
    using l assms by (simp add: field_simps)
  ultimately show ?thesis
    using l assms by (simp add: rsi_of_def)
qed

lemma length_delta0 [simp]: "length (delta0 c) = length c"
  by (simp add: delta0_def split: list.split)

lemma nth_delta0:
  "i < length c \<Longrightarrow> delta0 c ! i = (if i = 0 then 0 else c ! i - c ! (i - 1))"
  by (cases c) (auto simp: delta0_def nth_Cons' split: list.split)

lemma gain_loss_diff:
  "map gain_of (diff c) = map (\<lambda>d. Fin (max d 0)) (delta0 c)"
  "map loss_of (diff c) = map (\<lambda>d. Fin (max (- d) 0)) (delta0 c)"
  by (auto intro!: nth_equalityI simp: nth_diff nth_delta0 gain_of_def loss_of_def max_def)

lemma rsi_column_nth:
  assumes "i < length c"
  shows "rsi_column w c ! i =
    (if i + 1 < w then NaN
     else (let W = slice (delta0 c) (i + 1 - w) (i + 1);
               g = mean (map (\<lambda>d. max d 0) W);
               l = mean (map (\<lambda>d. max (- d) 0) W)
           in if g + l = 0 then NaN else Fin (100 * g / (g + l))))"
proof -
  let ?W = "slice (delta0 c) (i + 1 - w) (i + 1)"
  have g: "0 \<le> mean (map (\<lambda>d. max d 0) ?W)" and l: "0 \<le> mean (map (\<lambda>d. max (- d) 0) ?W)"
    by (simp_all add: mean_nonneg)
  show ?thesis
    using assms g l
    by (simp add: rsi_column_def gain_loss_diff rolling_mean_def nth_rolling rsi_of_Fin
        slice_map Let_def rsi_of_NaN)
qed


lemma rsi_column_bounds:
  assumes "i < length c" and "rsi_column w c ! i = Fin r"
  shows "0 \<le> r \<and> r \<le> 100"
proof -
  let ?W = "slice (delta0 c) (i + 1 - w) (i + 1)"
  let ?g = "mean (map (\<lambda>d. max d 0) ?W)" and ?l = "mean (map (\<lambda>d. max (- d) 0) ?W)"
  have g: "0 \<le> ?g" and l: "0 \<le> ?l"
    by (simp_all add: mean_nonneg)
  from assms have "\<not> i + 1 < w" and ne: "?g + ?l \<noteq> 0" and r: "r = 100 * ?g / (?g + ?l)"
    by (simp_all add: rsi_column_nth Let_def split: if_splits)
  from g l ne have pos: "0 < ?g + ?l" by linarith
  have "?g \<le> ?g + ?l" using l by linarith
  then have "100 * ?g \<le> 100 * (?g + ?l)" by simp
  with r pos g show ?thesis
    by (simp add: divide_le_eq)
qed

lemma rsi_column_no_losses:
  assumes "i < length c" and "w \<le> i + 1"
    and nonneg: "\<forall>d\<in>set (slice (delta0 c) (i + 1 - w) (i + 1)). 0 \<le> d"
    and pos: "d \<in> set (slice (delta0 c) (i + 1 - w) (i + 1))" "0 < d"
  shows "rsi_column w c ! i = Fin 100"
proof -
  let ?W = "slice (delta0 c) (i + 1 - w) (i + 1)"
  have "map (\<lambda>d. max (- d) 0) ?W = map (\<lambda>d. 0) ?W"
    using nonneg by (intro map_cong) auto
  then have l: "mean (map (\<lambda>d. max (- d) 0) ?W) = 0"
    by (metis mean_map_zero)
  have "0 < mean (map (\<lambda>d. max d 0) ?W)"
    using pos by (intro mean_pos [of _ "max d 0"]) (auto intro: image_eqI [where x = d])
  with assms(1,2) l show ?thesis
    by (simp add: rsi_column_nth Let_def)
qed

lemma rsi_column_flat:
  assumes "i < length c" and "w \<le> i + 1"
    and "\<forall>d\<in>set (slice (delta0 c) (i + 1 - w) (i + 1)). d = 0"
  shows "rsi_column w c ! i = NaN"
proof -
  let ?W = "slice (delta0 c) (i + 1 - w) (i + 1)"
  have "map (\<lambda>d. max d 0) ?W = map (\<lambda>d. 0) ?W" and "map (\<lambda>d. max (- d) 0) ?W = map (\<lambda>d. 0) ?W"
    using assms(3) by (auto intro: map_cong)
  then have "mean (map (\<lambda>d. max d 0) ?W) = 0" and "mean (map (\<lambda>d. max (- d) 0) ?W) = 0"
    by (metis mean_map_zero)+
  with assms(1,2) show ?thesis
    by (simp add: rsi_column_nth Let_def)
qed

lemma RSI_add_technical_indicators:
  "i < length df \<Longrightarrow> RSI (add_technical_indicators df ! i) = rsi_column 14 (map close df) ! i"
  by (simp add: nth_add_technical_indicators)


lemma rsi_column_rising:
  assumes "sorted_wrt (<) c" and "13 \<le> i" and "i < length c"
  shows "rsi_column 14 c ! i = Fin 100"
proof -
  have d_pos: "0 < delta0 c ! j" if "0 < j" "j < length c" for j
    using that assms(1) by (simp add: nth_delta0 sorted_wrt_iff_nth_less)
  have d_nonneg: "0 \<le> delta0 c ! j" if "j < length c" for j
    using d_pos [of j] that by (cases "j = 0") (simp_all add: nth_delta0)
  have "\<forall>d\<in>set (slice (delta0 c) (i + 1 - 14) (i + 1)). 0 \<le> d"
    using assms(2,3) by (auto simp: set_slice intro: d_nonneg)
  moreover have "delta0 c ! i \<in> set (slice (delta0 c) (i + 1 - 14) (i + 1))"
    using assms(2,3) by (auto simp: set_slice)
  moreover have "0 < delta0 c ! i"
    using assms(2,3) by (intro d_pos) auto
  ultimately show ?thesis
    using assms(2,3) by (intro rsi_column_no_losses) auto
qed

lemma rsi_column_cases: "rsi_column w c ! i = NaN \<or> (\<exists>r. rsi_column w c ! i = Fin r)"
  if "i < length c"
  using that by (simp add: rsi_column_nth Let_def)

text \<open>
  C4. RSI stays within 0 to 100: a finite RSI of any row lies in [0, 100], and no
  row's RSI is infinite.
\<close>

theorem rsi_bounds:
  assumes "i < length df"
  shows "(RSI (add_technical_indicators df ! i) = Fin r \<longrightarrow> 0 \<le> r \<and> r \<le> 100)
         \<and> RSI (add_technical_indicators df ! i) \<noteq> PInf
         \<and> RSI (add_technical_indicators df ! i) \<noteq> NInf"
  using assms rsi_column_bounds [of i "map close df" 14 r] rsi_column_cases [of i "map close df" 14]
  by (auto simp: RSI_add_technical_indicators)

theorem rsi_bounds_witness:
  "(0::nat) < length [\<lparr>trade_date = 1, open' = 5, high = 5, low = 5, close = 5, vol = 1\<rparr>]
   \<and> RSI (add_technical_indicators [\<lparr>trade_date = 1, open' = 5, high = 5, low = 5, close = 5, vol = 1\<rparr>] ! 0) \<noteq> PInf"
  using rsi_bounds [of 0 "[\<lparr>trade_date = 1, open' = 5, high = 5, low = 5, close = 5, vol = 1\<rparr>]"] by simp

text \<open>
  The RSI of a rising series is the sentinel 100, not a division error: when
  the closes strictly increase, every row from index 13 on has an average loss
  of 0, so \<open>gain / loss\<close> is \<open>inf\<close> and the RSI evaluates to exactly 100.
\<close>

theorem rsi_rising_is_100:
  assumes "sorted_wrt (<) (map close df)" and "13 \<le> i" and "i < length df"
  shows "RSI (add_technical_indicators df ! i) = Fin 100"
  using assms by (simp add: RSI_add_technical_indicators rsi_column_rising)

theorem rsi_rising_is_100_witness:
  "sorted_wrt (<) (map close (map (\<lambda>k. \<lparr>trade_date = k, open' = real k, high = real k, low = real k, close = real k, vol = 1\<rparr>) [0..<14]))
   \<and> RSI (add_technical_indicators (map (\<lambda>k. \<lparr>trade_date = k, open' = real k, high = real k, low = real k, close = real k, vol = 1\<rparr>) [0..<14]) ! 13) = Fin 100"
proof -
  have s: "sorted_wrt (<) (map close (map (\<lambda>k. \<lparr>trade_date = k, open' = real k, high = real k, low = real k, close = real k, vol = 1\<rparr>) [0..<14]))"
    by (simp add: sorted_wrt_map comp_def sorted_wrt_upt)
  show ?thesis
    using s rsi_rising_is_100 [OF s] by simp
qed

text \<open>
  A flat stretch makes the RSI NaN: when the close is the same on the 15
  bars ending at row \<open>i\<close> (\<open>i \<ge> 14\<close>), both averages are 0, \<open>0 / 0\<close> is NaN
  and so is the RSI of row \<open>i\<close>.
\<close>

theorem rsi_flat_is_nan:
  assumes "14 \<le> i" and "i < length df"
    and flat: "\<forall>j. i - 14 \<le> j \<and> j \<le> i \<longrightarrow> close (df ! j) = close (df ! i)"
  shows "RSI (add_technical_indicators df ! i) = NaN"
proof -
  let ?c = "map close df"
  have W: "set (slice (delta0 ?c) (i + 1 - 14) (i + 1)) = {delta0 ?c ! j |j. i - 13 \<le> j \<and> j < i + 1}"
    using assms(1,2) by (simp add: set_slice)
  have "\<forall>d\<in>set (slice (delta0 ?c) (i + 1 - 14) (i + 1)). d = 0"
  proof
    fix d assume "d \<in> set (slice (delta0 ?c) (i + 1 - 14) (i + 1))"
    then obtain j where j: "i - 13 \<le> j" "j < i + 1" and d: "d = delta0 ?c ! j"
      unfolding W by blast
    have "close (df ! j) = close (df ! i)"
      using flat [rule_format, of j] j by linarith
    moreover have "close (df ! (j - 1)) = close (df ! i)"
      using flat [rule_format, of "j - 1"] j assms(1) by linarith
    ultimately show "d = 0"
      using j d assms(1,2) by (simp add: nth_delta0)
  qed
  then have "rsi_column 14 ?c ! i = NaN"
    using assms(1,2) by (intro rsi_column_flat) auto
  then show ?thesis
    using assms(2) by (simp add: RSI_add_technical_indicators)
qed

theorem rsi_flat_is_nan_witness:
  "RSI (add_technical_indicators
        (replicate 15 \<lparr>trade_date = 1, open' = 5, high = 5, low = 5, close = 5, vol = 1\<rparr>) ! 14) = NaN"
  by (rule rsi_flat_is_nan) simp_all

text \<open>
  C5. The RSI's two division edge cases are values, not errors: on strictly
  rising closes every row from index 13 on has RSI exactly 100
  (\<open>gain / 0 = inf\<close>, \<open>100 / (1 + inf) = 0\<close>), and a close that is constant
  on the 15 bars ending at row \<open>j \<ge> 14\<close> makes the RSI of row \<open>j\<close> NaN
  (\<open>0 / 0\<close>).
\<close>

theorem rsi_special_values:
  "(sorted_wrt (<) (map close df) \<and> 13 \<le> i \<and> i < length df
      \<longrightarrow> RSI (add_technical_indicators df ! i) = Fin 100)
   \<and> (14 \<le> j \<and> j < length df \<and> (\<forall>k. j - 14 \<le> k \<and> k \<le> j \<longrightarrow> close (df ! k) = close (df ! j))
      \<longrightarrow> RSI (add_technical_indicators df ! j) = NaN)"
  using rsi_rising_is_100 [of df i] rsi_flat_is_nan [of j df] by blast

theorem rsi_special_values_witness:
  "RSI (add_technical_indicators (map (\<lambda>k. \<lparr>trade_date = k, open' = real k, high = real k, low = real k,
                                               close = real k, vol = 1\<rparr>) [0..<14]) ! 13) = Fin 100
   \<and> RSI (add_technical_indicators
          (replicate 15 \<lparr>trade_date = 1, open' = 5, high = 5, low = 5, close = 5, vol = 1\<rparr>) ! 14) = NaN"
proof
  have s: "sorted_wrt (<) (map close (map (\<lambda>k. \<lparr>trade_date = k, open' = real k, high = real k, low = real k,
                                               close = real k, vol = 1\<rparr>) [0..<14]))"
    by (simp add: sorted_wrt_map comp_def sorted_wrt_upt)
  show "RSI (add_technical_indicators (map (\<lambda>k. \<lparr>trade_date = k, open' = real k, high = real k, low = real k,
                                               close = real k, vol = 1\<rparr>) [0..<14]) ! 13) = Fin 100"
    using rsi_special_values [of "map (\<lambda>k. \<lparr>trade_date = k, open' = real k, high = real k, low = real k,
                                               close = real k, vol = 1\<rparr>) [0..<14]" 13 0] s by simp
  show "RSI (add_technical_indicators
          (replicate 15 \<lparr>trade_date = 1, open' = 5, high = 5, low = 5, close = 5, vol = 1\<rparr>) ! 14) = NaN"
    using rsi_special_values [of "replicate 15 \<lparr>trade_date = 1, open' = 5, high = 5, low = 5, close = 5, vol = 1\<rparr>" 0 14]
    by simp
qed

subsection \<open>The exponential moving average\<close>

lemma ewm_from_nth:
  "t < length xs \<Longrightarrow>
   ewm_from a p xs ! t = (1 - a) ^ Suc t * p + (\<Sum>k = 0..t. a * (1 - a) ^ (t - k) * xs ! k)"
proof (induction xs arbitrary: p t)
  case Nil
  then show ?case by simp
next
  case (Cons x xs)
  show ?case
  proof (cases t)
    case 0
    then show ?thesis by (simp add: Let_def)
  next
    case (Suc t')
    with Cons.prems have t': "t' < length xs" by simp
    let ?y = "(1 - a) * p + a * x"
    have "ewm_from a p (x # xs) ! t = ewm_from a ?y xs ! t'"
      using Suc by (simp add: Let_def)
    also have "\<dots> = (1 - a) ^ Suc t' * ?y + (\<Sum>k = 0..t'. a * (1 - a) ^ (t' - k) * xs ! k)"
      using t' by (rule Cons.IH)
    also have "(1 - a) ^ Suc t' * ?y = (1 - a) ^ Suc t * p + a * (1 - a) ^ t * x"
      using Suc by (simp add: distrib_left mult_ac)
    also have "(\<Sum>k = 0..t'. a * (1 - a) ^ (t' - k) * xs ! k)
             = (\<Sum>k = 0..t'. a * (1 - a) ^ (t - Suc k) * (x # xs) ! Suc k)"
      using Suc by simp
    also have "(1 - a) ^ Suc t * p + a * (1 - a) ^ t * x + \<dots>
             = (1 - a) ^ Suc t * p + (\<Sum>k = 0..t. a * (1 - a) ^ (t - k) * (x # xs) ! k)"
      using Suc by (simp only: sum.atLeast0_atMost_Suc_shift) simp
    finally show ?thesis .
  qed
qed


text \<open>
  C6. The recursive EWM of the code equals the weighted-sum definition of
  \<open>ewm(adjust=False)\<close> at every index.
\<close>

theorem ewm_mean_weighted:
  assumes "t < length xs"
  shows "ewm_mean n xs ! t = ewm_weighted (ewm_alpha n) xs t"
proof (cases xs)
  case Nil
  with assms show ?thesis by simp
next
  case (Cons x rest)
  show ?thesis
  proof (cases t)
    case 0
    with Cons show ?thesis by (simp add: ewm_mean_def ewm_weighted_def)
  next
    case (Suc t')
    let ?a = "ewm_alpha n"
    have "ewm_mean n xs ! t = ewm_from ?a x rest ! t'"
      using Cons Suc by (simp add: ewm_mean_def)
    also have "\<dots> = (1 - ?a) ^ Suc t' * x + (\<Sum>k = 0..t'. ?a * (1 - ?a) ^ (t' - k) * rest ! k)"
      using assms Cons Suc by (intro ewm_from_nth) simp
    also have "(\<Sum>k = 0..t'. ?a * (1 - ?a) ^ (t' - k) * rest ! k)
             = (\<Sum>k = Suc 0..Suc t'. ?a * (1 - ?a) ^ (t - k) * xs ! k)"
      using Cons Suc by (simp only: sum.shift_bounds_cl_Suc_ivl) simp
    finally show ?thesis
      using Cons Suc by (simp add: ewm_weighted_def)
  qed
qed

theorem ewm_mean_weighted_witness:
  "(1::nat) < length [1::real, 2] \<and> ewm_mean 12 [1, 2] ! 1 = ewm_weighted (ewm_alpha 12) [1, 2] 1"
  using ewm_mean_weighted [of 1 "[1, 2]" 12] by simp

lemma convex_step_between:
  fixes a p x lo hi :: real
  assumes "0 \<le> a" "a \<le> 1" "lo \<le> p" "p \<le> hi" "lo \<le> x" "x \<le> hi"
  shows "lo \<le> (1 - a) * p + a * x \<and> (1 - a) * p + a * x \<le> hi"
proof -
  have "(1 - a) * lo \<le> (1 - a) * p" and "(1 - a) * p \<le> (1 - a) * hi"
    using assms by (simp_all add: mult_left_mono)
  moreover have "a * lo \<le> a * x" and "a * x \<le> a * hi"
    using assms by (simp_all add: mult_left_mono)
  ultimately show ?thesis
    by (simp add: algebra_simps)
qed

lemma ewm_from_between:
  assumes "0 \<le> a" "a \<le> 1" "lo \<le> p" "p \<le> hi" "\<forall>x\<in>set xs. lo \<le> x \<and> x \<le> hi"
  shows "\<forall>y\<in>set (ewm_from a p xs). lo \<le> y \<and> y \<le> hi"
  using assms(3-5)
proof (induction xs arbitrary: p)
  case Nil
  then show ?case by simp
next
  case (Cons x xs)
  have step: "lo \<le> (1 - a) * p + a * x \<and> (1 - a) * p + a * x \<le> hi"
    using Cons.prems assms(1,2) by (intro convex_step_between) auto
  then have "\<forall>y\<in>set (ewm_from a ((1 - a) * p + a * x) xs). lo \<le> y \<and> y \<le> hi"
    using Cons.prems by (intro Cons.IH) auto
  with step show ?case
    by (simp add: Let_def)
qed

lemma ewm_alpha_unit: "1 \<le> n \<Longrightarrow> 0 \<le> ewm_alpha n \<and> ewm_alpha n \<le> 1"
  by (simp add: ewm_alpha_def)

text \<open>
  The EWM of a series stays within the range of the series, for every span
  of at least 1 (the code uses 9, 12 and 26).
\<close>

theorem ewm_mean_between:
  assumes "1 \<le> n" and "\<forall>x\<in>set xs. lo \<le> x \<and> x \<le> hi"
  shows "\<forall>y\<in>set (ewm_mean n xs). lo \<le> y \<and> y \<le> hi"
proof (cases xs)
  case Nil
  then show ?thesis by (simp add: ewm_mean_def)
next
  case (Cons x rest)
  with assms have "\<forall>y\<in>set (ewm_from (ewm_alpha n) x rest). lo \<le> y \<and> y \<le> hi"
    using ewm_alpha_unit [OF assms(1)] by (intro ewm_from_between) auto
  with Cons assms(2) show ?thesis
    by (simp add: ewm_mean_def)
qed

theorem ewm_mean_between_witness:
  "(1::nat) \<le> 12 \<and> 1 \<le> ewm_mean 12 [1, 2] ! 1 \<and> ewm_mean 12 [1, 2] ! 1 \<le> (2::real)"
proof -
  have "\<forall>y\<in>set (ewm_mean 12 [1, 2]). 1 \<le> y \<and> y \<le> (2::real)"
    by (rule ewm_mean_between) simp_all
  moreover have "ewm_mean 12 [1, 2] ! 1 \<in> set (ewm_mean 12 [1, 2 :: real])"
    by (rule nth_mem) simp
  ultimately show ?thesis
    by simp
qed

end
