(* ===== verification/Scaler.thy ===== *)
theory Scaler
  imports Prelude
begin

text \<open>
  The scaling state of the WindowBuilder: scikit-learn's \<open>MinMaxScaler\<close>
  with its default range (0, 1), as \<open>DataProcessor.scaler\<close> uses it. It is a
  library the sources only call (\<open>self.scaler.fit_transform(X)\<close>), so its
  definitions follow the spec's ScalingState (min and max per feature column)
  and the library's documented attributes: \<open>data_min_\<close>, \<open>data_max_\<close>,
  \<open>scale_ = 1 / (max - min)\<close> with a zero range read as 1, and
  \<open>min_ = - data_min_ * scale_\<close>; \<open>transform\<close> is \<open>x * scale_ + min_\<close>
  and \<open>inverse_transform\<close> is \<open>(x - min_) / scale_\<close>. An empty matrix and a
  row of the wrong width raise \<open>ValueError\<close>. The lemmas give the scaled
  value of a cell, its bounds on the fitted data, and the round trip.
\<close>

record minmax_scaler =
  data_min :: "real list"
  data_max :: "real list"
  scale :: "real list"
  min_shift :: "real list"

definition column :: "real list list \<Rightarrow> nat \<Rightarrow> real list" where
  "column X j = map (\<lambda>row. row ! j) X"

definition handle_zeros_in_scale :: "real \<Rightarrow> real" where
  "handle_zeros_in_scale r = (if r = 0 then 1 else r)"

definition scaler_of :: "real list \<Rightarrow> real list \<Rightarrow> minmax_scaler" where
  "scaler_of mins maxs =
     (let sc = map2 (\<lambda>lo hi. 1 / handle_zeros_in_scale (hi - lo)) mins maxs
      in \<lparr>data_min = mins, data_max = maxs, scale = sc,
          min_shift = map2 (\<lambda>lo s. 0 - lo * s) mins sc\<rparr>)"

definition fit :: "real list list \<Rightarrow> minmax_scaler result" where
  "fit X =
     (case X of
        [] \<Rightarrow> Inl ValueError
      | row0 # _ \<Rightarrow>
          (let m = length row0;
               mins = map (\<lambda>j. Min (set (column X j))) [0..<m];
               maxs = map (\<lambda>j. Max (set (column X j))) [0..<m]
           in Inr (scaler_of mins maxs)))"

definition n_features :: "minmax_scaler \<Rightarrow> nat" where
  "n_features s = length (scale s)"

definition transform_row :: "minmax_scaler \<Rightarrow> real list \<Rightarrow> real list" where
  "transform_row s row = map2 (\<lambda>x (sc, mn). x * sc + mn) row (zip (scale s) (min_shift s))"

definition transform :: "minmax_scaler \<Rightarrow> real list list \<Rightarrow> real list list result" where
  "transform s X =
     (if \<exists>row\<in>set X. length row \<noteq> n_features s then Inl ValueError
      else Inr (map (transform_row s) X))"

definition inverse_row :: "minmax_scaler \<Rightarrow> real list \<Rightarrow> real list" where
  "inverse_row s row = map2 (\<lambda>x (sc, mn). (x - mn) / sc) row (zip (scale s) (min_shift s))"

definition inverse_transform :: "minmax_scaler \<Rightarrow> real list list \<Rightarrow> real list list result" where
  "inverse_transform s X =
     (if \<exists>row\<in>set X. length row \<noteq> n_features s then Inl ValueError
      else Inr (map (inverse_row s) X))"

definition fit_transform :: "real list list \<Rightarrow> (minmax_scaler \<times> real list list) result" where
  "fit_transform X = bind_result (fit X) (\<lambda>s. bind_result (transform s X) (\<lambda>Y. Inr (s, Y)))"

text \<open>A matrix as \<open>DataFrame.values\<close> makes it: every row of the same width.\<close>

definition rectangular :: "nat \<Rightarrow> real list list \<Rightarrow> bool" where
  "rectangular m X \<longleftrightarrow> (\<forall>row\<in>set X. length row = m)"

subsection \<open>Well-formed scaling states\<close>

text \<open>
  What a fitted scaler keeps true between its fields: all four vectors have
  one entry per feature, no scale is 0, and the shift is \<open>- data_min * scale\<close>.
\<close>

definition scaler_wf :: "nat \<Rightarrow> minmax_scaler \<Rightarrow> bool" where
  "scaler_wf m s \<longleftrightarrow>
     length (data_min s) = m \<and> length (data_max s) = m \<and> length (scale s) = m
     \<and> length (min_shift s) = m
     \<and> (\<forall>j<m. scale s ! j \<noteq> 0 \<and> min_shift s ! j = - (data_min s ! j * scale s ! j))"

subsection \<open>Lemmas\<close>

lemma handle_zeros_in_scale_nonzero [simp]: "handle_zeros_in_scale r \<noteq> 0"
  by (simp add: handle_zeros_in_scale_def)

lemma scaler_of_wf:
  "length mins = m \<Longrightarrow> length maxs = m \<Longrightarrow> scaler_wf m (scaler_of mins maxs)"
  by (simp add: scaler_wf_def scaler_of_def Let_def)

lemma fit_Inr:
  assumes "X \<noteq> []"
  shows "fit X = Inr (scaler_of (map (\<lambda>j. Min (set (column X j))) [0..<length (hd X)])
                                (map (\<lambda>j. Max (set (column X j))) [0..<length (hd X)]))"
  using assms by (cases X) (simp_all add: fit_def Let_def)

lemma fit_Nil [simp]: "fit [] = Inl ValueError"
  by (simp add: fit_def)

lemma fit_wf:
  assumes "fit X = Inr s"
  shows "X \<noteq> [] \<and> scaler_wf (length (hd X)) s"
proof (cases "X = []")
  case True
  with assms show ?thesis by simp
next
  case False
  with assms show ?thesis
    by (auto simp: fit_Inr intro!: scaler_of_wf)
qed

lemma n_features_wf [simp]: "scaler_wf m s \<Longrightarrow> n_features s = m"
  by (simp add: scaler_wf_def n_features_def)

lemma transform_Inr:
  assumes "scaler_wf m s" and "rectangular m X"
  shows "transform s X = Inr (map (transform_row s) X)"
proof -
  have "n_features s = m"
    using assms(1) by (simp add: scaler_wf_def n_features_def)
  then have "\<not> (\<exists>row\<in>set X. length row \<noteq> n_features s)"
    using assms(2) by (simp add: rectangular_def)
  then show ?thesis
    by (simp only: transform_def if_False)
qed

lemma length_transform_row [simp]:
  "scaler_wf m s \<Longrightarrow> length row = m \<Longrightarrow> length (transform_row s row) = m"
  by (simp add: transform_row_def scaler_wf_def)

lemma nth_transform_row:
  assumes "scaler_wf m s" "length row = m" "j < m"
  shows "transform_row s row ! j = (row ! j - data_min s ! j) * scale s ! j"
  using assms by (simp add: transform_row_def scaler_wf_def algebra_simps)

lemma nth_inverse_row:
  assumes "scaler_wf m s" "length row = m" "j < m"
  shows "inverse_row s row ! j = row ! j / scale s ! j + data_min s ! j"
  using assms by (simp add: inverse_row_def scaler_wf_def field_simps)

lemma inverse_transform_row:
  assumes "scaler_wf m s" and "length row = m"
  shows "inverse_row s (transform_row s row) = row"
proof -
  have lt: "length (transform_row s row) = m"
    using assms by (rule length_transform_row)
  have "length (scale s) = m" "length (min_shift s) = m"
    using assms(1) by (simp_all add: scaler_wf_def)
  then have len: "length (inverse_row s (transform_row s row)) = m"
    by (simp add: inverse_row_def lt)
  show ?thesis
  proof (rule nth_equalityI)
    show "length (inverse_row s (transform_row s row)) = length row"
      using len assms(2) by simp
  next
    fix j assume "j < length (inverse_row s (transform_row s row))"
    then have j: "j < m"
      using len by simp
    have "scale s ! j \<noteq> 0"
      using assms(1) j by (simp add: scaler_wf_def)
    with assms j lt show "inverse_row s (transform_row s row) ! j = row ! j"
      by (simp add: nth_inverse_row nth_transform_row)
  qed
qed

subsection \<open>Fitting and scaling the same matrix\<close>

lemma fit_transform_Inr:
  assumes "rectangular m X" and "X \<noteq> []"
  shows "\<exists>s. fit X = Inr s \<and> scaler_wf m s \<and> fit_transform X = Inr (s, map (transform_row s) X)"
proof -
  obtain s where s: "fit X = Inr s"
    using fit_Inr [OF assms(2)] by blast
  have m: "length (hd X) = m"
    using assms by (simp add: rectangular_def)
  have wf: "scaler_wf m s"
    using fit_wf [OF s] m by simp
  show ?thesis
    using s wf assms(1) by (simp add: fit_transform_def transform_Inr)
qed

lemma fit_transform_InrD:
  assumes "fit_transform X = Inr (s, Y)"
  shows "X \<noteq> [] \<and> rectangular (length (hd X)) X"
proof -
  obtain s' where s': "fit X = Inr s'" and tr: "bind_result (transform s' X) (\<lambda>Y. Inr (s', Y)) = Inr (s, Y)"
    using assms by (cases "fit X") (simp_all add: fit_transform_def)
  have X: "X \<noteq> []" and wf: "scaler_wf (length (hd X)) s'"
    using fit_wf [OF s'] by simp_all
  have A: "\<not> (\<exists>row\<in>set X. length row \<noteq> n_features s')"
  proof
    assume "\<exists>row\<in>set X. length row \<noteq> n_features s'"
    then have "transform s' X = Inl ValueError"
      by (simp only: transform_def if_True)
    with tr show False
      by simp
  qed
  have B: "n_features s' = length (hd X)"
    using wf by (simp add: scaler_wf_def n_features_def)
  have "\<forall>row\<in>set X. length row = length (hd X)"
  proof
    fix row assume "row \<in> set X"
    with A have "length row = n_features s'" by blast
    then show "length row = length (hd X)" using B by (rule trans)
  qed
  with X show ?thesis
    unfolding rectangular_def by blast
qed

text \<open>
  C7. Round trip of the scaling state: scaling a matrix with the scaler fitted
  on it and scaling back returns the matrix exactly.
\<close>

theorem fit_transform_roundtrip:
  assumes "fit_transform X = Inr (s, Y)"
  shows "inverse_transform s Y = Inr X"
proof -
  have X: "X \<noteq> []" and rect: "rectangular (length (hd X)) X"
    using fit_transform_InrD [OF assms] by simp_all
  obtain s' where "fit X = Inr s'" "scaler_wf (length (hd X)) s'"
      and ft: "fit_transform X = Inr (s', map (transform_row s') X)"
    using fit_transform_Inr [OF rect X] by blast
  with assms have s: "s = s'" and Y: "Y = map (transform_row s) X"
    by auto
  have wf: "scaler_wf (length (hd X)) s"
    using \<open>scaler_wf _ s'\<close> s by simp
  have "\<forall>row\<in>set Y. length row = n_features s"
    using wf rect by (auto simp: Y rectangular_def)
  moreover have "map (inverse_row s) Y = X"
  proof -
    have "map (\<lambda>row. inverse_row s (transform_row s row)) X = X"
      by (rule map_idI) (use wf rect in \<open>simp add: rectangular_def inverse_transform_row\<close>)
    then show ?thesis
      by (simp add: Y comp_def)
  qed
  ultimately show ?thesis
    by (simp only: inverse_transform_def) simp
qed


theorem fit_transform_roundtrip_witness:
  "fit_transform [[1, 10], [3, 10]] = Inr (scaler_of [1, 10] [3, 10], [[0, 0], [1, 0]])
   \<and> inverse_transform (scaler_of [1, 10] [3, 10]) [[0, 0], [1, 0]] = Inr [[1, 10], [3, 10]]"
proof -
  have ft: "fit_transform [[1, 10], [3, 10]] = Inr (scaler_of [1, 10] [3, 10], [[0, 0], [1, 0 :: real]])"
    by (simp add: fit_transform_def fit_def column_def transform_def n_features_def
        scaler_of_def transform_row_def handle_zeros_in_scale_def)
  show ?thesis
    using ft fit_transform_roundtrip [OF ft] by simp
qed

lemma scaled_cell_between:
  fixes x lo hi :: real
  assumes "lo \<le> x" and "x \<le> hi"
  shows "0 \<le> (x - lo) * (1 / handle_zeros_in_scale (hi - lo))
         \<and> (x - lo) * (1 / handle_zeros_in_scale (hi - lo)) \<le> 1"
proof (cases "hi = lo")
  case True
  with assms show ?thesis by (simp add: handle_zeros_in_scale_def)
next
  case False
  with assms have "0 < hi - lo" by simp
  with assms show ?thesis
    by (simp add: handle_zeros_in_scale_def divide_le_eq)
qed

lemma column_member:
  "row \<in> set X \<Longrightarrow> j < length row \<Longrightarrow> row ! j \<in> set (column X j)"
  by (auto simp: column_def)

lemma fit_transform_cells_between:
  assumes "fit_transform X = Inr (s, Y)"
  shows "\<forall>row\<in>set Y. \<forall>v\<in>set row. 0 \<le> v \<and> v \<le> 1"
proof -
  have X: "X \<noteq> []" and rect: "rectangular (length (hd X)) X"
    using fit_transform_InrD [OF assms] by simp_all
  let ?m = "length (hd X)"
  let ?mins = "map (\<lambda>j. Min (set (column X j))) [0..<?m]"
    and ?maxs = "map (\<lambda>j. Max (set (column X j))) [0..<?m]"
  have fit: "fit X = Inr (scaler_of ?mins ?maxs)"
    using X by (rule fit_Inr)
  obtain s' where "fit X = Inr s'" "scaler_wf ?m s'"
      and ft: "fit_transform X = Inr (s', map (transform_row s') X)"
    using fit_transform_Inr [OF rect X] by blast
  with fit assms have s: "s = scaler_of ?mins ?maxs" and Y: "Y = map (transform_row s) X"
    by auto
  have wf: "scaler_wf ?m s"
    using s by (simp add: scaler_of_wf)
  show ?thesis
  proof (intro ballI)
    fix row v assume "row \<in> set Y" and v: "v \<in> set row"
    then obtain r where r: "r \<in> set X" and row: "row = transform_row s r"
      by (auto simp: Y)
    have lr: "length r = ?m"
      using r rect by (simp add: rectangular_def)
    from v obtain j where j: "j < ?m" and vj: "v = transform_row s r ! j"
      using lr wf by (auto simp: row in_set_conv_nth)
    have mem: "r ! j \<in> set (column X j)"
      using r j lr by (simp add: column_member)
    have lo: "Min (set (column X j)) \<le> r ! j" and hi: "r ! j \<le> Max (set (column X j))"
      using mem by simp_all
    have "v = (r ! j - Min (set (column X j))) *
              (1 / handle_zeros_in_scale (Max (set (column X j)) - Min (set (column X j))))"
      using wf lr j by (simp add: vj nth_transform_row s scaler_of_def Let_def)
    with lo hi show "0 \<le> v \<and> v \<le> 1"
      by (simp only: scaled_cell_between)
  qed
qed

text \<open>
  Every cell scaled by the scaler fitted on its own matrix lies in [0, 1].
\<close>

theorem fit_transform_in_unit_interval:
  assumes "fit_transform X = Inr (s, Y)"
  shows "\<forall>row\<in>set Y. \<forall>v\<in>set row. 0 \<le> v \<and> v \<le> 1"
  using assms by (rule fit_transform_cells_between)

theorem fit_transform_in_unit_interval_witness:
  "fit_transform [[1, 10], [2, 10], [5, 10]] = Inr (scaler_of [1, 10] [5, 10], [[0, 0], [1 / 4, 0], [1, 0]])
   \<and> 0 \<le> [[0, 0], [1 / 4, 0], [1, 0 :: real]] ! 1 ! 0 \<and> [[0, 0], [1 / 4, 0], [1, 0 :: real]] ! 1 ! 0 \<le> 1"
proof -
  have ft: "fit_transform [[1, 10], [2, 10], [5, 10]]
            = Inr (scaler_of [1, 10] [5, 10], [[0, 0], [1 / 4, 0], [1, 0 :: real]])"
    by (simp add: fit_transform_def fit_def column_def transform_def n_features_def
        scaler_of_def transform_row_def handle_zeros_in_scale_def)
  have "\<forall>row\<in>set [[0, 0], [1 / 4, 0], [1, 0 :: real]]. \<forall>v\<in>set row. 0 \<le> v \<and> v \<le> 1"
    by (rule fit_transform_in_unit_interval [OF ft])
  moreover have "[1 / 4, 0] \<in> set [[0, 0], [1 / 4, 0], [1, 0 :: real]]" and "1 / 4 \<in> set [1 / 4, 0 :: real]"
    by simp_all
  ultimately have "0 \<le> (1 / 4 :: real) \<and> (1 / 4 :: real) \<le> 1"
    by blast
  with ft show ?thesis
    by simp
qed

end
