(* ===== verification/Windows.thy ===== *)
theory Windows
  imports Indicators Scaler
begin

text \<open>
  The WindowBuilder: \<open>DataProcessor.prepare_data\<close> of
  \<open>src/nft/*/src/data_processor.py\<close> (lines 64-88). It selects the twelve
  feature columns in a fixed order, drops every row holding a NaN
  (\<open>df.dropna()\<close>), scales the feature matrix with the processor's
  \<open>MinMaxScaler\<close> (refitted on this matrix: \<open>fit_transform\<close>), and slides a
  window of \<open>sequence_length\<close> rows with stride 1; the target of window
  \<open>i\<close> is the unscaled close of clean row \<open>i + sequence_length\<close>.
  The processor is a record whose only model state is its scaler; the token and
  the provider clients of \<open>__init__\<close> are I/O and not modelled.
  Before scaling, scikit-learn's input check refuses an empty matrix and a
  matrix holding an infinity (\<open>ValueError\<close>).
\<close>

record data_processor =
  token :: string
  scaler :: "minmax_scaler option"

definition data_processor_init :: "string \<Rightarrow> data_processor" where
  "data_processor_init tok = \<lparr>token = tok, scaler = None\<rparr>"

text \<open>\<open>features = ['open', 'high', 'low', 'close', 'vol', 'MA5', 'MA10', 'MA20', 'MACD', 'Signal', 'RSI', 'Volatility']\<close>.\<close>

definition feature_row :: "ebar \<Rightarrow> pyfloat list" where
  "feature_row r =
     [Fin (open' r), Fin (high r), Fin (low r), Fin (close r), Fin (vol r),
      MA5 r, MA10 r, MA20 r, MACD r, Signal r, RSI r, Volatility r]"

definition n_feature_columns :: nat where
  "n_feature_columns = 12"

definition row_has_nan :: "ebar \<Rightarrow> bool" where
  "row_has_nan r \<longleftrightarrow> NaN \<in> set (feature_row r)"

definition dropna :: "ebar list \<Rightarrow> ebar list" where
  "dropna df = filter (\<lambda>r. \<not> row_has_nan r) df"

text \<open>
  \<open>check_array\<close> as \<open>fit_transform\<close> runs it: no rows is an error, and so
  is a non-finite cell. (The scaler lets NaN through; no NaN reaches it here,
  since \<open>dropna\<close> ran first.)
\<close>

definition check_array :: "pyfloat list list \<Rightarrow> real list list result" where
  "check_array X =
     (if X = [] then Inl ValueError
      else (case those (map fins X) of None \<Rightarrow> Inl ValueError | Some Xr \<Rightarrow> Inr Xr))"

text \<open>The loop \<open>for i in range(len(X_scaled) - sequence_length)\<close>.\<close>

definition make_sequences :: "real list list \<Rightarrow> real list \<Rightarrow> nat \<Rightarrow> real list list list \<times> real list" where
  "make_sequences Xs y L =
     (map (\<lambda>i. slice Xs i (i + L)) [0..<length Xs - L],
      map (\<lambda>i. y ! (i + L)) [0..<length Xs - L])"

definition prepare_data ::
  "data_processor \<Rightarrow> ebar list \<Rightarrow> nat \<Rightarrow> (data_processor \<times> real list list list \<times> real list) result" where
  "prepare_data dp df L =
     (let clean = dropna df;
          X = map feature_row clean;
          y = map close clean
      in bind_result (check_array X) (\<lambda>Xr.
         bind_result (fit_transform Xr) (\<lambda>(sc, Xs).
           Inr (dp\<lparr>scaler := Some sc\<rparr>, make_sequences Xs y L))))"

text \<open>
  A five-row frame used by the witnesses: the first row still has its RSI
  warm-up NaN, the other four are clean.
\<close>

definition sample_frame :: "ebar list" where
  "sample_frame =
     map (\<lambda>(d, c, r). \<lparr>trade_date = d, open' = c, high = c, low = c, close = c, vol = 1,
            MA5 = Fin c, MA10 = Fin c, MA20 = Fin c, MACD = Fin 0, Signal = Fin 0, RSI = r,
            Volatility = Fin 0\<rparr>)
       [(1, 1, NaN), (2, 2, Fin 50), (3, 4, Fin 60), (4, 3, Fin 40), (5, 5, Fin 70)]"

subsection \<open>Lemmas\<close>

lemma length_feature_row [simp]: "length (feature_row r) = n_feature_columns"
  by (simp add: feature_row_def n_feature_columns_def)

lemma length_dropna_le: "length (dropna df) \<le> length df"
  by (simp add: dropna_def)

lemma set_dropna: "set (dropna df) = {r \<in> set df. \<not> row_has_nan r}"
  by (auto simp: dropna_def)

lemma those_map_list_all2:
  "those (map f xs) = Some ys \<longleftrightarrow> list_all2 (\<lambda>x y. f x = Some y) xs ys"
proof (induction xs arbitrary: ys)
  case Nil
  then show ?case by auto
next
  case (Cons x xs)
  then show ?case
    by (cases ys) (auto split: option.splits)
qed

lemma those_map_Some_iff:
  "those (map f xs) = Some ys \<longleftrightarrow> length ys = length xs \<and> (\<forall>i<length xs. f (xs ! i) = Some (ys ! i))"
  by (auto simp: those_map_list_all2 list_all2_conv_all_nth)

lemma those_map_None_iff: "those (map f xs) = None \<longleftrightarrow> (\<exists>x\<in>set xs. f x = None)"
  by (induction xs) (auto split: option.splits)

lemma those_map_fins_None_iff:
  "those (map fins X) = None \<longleftrightarrow> (\<exists>row\<in>set X. \<exists>c\<in>set row. \<not> is_fin c)"
  by (simp add: those_map_None_iff fins_None_iff)

lemma check_array_Inr:
  assumes "check_array X = Inr Xr"
  shows "length Xr = length X \<and> (\<forall>i<length X. X ! i = map Fin (Xr ! i))"
  using assms
  by (auto simp: check_array_def those_map_Some_iff fins_Some_iff split: if_splits option.splits)

lemma check_array_Inl:
  "check_array X = Inl e \<longleftrightarrow> e = ValueError \<and> (X = [] \<or> (\<exists>row\<in>set X. \<exists>c\<in>set row. \<not> is_fin c))"
proof (cases "those (map fins X)")
  case None
  then show ?thesis
    using those_map_fins_None_iff [of X] by (auto simp: check_array_def)
next
  case (Some Xr)
  then have "\<not> (\<exists>row\<in>set X. \<exists>c\<in>set row. \<not> is_fin c)"
    using those_map_fins_None_iff [of X] by simp
  with Some show ?thesis
    by (auto simp: check_array_def)
qed

lemma length_make_sequences:
  "length (fst (make_sequences Xs y L)) = length Xs - L"
  "length (snd (make_sequences Xs y L)) = length Xs - L"
  by (simp_all add: make_sequences_def)

lemma nth_make_sequences:
  assumes "i < length Xs - L"
  shows "fst (make_sequences Xs y L) ! i = slice Xs i (i + L)"
    and "snd (make_sequences Xs y L) ! i = y ! (i + L)"
  using assms by (simp_all add: make_sequences_def)

text \<open>The successful run of \<open>prepare_data\<close>, unfolded.\<close>

lemma prepare_data_Inr:
  assumes "prepare_data dp df L = Inr (dp', X, y)"
  obtains Xr sc where
    "check_array (map feature_row (dropna df)) = Inr Xr"
    "fit_transform Xr = Inr (sc, map (transform_row sc) Xr)"
    "scaler_wf n_feature_columns sc"
    "dp' = dp\<lparr>scaler := Some sc\<rparr>"
    "(X, y) = make_sequences (map (transform_row sc) Xr) (map close (dropna df)) L"
proof -
  obtain Xr where ca: "check_array (map feature_row (dropna df)) = Inr Xr"
    and rest: "bind_result (fit_transform Xr) (\<lambda>(sc, Xs).
                 Inr (dp\<lparr>scaler := Some sc\<rparr>, make_sequences Xs (map close (dropna df)) L))
               = Inr (dp', X, y)"
    using assms by (cases "check_array (map feature_row (dropna df))")
      (simp_all add: prepare_data_def Let_def)
  obtain sc Xs where ft: "fit_transform Xr = Inr (sc, Xs)"
    and out: "dp' = dp\<lparr>scaler := Some sc\<rparr>" "(X, y) = make_sequences Xs (map close (dropna df)) L"
    using rest by (cases "fit_transform Xr") auto
  have ne: "dropna df \<noteq> []"
    using ca by (auto simp: check_array_def)
  have len: "length Xr = length (dropna df)" and rows: "\<forall>i<length (dropna df). feature_row (dropna df ! i) = map Fin (Xr ! i)"
    using check_array_Inr [OF ca] by simp_all
  have rect: "rectangular n_feature_columns Xr"
  proof (unfold rectangular_def, rule ballI)
    fix row assume "row \<in> set Xr"
    then obtain i where "i < length Xr" "row = Xr ! i"
      by (auto simp: in_set_conv_nth)
    with len rows show "length row = n_feature_columns"
      by (metis length_feature_row length_map)
  qed
  have "Xr \<noteq> []"
    using len ne by auto
  then obtain sc' where "scaler_wf n_feature_columns sc'"
      and "fit_transform Xr = Inr (sc', map (transform_row sc') Xr)"
    using fit_transform_Inr [OF rect] by blast
  with ft out ca show ?thesis
    using that by auto
qed



lemma prepare_data_Inr_facts:
  assumes "prepare_data dp df L = Inr (dp', X, y)"
  obtains Xr sc where
    "length Xr = length (dropna df)"
    "\<forall>j<length (dropna df). feature_row (dropna df ! j) = map Fin (Xr ! j)"
    "fit_transform Xr = Inr (sc, map (transform_row sc) Xr)"
    "scaler_wf n_feature_columns sc"
    "\<forall>j<length Xr. length (Xr ! j) = n_feature_columns"
    "dp' = dp\<lparr>scaler := Some sc\<rparr>"
    "X = fst (make_sequences (map (transform_row sc) Xr) (map close (dropna df)) L)"
    "y = snd (make_sequences (map (transform_row sc) Xr) (map close (dropna df)) L)"
proof -
  obtain Xr sc where ca: "check_array (map feature_row (dropna df)) = Inr Xr"
    and ft: "fit_transform Xr = Inr (sc, map (transform_row sc) Xr)"
    and wf: "scaler_wf n_feature_columns sc"
    and dp': "dp' = dp\<lparr>scaler := Some sc\<rparr>"
    and Xy: "(X, y) = make_sequences (map (transform_row sc) Xr) (map close (dropna df)) L"
    by (rule prepare_data_Inr [OF assms])
  have len: "length Xr = length (dropna df)"
    and rows: "\<forall>j<length (dropna df). feature_row (dropna df ! j) = map Fin (Xr ! j)"
    using check_array_Inr [OF ca] by simp_all
  have "\<forall>j<length Xr. length (Xr ! j) = n_feature_columns"
    using len rows by (metis length_feature_row length_map)
  moreover have "X = fst (make_sequences (map (transform_row sc) Xr) (map close (dropna df)) L)"
    and "y = snd (make_sequences (map (transform_row sc) Xr) (map close (dropna df)) L)"
    using Xy by (metis fst_conv, metis snd_conv)
  ultimately show ?thesis
    using that len rows ft wf dp' by blast
qed

text \<open>
  C8. The shape of the supervised data: \<open>prepare_data\<close> makes one window per
  clean row after the first \<open>sequence_length\<close> (none when there are fewer),
  as many targets as windows, each window of \<open>sequence_length\<close> rows, and the
  target of window \<open>i\<close> is the raw close of clean row \<open>i + sequence_length\<close>.
\<close>

theorem prepare_data_windows:
  assumes "prepare_data dp df L = Inr (dp', X, y)"
  shows "length X = length (dropna df) - L \<and> length y = length X
         \<and> (\<forall>i<length X. length (X ! i) = L \<and> y ! i = close (dropna df ! (i + L)))"
proof -
  obtain Xr sc where len: "length Xr = length (dropna df)"
    and X: "X = fst (make_sequences (map (transform_row sc) Xr) (map close (dropna df)) L)"
    and y: "y = snd (make_sequences (map (transform_row sc) Xr) (map close (dropna df)) L)"
    by (rule prepare_data_Inr_facts [OF assms])
  show ?thesis
    using len by (simp add: X y make_sequences_def slice_full_length)
qed



lemma check_array_rows:
  assumes "check_array (map feature_row rows) = Inr Xr"
  shows "Xr \<noteq> [] \<and> rectangular n_feature_columns Xr \<and> length Xr = length rows
         \<and> (\<forall>j<length rows. feature_row (rows ! j) = map Fin (Xr ! j))"
proof -
  have ne: "rows \<noteq> []"
    using assms by (auto simp: check_array_def)
  have len: "length Xr = length rows"
    and eq: "\<forall>j<length rows. feature_row (rows ! j) = map Fin (Xr ! j)"
    using check_array_Inr [OF assms] by simp_all
  have "rectangular n_feature_columns Xr"
    unfolding rectangular_def
  proof
    fix row assume "row \<in> set Xr"
    then obtain j where "j < length Xr" "row = Xr ! j"
      by (auto simp: in_set_conv_nth)
    with len eq show "length row = n_feature_columns"
      by (metis length_feature_row length_map)
  qed
  with ne len eq show ?thesis
    by auto
qed

lemma prepare_data_check_Inr:
  assumes "check_array (map feature_row (dropna df)) = Inr Xr"
  shows "\<exists>sc. fit Xr = Inr sc \<and> scaler_wf n_feature_columns sc
           \<and> prepare_data dp df L = Inr (dp\<lparr>scaler := Some sc\<rparr>,
                 make_sequences (map (transform_row sc) Xr) (map close (dropna df)) L)"
proof -
  have "Xr \<noteq> []" and rect: "rectangular n_feature_columns Xr"
    using check_array_rows [OF assms] by simp_all
  then obtain sc where "fit Xr = Inr sc" "scaler_wf n_feature_columns sc"
    and ft: "fit_transform Xr = Inr (sc, map (transform_row sc) Xr)"
    using fit_transform_Inr [OF rect] by blast
  with assms show ?thesis
    by (simp add: prepare_data_def Let_def)
qed

lemma prepare_data_check_fit:
  assumes "check_array (map feature_row (dropna df)) = Inr Xr" and "fit Xr = Inr sc"
  shows "prepare_data dp df L = Inr (dp\<lparr>scaler := Some sc\<rparr>,
           make_sequences (map (transform_row sc) Xr) (map close (dropna df)) L)"
  using prepare_data_check_Inr [OF assms(1), of dp L] assms(2) by auto

text \<open>
  C9. The windows are the scaled clean rows, in order: row \<open>k\<close> of window
  \<open>i\<close>, scaled back with the processor's fitted scaler, is exactly the feature
  vector of clean bar \<open>i + k\<close>.
\<close>

theorem prepare_data_window_rows:
  assumes "prepare_data dp df L = Inr (dp', X, y)" and "i < length X" and "k < L"
  shows "\<exists>sc. scaler dp' = Some sc
              \<and> map Fin (inverse_row sc (X ! i ! k)) = feature_row (dropna df ! (i + k))"
proof -
  obtain Xr sc where len: "length Xr = length (dropna df)"
    and rows: "\<forall>j<length (dropna df). feature_row (dropna df ! j) = map Fin (Xr ! j)"
    and wf: "scaler_wf n_feature_columns sc"
    and widths: "\<forall>j<length Xr. length (Xr ! j) = n_feature_columns"
    and dp': "dp' = dp\<lparr>scaler := Some sc\<rparr>"
    and X: "X = fst (make_sequences (map (transform_row sc) Xr) (map close (dropna df)) L)"
    by (rule prepare_data_Inr_facts [OF assms(1)])
  have i: "i < length Xr - L"
    using assms(2) by (simp add: X length_make_sequences)
  then have ik: "i + k < length Xr"
    using assms(3) by linarith
  have "X ! i ! k = transform_row sc (Xr ! (i + k))"
    using i ik assms(3) by (simp add: X nth_make_sequences nth_slice)
  then have "inverse_row sc (X ! i ! k) = Xr ! (i + k)"
    using wf widths ik by (simp add: inverse_transform_row)
  with rows len ik dp' show ?thesis
    by simp
qed

text \<open>
  C10. Every cell of every window lies in [0, 1].
\<close>

theorem prepare_data_cells_unit:
  assumes "prepare_data dp df L = Inr (dp', X, y)"
  shows "\<forall>w\<in>set X. \<forall>row\<in>set w. \<forall>v\<in>set row. 0 \<le> v \<and> v \<le> 1"
proof -
  obtain Xr sc where ft: "fit_transform Xr = Inr (sc, map (transform_row sc) Xr)"
    and X: "X = fst (make_sequences (map (transform_row sc) Xr) (map close (dropna df)) L)"
    by (rule prepare_data_Inr_facts [OF assms])
  have cells: "\<forall>row\<in>set (map (transform_row sc) Xr). \<forall>v\<in>set row. 0 \<le> v \<and> v \<le> 1"
    by (rule fit_transform_cells_between [OF ft])
  have "set w \<subseteq> set (map (transform_row sc) Xr)" if "w \<in> set X" for w
    using that set_slice_subset by (fastforce simp: X make_sequences_def)
  with cells show ?thesis
    by blast
qed

text \<open>
  C11. The error path of \<open>prepare_data\<close>: it raises \<open>ValueError\<close> exactly when
  no row survives \<open>dropna\<close> or a surviving feature is infinite; in every other
  case it returns windows.
\<close>

theorem prepare_data_error:
  "prepare_data dp df L = Inl e \<longleftrightarrow>
     e = ValueError \<and> (dropna df = [] \<or> (\<exists>r\<in>set (dropna df). \<exists>c\<in>set (feature_row r). \<not> is_fin c))"
proof (cases "check_array (map feature_row (dropna df))")
  case (Inl e')
  then have "prepare_data dp df L = Inl e'"
    by (simp add: prepare_data_def Let_def)
  with Inl show ?thesis
    by (auto simp: check_array_Inl)
next
  case (Inr Xr)
  then obtain sc where "prepare_data dp df L = Inr (dp\<lparr>scaler := Some sc\<rparr>,
      make_sequences (map (transform_row sc) Xr) (map close (dropna df)) L)"
    using prepare_data_check_Inr by blast
  moreover have "\<not> (dropna df = [] \<or> (\<exists>r\<in>set (dropna df). \<exists>c\<in>set (feature_row r). \<not> is_fin c))"
    using Inr check_array_Inl [of "map feature_row (dropna df)"] by auto
  ultimately show ?thesis
    by simp
qed

text \<open>
  C12. A series with no more clean rows than \<open>sequence_length\<close> is not an
  error: \<open>prepare_data\<close> returns no windows and no targets (the spec's
  \<open>InsufficientDataError\<close> is never raised).
\<close>

theorem prepare_data_short_series:
  assumes "dropna df \<noteq> []" and "\<forall>r\<in>set (dropna df). \<forall>c\<in>set (feature_row r). is_fin c"
    and "length (dropna df) \<le> L"
  shows "\<exists>dp'. prepare_data dp df L = Inr (dp', [], [])"
proof -
  obtain Xr where ca: "check_array (map feature_row (dropna df)) = Inr Xr"
    using assms(1,2) check_array_Inl [of "map feature_row (dropna df)"]
    by (cases "check_array (map feature_row (dropna df))") auto
  then have len: "length Xr = length (dropna df)"
    using check_array_rows by blast
  obtain sc where "prepare_data dp df L = Inr (dp\<lparr>scaler := Some sc\<rparr>,
      make_sequences (map (transform_row sc) Xr) (map close (dropna df)) L)"
    using prepare_data_check_Inr [OF ca] by blast
  with len assms(3) show ?thesis
    by (simp add: make_sequences_def)
qed

text \<open>
  C13. \<open>prepare_data\<close> refits the processor's scaler on every call: the scaler
  it leaves is the one fitted on the current clean matrix, and the windows and
  targets do not depend on the scaler the processor held before.
\<close>

theorem prepare_data_refits:
  assumes "prepare_data dp df L = Inr (dp', X, y)"
  shows "prepare_data dp2 df L = Inr (dp2\<lparr>scaler := scaler dp'\<rparr>, X, y)
         \<and> (\<exists>Xr sc. check_array (map feature_row (dropna df)) = Inr Xr \<and> fit Xr = Inr sc
                    \<and> scaler dp' = Some sc)"
proof -
  obtain Xr sc where ca: "check_array (map feature_row (dropna df)) = Inr Xr"
    and ft: "fit_transform Xr = Inr (sc, map (transform_row sc) Xr)"
    and dp': "dp' = dp\<lparr>scaler := Some sc\<rparr>"
    and Xy: "(X, y) = make_sequences (map (transform_row sc) Xr) (map close (dropna df)) L"
    by (rule prepare_data_Inr [OF assms])
  obtain sc' where fit: "fit Xr = Inr sc'"
    using prepare_data_check_Inr [OF ca] by blast
  have run: "prepare_data dp df L = Inr (dp\<lparr>scaler := Some sc'\<rparr>,
               make_sequences (map (transform_row sc') Xr) (map close (dropna df)) L)" for dp
    using ca fit by (rule prepare_data_check_fit)
  have "sc' = sc"
    using ft fit by (auto simp: fit_transform_def)
  with run [of dp2] Xy dp' ca fit show ?thesis
    by simp
qed


subsection \<open>The sample frame\<close>

lemma sample_frame_clean:
  "length (dropna sample_frame) = 4 \<and> close (dropna sample_frame ! Suc (Suc 0)) = 3
   \<and> (\<forall>r\<in>set (dropna sample_frame). \<forall>c\<in>set (feature_row r). is_fin c)"
  by (simp add: sample_frame_def dropna_def row_has_nan_def feature_row_def)

lemma sample_frame_run:
  "\<exists>dp' X y. prepare_data (data_processor_init ''t'') sample_frame 2 = Inr (dp', X, y)
             \<and> length X = 2 \<and> length y = 2"
proof -
  have "\<exists>Xr. check_array (map feature_row (dropna sample_frame)) = Inr Xr"
    by (simp add: sample_frame_def check_array_def dropna_def row_has_nan_def feature_row_def)
  then obtain Xr where ca: "check_array (map feature_row (dropna sample_frame)) = Inr Xr" ..
  obtain sc where run: "prepare_data (data_processor_init ''t'') sample_frame 2
      = Inr ((data_processor_init ''t'')\<lparr>scaler := Some sc\<rparr>,
             make_sequences (map (transform_row sc) Xr) (map close (dropna sample_frame)) 2)"
    using prepare_data_check_Inr [OF ca] by blast
  have l4: "length Xr = 4"
    using check_array_rows [OF ca] sample_frame_clean by simp
  have "length (fst (make_sequences (map (transform_row sc) Xr) (map close (dropna sample_frame)) 2)) = 2"
    and "length (snd (make_sequences (map (transform_row sc) Xr) (map close (dropna sample_frame)) 2)) = 2"
    using l4 by (simp_all add: make_sequences_def)
  with run show ?thesis
    by (metis prod.collapse)
qed

theorem prepare_data_windows_witness:
  "\<exists>dp' X y. prepare_data (data_processor_init ''t'') sample_frame 2 = Inr (dp', X, y)
             \<and> length X = 2 \<and> y ! 0 = 3"
proof -
  obtain dp' X y where run: "prepare_data (data_processor_init ''t'') sample_frame 2 = Inr (dp', X, y)"
    and lX: "length X = 2"
    using sample_frame_run by blast
  have w: "length X = length (dropna sample_frame) - 2 \<and> length y = length X
        \<and> (\<forall>i<length X. length (X ! i) = 2 \<and> y ! i = close (dropna sample_frame ! (i + 2)))"
    by (rule prepare_data_windows [OF run])
  then have "y ! 0 = close (dropna sample_frame ! (0 + 2))"
    using lX by simp
  then have "y ! 0 = 3"
    using sample_frame_clean by (simp add: numeral_2_eq_2)
  with run lX show ?thesis
    by blast
qed

theorem prepare_data_window_rows_witness:
  "\<exists>dp' X y sc. prepare_data (data_processor_init ''t'') sample_frame 2 = Inr (dp', X, y)
     \<and> scaler dp' = Some sc
     \<and> map Fin (inverse_row sc (X ! 0 ! 1)) = feature_row (dropna sample_frame ! 1)"
proof -
  obtain dp' X y where run: "prepare_data (data_processor_init ''t'') sample_frame 2 = Inr (dp', X, y)"
    and lX: "length X = 2"
    using sample_frame_run by blast
  have "\<exists>sc. scaler dp' = Some sc
            \<and> map Fin (inverse_row sc (X ! 0 ! 1)) = feature_row (dropna sample_frame ! (0 + 1))"
    using lX by (intro prepare_data_window_rows [OF run]) simp_all
  with run show ?thesis
    by auto
qed

theorem prepare_data_cells_unit_witness:
  "\<exists>dp' X y. prepare_data (data_processor_init ''t'') sample_frame 2 = Inr (dp', X, y)
     \<and> 0 \<le> X ! 1 ! 1 ! 10 \<and> X ! 1 ! 1 ! 10 \<le> 1"
proof -
  obtain dp' X y where run: "prepare_data (data_processor_init ''t'') sample_frame 2 = Inr (dp', X, y)"
    and lX: "length X = 2"
    using sample_frame_run by blast
  have cells: "\<forall>w\<in>set X. \<forall>row\<in>set w. \<forall>v\<in>set row. 0 \<le> v \<and> v \<le> 1"
    by (rule prepare_data_cells_unit [OF run])
  obtain Xr sc where lXr: "length Xr = length (dropna sample_frame)"
    and wf: "scaler_wf n_feature_columns sc"
    and widths: "\<forall>j<length Xr. length (Xr ! j) = n_feature_columns"
    and X: "X = fst (make_sequences (map (transform_row sc) Xr) (map close (dropna sample_frame)) 2)"
    by (rule prepare_data_Inr_facts [OF run])
  have l4: "length Xr = 4"
    using lXr sample_frame_clean by simp
  have row: "X ! 1 ! 1 = transform_row sc (Xr ! 2)"
    using l4 by (simp add: X nth_make_sequences nth_slice numeral_2_eq_2)
  have "length (X ! 1) = 2"
    using l4 by (simp add: X nth_make_sequences slice_full_length)
  then have m1: "X ! 1 ! 1 \<in> set (X ! 1)"
    by simp
  have "length (transform_row sc (Xr ! 2)) = 12"
    using widths wf l4 by (simp add: n_feature_columns_def)
  then have "length (X ! 1 ! 1) = 12"
    by (simp only: row)
  then have m2: "X ! 1 ! 1 ! 10 \<in> set (X ! 1 ! 1)"
    by simp
  have "X ! 1 \<in> set X"
    using lX by simp
  with m1 m2 cells run show ?thesis
    by blast
qed

theorem prepare_data_error_witness:
  "prepare_data (data_processor_init ''t'') [hd sample_frame] 2 = Inl ValueError"
  by (simp add: prepare_data_error sample_frame_def dropna_def row_has_nan_def feature_row_def)

theorem prepare_data_short_series_witness:
  "\<exists>dp'. prepare_data (data_processor_init ''t'') (tl sample_frame) 4 = Inr (dp', [], [])"
proof (rule prepare_data_short_series)
  show "dropna (tl sample_frame) \<noteq> []"
    and "\<forall>r\<in>set (dropna (tl sample_frame)). \<forall>c\<in>set (feature_row r). is_fin c"
    and "length (dropna (tl sample_frame)) \<le> 4"
    by (simp_all add: sample_frame_def dropna_def row_has_nan_def feature_row_def)
qed

theorem prepare_data_refits_witness:
  "\<exists>dp' X y. prepare_data (data_processor_init ''t'') sample_frame 2 = Inr (dp', X, y)
     \<and> prepare_data (data_processor_init ''u'') sample_frame 2
         = Inr ((data_processor_init ''u'')\<lparr>scaler := scaler dp'\<rparr>, X, y)"
proof -
  obtain dp' X y where run: "prepare_data (data_processor_init ''t'') sample_frame 2 = Inr (dp', X, y)"
    using sample_frame_run by blast
  have "prepare_data (data_processor_init ''u'') sample_frame 2
         = Inr ((data_processor_init ''u'')\<lparr>scaler := scaler dp'\<rparr>, X, y)"
    using prepare_data_refits [OF run, of "data_processor_init ''u''"] by (rule conjunct1)
  with run show ?thesis
    by blast
qed

end
