(* ===== verification/Metrics.thy ===== *)
theory Metrics
  imports PyFloat
begin

text \<open>
  The Evaluator: \<open>ModelTrainer.evaluate\<close> of
  \<open>src/nft/*/src/models/model_trainer.py\<close> (lines 84-96) and the
  scikit-learn metrics it calls. \<open>mean_squared_error\<close>,
  \<open>mean_absolute_error\<close> and \<open>r2_score\<close> first check their inputs: targets
  and predictions of different lengths, or no sample at all, raise
  \<open>ValueError\<close>. \<open>r2_score\<close> of fewer than two samples is NaN (with a
  warning), and with \<open>force_finite\<close> a constant target gives 1 for a perfect
  prediction and 0 otherwise. The RMSE is \<open>np.sqrt\<close> of the MSE.
  The cross-validation average of a metric is \<open>np.mean\<close> of its fold values,
  which is NaN as soon as one of them is.
\<close>

record metrics =
  mse :: real
  rmse :: real
  mae :: real
  r2 :: pyfloat

definition check_targets :: "real list \<Rightarrow> real list \<Rightarrow> unit result" where
  "check_targets yt yp =
     (if length yt \<noteq> length yp then Inl ValueError
      else if yt = [] then Inl ValueError
      else Inr ())"

definition mean_squared_error :: "real list \<Rightarrow> real list \<Rightarrow> real result" where
  "mean_squared_error yt yp =
     bind_result (check_targets yt yp) (\<lambda>_. Inr (mean (map2 (\<lambda>a b. (a - b)\<^sup>2) yt yp)))"

definition mean_absolute_error :: "real list \<Rightarrow> real list \<Rightarrow> real result" where
  "mean_absolute_error yt yp =
     bind_result (check_targets yt yp) (\<lambda>_. Inr (mean (map2 (\<lambda>a b. \<bar>a - b\<bar>) yt yp)))"

definition r2_score :: "real list \<Rightarrow> real list \<Rightarrow> pyfloat result" where
  "r2_score yt yp =
     bind_result (check_targets yt yp) (\<lambda>_.
       if length yt < 2 then Inr NaN
       else (let num = sum_list (map2 (\<lambda>a b. (a - b)\<^sup>2) yt yp);
                 den = sum_list (map (\<lambda>a. (a - mean yt)\<^sup>2) yt)
             in Inr (if den = 0 then (if num = 0 then Fin 1 else Fin 0)
                     else Fin (1 - num / den))))"

definition evaluate :: "real list \<Rightarrow> real list \<Rightarrow> metrics result" where
  "evaluate yt yp =
     bind_result (mean_squared_error yt yp) (\<lambda>m.
     bind_result (mean_absolute_error yt yp) (\<lambda>a.
     bind_result (r2_score yt yp) (\<lambda>r.
       Inr \<lparr>mse = m, rmse = sqrt m, mae = a, r2 = r\<rparr>)))"

text \<open>\<open>np.mean\<close> of a list of float values: the float sum over the length.\<close>

definition np_mean :: "pyfloat list \<Rightarrow> pyfloat" where
  "np_mean xs = fdiv (foldr fadd xs (Fin 0)) (Fin (real (length xs)))"

definition average_metrics :: "metrics list \<Rightarrow> metrics" where
  "average_metrics ms =
     \<lparr>mse = mean (map mse ms), rmse = mean (map rmse ms), mae = mean (map mae ms),
      r2 = np_mean (map r2 ms)\<rparr>"

subsection \<open>Lemmas\<close>

lemma check_targets_Inr [simp]:
  "check_targets yt yp = Inr u \<longleftrightarrow> length yt = length yp \<and> yt \<noteq> []"
  by (simp add: check_targets_def)

lemma check_targets_Inl:
  "check_targets yt yp = Inl e \<longleftrightarrow> e = ValueError \<and> (length yt \<noteq> length yp \<or> yt = [])"
  by (auto simp: check_targets_def)

lemma mean_sq_ge_sq_mean: "(mean xs)\<^sup>2 \<le> mean (map (\<lambda>x. x\<^sup>2) xs)"
proof (cases "xs = []")
  case True
  then show ?thesis by (simp add: mean_def)
next
  case False
  define n where "n = real (length xs)"
  define m where "m = mean xs"
  have n0: "0 < n" using False by (simp add: n_def)
  have sx: "sum_list xs = n * m" using n0 by (simp add: m_def n_def mean_def)
  have "0 \<le> sum_list (map (\<lambda>x. (x - m)\<^sup>2) xs)"
    by (rule sum_list_nonneg) auto
  also have "sum_list (map (\<lambda>x. (x - m)\<^sup>2) xs)
      = sum_list (map (\<lambda>x. x\<^sup>2) xs) - 2 * m * sum_list xs + n * m\<^sup>2"
    by (simp add: power2_diff sum_list_subtractf sum_list_addf sum_list_const_mult
        sum_list_mult_const sum_list_triv n_def mult_ac)
  finally have "n * m\<^sup>2 \<le> sum_list (map (\<lambda>x. x\<^sup>2) xs)"
    by (simp add: sx power2_eq_square mult_ac)
  then show ?thesis
    using n0 by (simp add: mean_def m_def n_def pos_le_divide_eq mult.commute)
qed

lemma map2_same: "map2 f xs xs = map (\<lambda>x. f x x) xs"
  by (induction xs) simp_all

lemma metrics_checked:
  assumes "length yt = length yp" and "yt \<noteq> []"
  shows "mean_squared_error yt yp = Inr (mean (map2 (\<lambda>a b. (a - b)\<^sup>2) yt yp))"
    and "mean_absolute_error yt yp = Inr (mean (map2 (\<lambda>a b. \<bar>a - b\<bar>) yt yp))"
    and "\<exists>r. r2_score yt yp = Inr r"
  using assms
  by (simp_all add: mean_squared_error_def mean_absolute_error_def r2_score_def Let_def)

lemma evaluate_checked:
  assumes "length yt = length yp" and "yt \<noteq> []" and "r2_score yt yp = Inr r"
  shows "evaluate yt yp =
           Inr \<lparr>mse = mean (map2 (\<lambda>a b. (a - b)\<^sup>2) yt yp),
                rmse = sqrt (mean (map2 (\<lambda>a b. (a - b)\<^sup>2) yt yp)),
                mae = mean (map2 (\<lambda>a b. \<bar>a - b\<bar>) yt yp), r2 = r\<rparr>"
  using assms by (simp add: evaluate_def metrics_checked)

lemma evaluate_InrD:
  assumes "evaluate yt yp = Inr m"
  shows "length yt = length yp \<and> yt \<noteq> [] \<and> r2_score yt yp = Inr (r2 m)
         \<and> mse m = mean (map2 (\<lambda>a b. (a - b)\<^sup>2) yt yp)
         \<and> rmse m = sqrt (mean (map2 (\<lambda>a b. (a - b)\<^sup>2) yt yp))
         \<and> mae m = mean (map2 (\<lambda>a b. \<bar>a - b\<bar>) yt yp)"
proof -
  have chk: "length yt = length yp \<and> yt \<noteq> []"
    using assms by (auto simp: evaluate_def mean_squared_error_def)
  then obtain r where r: "r2_score yt yp = Inr r"
    using metrics_checked(3) by blast
  then have "m = \<lparr>mse = mean (map2 (\<lambda>a b. (a - b)\<^sup>2) yt yp),
                rmse = sqrt (mean (map2 (\<lambda>a b. (a - b)\<^sup>2) yt yp)),
                mae = mean (map2 (\<lambda>a b. \<bar>a - b\<bar>) yt yp), r2 = r\<rparr>"
    using assms chk evaluate_checked by simp
  with chk r show ?thesis
    by simp
qed

lemma evaluate_Inl_iff:
  "evaluate yt yp = Inl e \<longleftrightarrow> e = ValueError \<and> (length yt \<noteq> length yp \<or> yt = [])"
proof (cases "length yt = length yp \<and> yt \<noteq> []")
  case True
  then obtain r where "r2_score yt yp = Inr r"
    using metrics_checked(3) by blast
  with True show ?thesis
    by (simp add: evaluate_checked)
next
  case False
  then show ?thesis
    by (auto simp: evaluate_def mean_squared_error_def check_targets_def)
qed

lemma r2_score_le_one:
  assumes "r2_score yt yp = Inr (Fin r)"
  shows "r \<le> 1"
proof -
  have "0 \<le> sum_list (map2 (\<lambda>a b. (a - b)\<^sup>2) yt yp)"
    by (rule sum_list_nonneg) auto
  moreover have "0 \<le> sum_list (map (\<lambda>a. (a - mean yt)\<^sup>2) yt)"
    by (rule sum_list_nonneg) auto
  ultimately show ?thesis
    using assms by (auto simp: r2_score_def Let_def split: if_splits)
qed

lemma mean_abs_le_sqrt_mean_sq:
  "mean (map2 (\<lambda>a b. \<bar>a - b\<bar>) yt yp) \<le> sqrt (mean (map2 (\<lambda>a b. (a - b)\<^sup>2) yt yp))"
proof -
  have sq: "map (\<lambda>x. x\<^sup>2) (map2 (\<lambda>a b. \<bar>a - b\<bar>) yt yp) = map2 (\<lambda>a b. (a - b)\<^sup>2) yt yp"
    by (simp add: case_prod_beta)
  have "(mean (map2 (\<lambda>a b. \<bar>a - b\<bar>) yt yp))\<^sup>2 \<le> mean (map2 (\<lambda>a b. (a - b)\<^sup>2) yt yp)"
    using mean_sq_ge_sq_mean [of "map2 (\<lambda>a b. \<bar>a - b\<bar>) yt yp"] by (simp only: sq)
  then show ?thesis
    using real_le_rsqrt by blast
qed

lemma foldr_fadd_Fin: "foldr fadd (map Fin xs) (Fin 0) = Fin (sum_list xs)"
  by (induction xs) simp_all

lemma foldr_fadd_NaN: "NaN \<in> set xs \<Longrightarrow> foldr fadd xs z = NaN"
proof (induction xs)
  case Nil
  then show ?case by simp
next
  case (Cons x xs)
  then show ?case by (cases x) auto
qed

lemma np_mean_Fin: "xs \<noteq> [] \<Longrightarrow> np_mean (map Fin xs) = Fin (mean xs)"
  by (simp add: np_mean_def foldr_fadd_Fin mean_def)

lemma np_mean_NaN: "NaN \<in> set xs \<Longrightarrow> np_mean xs = NaN"
  by (simp add: np_mean_def foldr_fadd_NaN)

subsection \<open>Properties of the Evaluator\<close>

text \<open>
  C14. Evaluating a prediction against itself, on at least two samples,
  gives MSE, RMSE and MAE 0 and R2 exactly 1.
\<close>

theorem evaluate_identical:
  assumes "2 \<le> length y"
  shows "evaluate y y = Inr \<lparr>mse = 0, rmse = 0, mae = 0, r2 = Fin 1\<rparr>"
proof -
  have ne: "y \<noteq> []"
    using assms by auto
  have "r2_score y y = Inr (Fin 1)"
    using assms ne by (simp add: r2_score_def Let_def map2_same)
  with ne show ?thesis
    by (simp add: evaluate_checked map2_same mean_map_zero)
qed

theorem evaluate_identical_witness:
  "evaluate [1, 2] [1, 2] = Inr \<lparr>mse = 0, rmse = 0, mae = 0, r2 = Fin 1\<rparr>"
  by (rule evaluate_identical) simp

text \<open>
  On a single sample R2 is NaN, also for a perfect prediction:
  evaluating a one-element test set reports \<open>r2 = nan\<close>, not 1.
\<close>

theorem evaluate_single_sample:
  "evaluate [a] [a] = Inr \<lparr>mse = 0, rmse = 0, mae = 0, r2 = NaN\<rparr>"
proof -
  have "r2_score [a] [a] = Inr NaN"
    by (simp add: r2_score_def)
  then show ?thesis
    by (simp add: evaluate_checked mean_def)
qed

text \<open>
  The error path of \<open>evaluate\<close>: it raises \<open>ValueError\<close> exactly when
  targets and predictions differ in length or are empty, and returns the
  four metrics otherwise.
\<close>

theorem evaluate_error:
  "evaluate yt yp = Inl e \<longleftrightarrow> e = ValueError \<and> (length yt \<noteq> length yp \<or> yt = [])"
  by (rule evaluate_Inl_iff)

theorem evaluate_error_witness:
  "evaluate [1] [] = Inl ValueError \<and> (\<exists>m. evaluate [1] [2] = Inr m)"
proof
  show "evaluate [1] [] = Inl ValueError"
    using evaluate_error [of "[1]" "[]" ValueError] by simp
  obtain r where "r2_score [1::real] [2] = Inr r"
    using metrics_checked(3) [of "[1::real]" "[2]"] by auto
  then show "\<exists>m. evaluate [1] [2] = Inr m"
    using evaluate_checked by fastforce
qed

text \<open>
  C16. The metrics returned are consistent: MAE is non-negative and at most
  the RMSE, the RMSE squared is the MSE, and a finite R2 is at most 1.
\<close>

theorem evaluate_bounds:
  assumes "evaluate yt yp = Inr m"
  shows "0 \<le> mae m \<and> mae m \<le> rmse m \<and> (rmse m)\<^sup>2 = mse m \<and> (r2 m = Fin r \<longrightarrow> r \<le> 1)"
proof -
  note facts = evaluate_InrD [OF assms]
  have "0 \<le> mean (map2 (\<lambda>a b. \<bar>a - b\<bar>) yt yp)"
    by (rule mean_nonneg) auto
  moreover have "0 \<le> mean (map2 (\<lambda>a b. (a - b)\<^sup>2) yt yp)"
    by (rule mean_nonneg) auto
  moreover have "r2 m = Fin r \<longrightarrow> r \<le> 1"
    using facts r2_score_le_one by auto
  ultimately show ?thesis
    using facts mean_abs_le_sqrt_mean_sq by simp
qed

theorem evaluate_bounds_witness:
  "evaluate [0, 2] [1, 1] = Inr \<lparr>mse = 1, rmse = 1, mae = 1, r2 = Fin 0\<rparr>
   \<and> 0 \<le> (1::real) \<and> (1::real) \<le> 1 \<and> (1::real)\<^sup>2 = 1"
proof -
  have r: "r2_score [0, 2] [1, 1] = Inr (Fin 0)"
    by (simp add: r2_score_def mean_def)
  then have e: "evaluate [0, 2] [1, 1] = Inr \<lparr>mse = 1, rmse = 1, mae = 1, r2 = Fin 0\<rparr>"
    by (simp add: evaluate_checked mean_def)
  have "0 \<le> mae \<lparr>mse = 1, rmse = 1, mae = 1, r2 = Fin 0\<rparr>"
    using evaluate_bounds [OF e, of 0] by blast
  with e show ?thesis
    by simp
qed

end
