(* ===== verification/Trainer.thy ===== *)
theory Trainer
  imports Metrics
begin

text \<open>
  The EnsembleCoordinator: class \<open>ModelTrainer\<close> of
  \<open>src/nft/*/src/models/model_trainer.py\<close>. Its state is the pair of
  optional models (\<open>self.lstm_model\<close>, \<open>self.xgb_model\<close>), both \<open>None\<close>
  after \<open>__init__\<close>. The two learners are library code (Keras and XGBoost):
  they enter the model as a \<open>backend\<close> record of four functions, the
  fitting functions fallible (a backend error propagates unchanged), the
  prediction functions giving one value per sample. \<open>train_models\<close> builds
  and fits a fresh LSTM on the 3-D windows, then reshapes the windows to
  2-D and fits a fresh XGBoost model; \<open>predict\<close> combines the two
  predictions with the weights; \<open>cross_validate\<close> runs scikit-learn's
  \<open>TimeSeriesSplit\<close> and retrains, predicts (with the default weights) and
  evaluates on each fold, then averages the metrics.

  numpy arrays of windows carry their shape: \<open>np.array\<close> of a non-empty list
  of windows has shape \<open>(n, L, F)\<close>, of an empty list shape \<open>(0,)\<close>; slicing
  and fancy indexing along the first axis keep the other dimensions.
\<close>

record ndarray3 =
  shape :: "nat list"
  data :: "real list list list"

definition np_array_windows :: "nat \<Rightarrow> real list list list \<Rightarrow> ndarray3" where
  "np_array_windows F xs =
     (if xs = [] then \<lparr>shape = [0], data = []\<rparr>
      else \<lparr>shape = [length xs, length (hd xs), F], data = xs\<rparr>)"

text \<open>\<open>X[i:j]\<close> along the first axis.\<close>

definition arr_slice :: "ndarray3 \<Rightarrow> nat \<Rightarrow> nat \<Rightarrow> ndarray3" where
  "arr_slice a i j =
     \<lparr>shape = length (slice (data a) i j) # tl (shape a), data = slice (data a) i j\<rparr>"

text \<open>\<open>X[idx]\<close> for an index array \<open>idx\<close> (all indices in range).\<close>

definition arr_take :: "ndarray3 \<Rightarrow> nat list \<Rightarrow> ndarray3" where
  "arr_take a idx = \<lparr>shape = length idx # tl (shape a), data = map ((!) (data a)) idx\<rparr>"

text \<open>
  \<open>X.reshape(X.shape[0], -1)\<close>: each window flattened row by row. numpy
  cannot infer the \<open>-1\<close> of an array with no rows and raises \<open>ValueError\<close>.
\<close>

definition reshape2d :: "ndarray3 \<Rightarrow> real list list result" where
  "reshape2d a = (if data a = [] then Inl ValueError else Inr (map concat (data a)))"

record ('l, 'x) backend =
  lstm_fit :: "nat \<times> nat \<Rightarrow> real list list list \<Rightarrow> real list \<Rightarrow> 'l result"
  lstm_predict :: "'l \<Rightarrow> real list list \<Rightarrow> real"
  xgb_fit :: "real list list \<Rightarrow> real list \<Rightarrow> 'x result"
  xgb_predict :: "'x \<Rightarrow> real list \<Rightarrow> real"

record ('l, 'x) model_trainer =
  lstm_model :: "'l option"
  xgb_model :: "'x option"

definition trainer_init :: "('l, 'x) model_trainer" where
  "trainer_init = \<lparr>lstm_model = None, xgb_model = None\<rparr>"

text \<open>
  \<open>train_models\<close>: \<open>input_shape = (X_train.shape[1], X_train.shape[2])\<close>
  raises \<open>IndexError\<close> on the 1-D empty array.
\<close>

definition train_models ::
  "('l, 'x) backend \<Rightarrow> ('l, 'x) model_trainer \<Rightarrow> ndarray3 \<Rightarrow> real list \<Rightarrow> ('l, 'x) model_trainer result" where
  "train_models be st X y =
     (case shape X of
        _ # s1 # s2 # _ \<Rightarrow>
          bind_result (lstm_fit be (s1, s2) (data X) y) (\<lambda>m1.
          bind_result (reshape2d X) (\<lambda>X2.
          bind_result (xgb_fit be X2 y) (\<lambda>m2.
            Inr (st\<lparr>lstm_model := Some m1, xgb_model := Some m2\<rparr>))))
      | _ \<Rightarrow> Inl IndexError)"

definition default_weights :: "real \<times> real" where
  "default_weights = (0.6, 0.4)"

text \<open>
  \<open>predict\<close>: \<open>self.lstm_model.predict\<close> on \<open>None\<close> raises
  \<open>AttributeError\<close>; the ensemble is
  \<open>w[0] * lstm_pred.flatten() + w[1] * xgb_pred\<close>, elementwise.
\<close>

definition predict ::
  "('l, 'x) backend \<Rightarrow> ('l, 'x) model_trainer \<Rightarrow> ndarray3 \<Rightarrow> real \<times> real \<Rightarrow> real list result" where
  "predict be st X w =
     (case lstm_model st of
        None \<Rightarrow> Inl AttributeError
      | Some m1 \<Rightarrow>
          (let lp = map (lstm_predict be m1) (data X)
           in bind_result (reshape2d X) (\<lambda>X2.
                case xgb_model st of
                  None \<Rightarrow> Inl AttributeError
                | Some m2 \<Rightarrow>
                    (let xp = map (xgb_predict be m2) X2
                     in Inr (map2 (\<lambda>a b. fst w * a + snd w * b) lp xp)))))"

text \<open>
  scikit-learn's \<open>TimeSeriesSplit(n_splits=k).split\<close> on \<open>n\<close> samples (no
  gap, no maximal training size): \<open>k + 1\<close> folds of \<open>n div (k + 1)\<close>
  samples; validation block \<open>j\<close> starts at \<open>n - k * ts + j * ts\<close> and its
  training set is every earlier index.
\<close>

definition tss_split :: "nat \<Rightarrow> nat \<Rightarrow> (nat list \<times> nat list) list result" where
  "tss_split k n =
     (if k < 2 then Inl ValueError
      else (let ts = n div (k + 1)
            in if n < k + 1 then Inl ValueError
               else if n \<le> k * ts then Inl ValueError
               else Inr (map (\<lambda>j. let s = n - k * ts + j * ts in ([0..<s], [s..<s + ts])) [0..<k])))"

text \<open>The loop over the folds, threading the trainer through \<open>train_models\<close>.\<close>

fun cv_folds ::
  "('l, 'x) backend \<Rightarrow> ('l, 'x) model_trainer \<Rightarrow> ndarray3 \<Rightarrow> real list \<Rightarrow> (nat list \<times> nat list) list
   \<Rightarrow> (('l, 'x) model_trainer \<times> metrics list) result" where
  "cv_folds be st X y [] = Inr (st, [])"
| "cv_folds be st X y ((tr, va) # fs) =
     bind_result (train_models be st (arr_take X tr) (map ((!) y) tr)) (\<lambda>st1.
     bind_result (predict be st1 (arr_take X va) default_weights) (\<lambda>p.
     bind_result (evaluate (map ((!) y) va) p) (\<lambda>sc.
     bind_result (cv_folds be st1 X y fs) (\<lambda>(st2, scs). Inr (st2, sc # scs)))))"

definition cross_validate ::
  "('l, 'x) backend \<Rightarrow> ('l, 'x) model_trainer \<Rightarrow> ndarray3 \<Rightarrow> real list \<Rightarrow> nat
   \<Rightarrow> (('l, 'x) model_trainer \<times> metrics) result" where
  "cross_validate be st X y k =
     bind_result (tss_split k (length (data X))) (\<lambda>folds.
     bind_result (cv_folds be st X y folds) (\<lambda>(st', scores).
       Inr (st', average_metrics scores)))"

text \<open>
  A concrete backend for the examples: the "LSTM" predicts the mean training
  target and refuses an empty training set, the "XGBoost" predicts the first
  flattened feature of a window.
\<close>

definition demo_backend :: "(real, unit) backend" where
  "demo_backend =
     \<lparr>lstm_fit = (\<lambda>_ X y. if y = [] then Inl ValueError else Inr (mean y)),
      lstm_predict = (\<lambda>m _. m),
      xgb_fit = (\<lambda>_ _. Inr ()),
      xgb_predict = (\<lambda>_ row. hd row)\<rparr>"

text \<open>Six windows of one row of one zero feature, for the examples.\<close>

definition demo_windows :: ndarray3 where
  "demo_windows = np_array_windows 1 (replicate 6 [[0]])"

subsection \<open>Lemmas\<close>

lemma reshape2d_Inr [simp]: "reshape2d a = Inr X2 \<longleftrightarrow> data a \<noteq> [] \<and> X2 = map concat (data a)"
  by (auto simp: reshape2d_def)

lemma data_arr_take [simp]: "data (arr_take a idx) = map ((!) (data a)) idx"
  by (simp add: arr_take_def)

lemma shape_arr_take [simp]: "shape (arr_take a idx) = length idx # tl (shape a)"
  by (simp add: arr_take_def)

lemma train_models_Inr:
  "train_models be st X y = Inr st' \<longleftrightarrow>
     (\<exists>s0 s1 s2 r m1 m2. shape X = s0 # s1 # s2 # r \<and> data X \<noteq> []
        \<and> lstm_fit be (s1, s2) (data X) y = Inr m1
        \<and> xgb_fit be (map concat (data X)) y = Inr m2
        \<and> st' = \<lparr>lstm_model = Some m1, xgb_model = Some m2\<rparr>)"
  by (auto simp: train_models_def split: list.splits)

lemma train_models_state_indep: "train_models be st X y = train_models be st' X y"
  by (cases st, cases st') (simp add: train_models_def split: list.splits)

lemma predict_Some:
  assumes "lstm_model st = Some m1" and "xgb_model st = Some m2" and "data X \<noteq> []"
  shows "predict be st X w =
           Inr (map2 (\<lambda>a b. fst w * a + snd w * b)
                  (map (lstm_predict be m1) (data X)) (map (xgb_predict be m2) (map concat (data X))))"
  using assms by (simp add: predict_def reshape2d_def)

lemma predict_Inr:
  "predict be st X w = Inr p \<longleftrightarrow>
     (\<exists>m1 m2. lstm_model st = Some m1 \<and> xgb_model st = Some m2 \<and> data X \<noteq> []
        \<and> p = map2 (\<lambda>a b. fst w * a + snd w * b)
                (map (lstm_predict be m1) (data X)) (map (xgb_predict be m2) (map concat (data X))))"
  by (auto simp: predict_def reshape2d_def Let_def split: option.splits)

lemma map2_map_map: "map2 f (map g xs) (map h xs) = map (\<lambda>x. f (g x) (h x)) xs"
  by (induction xs) simp_all

lemma tss_split_Inr:
  "tss_split k n = Inr folds \<longleftrightarrow>
     2 \<le> k \<and> k + 1 \<le> n
     \<and> folds = map (\<lambda>j. let s = n - k * (n div (k + 1)) + j * (n div (k + 1))
                         in ([0..<s], [s..<s + n div (k + 1)])) [0..<k]"
proof -
  have lt: "k * (n div (k + 1)) < n" if "k + 1 \<le> n"
  proof -
    have "(k + 1) * (n div (k + 1)) \<le> n"
      by (rule times_div_less_eq_dividend)
    moreover have "0 < n div (k + 1)"
      using that by (simp add: div_greater_zero_iff)
    ultimately show ?thesis
      by (simp add: algebra_simps)
  qed
  show ?thesis
  proof (cases "2 \<le> k \<and> k + 1 \<le> n")
    case True
    with lt show ?thesis
      by (auto simp: tss_split_def Let_def)
  next
    case False
    then show ?thesis
      by (auto simp: tss_split_def Let_def)
  qed
qed

lemma cv_folds_Inr:
  assumes "cv_folds be st X y fs = Inr (st', scs)"
  shows "length scs = length fs
         \<and> (\<forall>j<length fs. \<exists>st1 p.
               train_models be trainer_init (arr_take X (fst (fs ! j))) (map ((!) y) (fst (fs ! j))) = Inr st1
             \<and> predict be st1 (arr_take X (snd (fs ! j))) default_weights = Inr p
             \<and> evaluate (map ((!) y) (snd (fs ! j))) p = Inr (scs ! j))"
  using assms
proof (induction fs arbitrary: st st' scs)
  case Nil
  then show ?case by simp
next
  case (Cons f fs)
  obtain tr va where f: "f = (tr, va)"
    by fastforce
  obtain st1 p sc st2 scs' where
    tm: "train_models be st (arr_take X tr) (map ((!) y) tr) = Inr st1"
    and pr: "predict be st1 (arr_take X va) default_weights = Inr p"
    and ev: "evaluate (map ((!) y) va) p = Inr sc"
    and rest: "cv_folds be st1 X y fs = Inr (st2, scs')"
    and scs: "scs = sc # scs'"
    using Cons.prems by (auto simp: f split: prod.splits)
  have tm0: "train_models be trainer_init (arr_take X tr) (map ((!) y) tr) = Inr st1"
    using tm train_models_state_indep by metis
  have IH: "length scs' = length fs
         \<and> (\<forall>j<length fs. \<exists>st1 p.
               train_models be trainer_init (arr_take X (fst (fs ! j))) (map ((!) y) (fst (fs ! j))) = Inr st1
             \<and> predict be st1 (arr_take X (snd (fs ! j))) default_weights = Inr p
             \<and> evaluate (map ((!) y) (snd (fs ! j))) p = Inr (scs' ! j))"
    by (rule Cons.IH [OF rest])
  show ?case
  proof (intro conjI allI impI)
    show "length scs = length (f # fs)"
      using IH scs by simp
  next
    fix j assume j: "j < length (f # fs)"
    show "\<exists>st1 p.
               train_models be trainer_init (arr_take X (fst ((f # fs) ! j))) (map ((!) y) (fst ((f # fs) ! j))) = Inr st1
             \<and> predict be st1 (arr_take X (snd ((f # fs) ! j))) default_weights = Inr p
             \<and> evaluate (map ((!) y) (snd ((f # fs) ! j))) p = Inr (scs ! j)"
    proof (cases j)
      case 0
      then show ?thesis using tm0 pr ev scs f by auto
    next
      case (Suc j')
      then show ?thesis using IH j scs by simp
    qed
  qed
qed

lemma tss_split_2_6: "tss_split 2 6 = Inr [([0, 1], [2, 3]), ([0, 1, 2, 3], [4, 5])]"
  by code_simp

lemma demo_windows_take:
  "\<forall>i\<in>set idx. i < 6 \<Longrightarrow>
     arr_take demo_windows idx = \<lparr>shape = [length idx, 1, 1], data = map (\<lambda>_. [[0]]) idx\<rparr>"
  by (simp add: demo_windows_def np_array_windows_def arr_take_def)

lemma evaluate_zeros2: "evaluate [0, 0] [0, 0] = Inr \<lparr>mse = 0, rmse = 0, mae = 0, r2 = Fin 1\<rparr>"
  by (simp add: evaluate_def mean_squared_error_def mean_absolute_error_def r2_score_def mean_def)

lemma demo_cross_validate:
  "cross_validate demo_backend trainer_init demo_windows (replicate 6 0) 2
     = Inr (\<lparr>lstm_model = Some 0, xgb_model = Some ()\<rparr>, \<lparr>mse = 0, rmse = 0, mae = 0, r2 = Fin 1\<rparr>)"
proof -
  have "length (data demo_windows) = 6"
    by (simp add: demo_windows_def np_array_windows_def)
  then show ?thesis
    by (simp add: cross_validate_def tss_split_2_6 demo_windows_take train_models_def demo_backend_def
        predict_def reshape2d_def mean_def evaluate_zeros2 average_metrics_def np_mean_def
        default_weights_def)
qed

subsection \<open>Properties of the EnsembleCoordinator\<close>

text \<open>
  C17. No warm start: \<open>train_models\<close> builds both models afresh, so its
  outcome does not depend on the trainer's previous state, and a successful
  call leaves exactly the two models fitted on this data.
\<close>

theorem train_models_fresh:
  "train_models be st X y = train_models be trainer_init X y
   \<and> (train_models be st X y = Inr st' \<longrightarrow>
        (\<exists>m1 m2. lstm_fit be (shape X ! 1, shape X ! 2) (data X) y = Inr m1
                \<and> xgb_fit be (map concat (data X)) y = Inr m2
                \<and> st' = \<lparr>lstm_model = Some m1, xgb_model = Some m2\<rparr>))"
  using train_models_state_indep [of be st X y trainer_init] train_models_Inr [of be st X y st']
  by auto

theorem train_models_fresh_witness:
  "train_models demo_backend \<lparr>lstm_model = Some 5, xgb_model = None\<rparr> demo_windows (replicate 6 1)
     = Inr \<lparr>lstm_model = Some 1, xgb_model = Some ()\<rparr>
   \<and> lstm_fit demo_backend (1, 1) (replicate 6 [[0]]) (replicate 6 1) = Inr 1"
proof -
  have run: "train_models demo_backend \<lparr>lstm_model = Some 5, xgb_model = None\<rparr> demo_windows (replicate 6 1)
     = Inr \<lparr>lstm_model = Some 1, xgb_model = Some ()\<rparr>"
    by (simp add: train_models_def demo_windows_def np_array_windows_def demo_backend_def mean_def
        sum_list_replicate)
  have "\<exists>m1 m2. lstm_fit demo_backend (shape demo_windows ! 1, shape demo_windows ! 2) (data demo_windows)
                   (replicate 6 1) = Inr m1
          \<and> xgb_fit demo_backend (map concat (data demo_windows)) (replicate 6 1) = Inr m2
          \<and> \<lparr>lstm_model = Some (1::real), xgb_model = Some ()\<rparr> = \<lparr>lstm_model = Some m1, xgb_model = Some m2\<rparr>"
    using train_models_fresh [of demo_backend "\<lparr>lstm_model = Some 5, xgb_model = None\<rparr>" demo_windows
        "replicate 6 1" "\<lparr>lstm_model = Some 1, xgb_model = Some ()\<rparr>"] run by blast
  then have "lstm_fit demo_backend (1, 1) (replicate 6 [[0]]) (replicate 6 1) = Inr 1"
    by (simp add: demo_windows_def np_array_windows_def)
  with run show ?thesis
    by blast
qed

text \<open>
  C18. Predicting with a trainer that was never trained raises
  \<open>AttributeError\<close> (\<open>'NoneType' object has no attribute 'predict'\<close>):
  when the LSTM is missing, or when the XGBoost model is missing and the
  input has rows (with no rows the reshape raises \<open>ValueError\<close> first).
\<close>

theorem predict_untrained:
  assumes "lstm_model st = None \<or> (xgb_model st = None \<and> data X \<noteq> [])"
  shows "predict be st X w = Inl AttributeError"
  using assms by (auto simp: predict_def reshape2d_def split: option.splits)

theorem predict_untrained_witness:
  "predict demo_backend trainer_init demo_windows (0.5, 0.5) = Inl AttributeError"
  by (rule predict_untrained) (simp add: trainer_init_def)

text \<open>
  C19. The ensemble with weights (1, 0) is the LSTM's prediction exactly,
  and with weights (0, 1) the XGBoost prediction on the flattened windows.
\<close>

theorem ensemble_single_model:
  assumes "lstm_model st = Some m1" and "xgb_model st = Some m2" and "data X \<noteq> []"
  shows "predict be st X (1, 0) = Inr (map (lstm_predict be m1) (data X))
         \<and> predict be st X (0, 1) = Inr (map (xgb_predict be m2) (map concat (data X)))"
  using assms by (simp add: predict_Some map2_map_map comp_def)

theorem ensemble_single_model_witness:
  "predict demo_backend \<lparr>lstm_model = Some 3, xgb_model = Some ()\<rparr> demo_windows (1, 0)
     = Inr (replicate 6 3)"
proof -
  have "predict demo_backend \<lparr>lstm_model = Some 3, xgb_model = Some ()\<rparr> demo_windows (1, 0)
          = Inr (map (lstm_predict demo_backend 3) (data demo_windows))"
    using ensemble_single_model [of "\<lparr>lstm_model = Some 3, xgb_model = Some ()\<rparr>" 3 "()" demo_windows demo_backend]
    by (simp add: demo_windows_def np_array_windows_def)
  then show ?thesis
    by (simp add: demo_windows_def np_array_windows_def demo_backend_def)
qed

lemma tss_split_folds_shape:
  assumes "tss_split k n = Inr folds"
  shows "length folds = k
         \<and> (\<forall>(tr, va)\<in>set folds. tr \<noteq> [] \<and> va \<noteq> [] \<and> tr = [0..<hd va]
               \<and> va = [hd va..<hd va + n div (k + 1)] \<and> hd va + n div (k + 1) \<le> n)"
proof -
  define ts where "ts = n div (k + 1)"
  have k: "2 \<le> k" and n: "k + 1 \<le> n"
    and folds: "folds = map (\<lambda>j. ([0..<n - k * ts + j * ts], [n - k * ts + j * ts..<n - k * ts + j * ts + ts])) [0..<k]"
    using assms by (simp_all add: tss_split_Inr ts_def Let_def)
  have ts: "0 < ts"
    using n by (simp add: ts_def div_greater_zero_iff)
  have le: "(k + 1) * ts \<le> n"
    unfolding ts_def by (rule times_div_less_eq_dividend)
  have "n - k * ts + j * ts + ts \<le> n" if "j < k" for j
  proof -
    have "j * ts + ts \<le> k * ts"
      using that by (metis add.commute mult_Suc mult_le_mono1 Suc_leI)
    then show ?thesis
      using le by (simp add: algebra_simps)
  qed
  moreover have "0 < n - k * ts + j * ts" for j
    using le ts by (simp add: algebra_simps)
  ultimately show ?thesis
    using ts by (auto simp: folds ts_def)
qed

lemma tss_split_Inl_iff:
  "(\<exists>e. tss_split k n = Inl e) \<longleftrightarrow> k < 2 \<or> n < k + 1"
proof
  assume "\<exists>e. tss_split k n = Inl e"
  then have "\<nexists>folds. tss_split k n = Inr folds"
    by auto
  then show "k < 2 \<or> n < k + 1"
    using tss_split_Inr [of k n] by auto
next
  assume "k < 2 \<or> n < k + 1"
  then show "\<exists>e. tss_split k n = Inl e"
    by (auto simp: tss_split_def)
qed

text \<open>
  C22. Cross-validation over \<open>k\<close> folds returns the arithmetic mean of
  exactly \<open>k\<close> fold scores, and the score of fold \<open>j\<close> is the evaluation,
  on that fold's validation block, of two models trained from scratch on that
  fold's training block and combined with the default weights.
\<close>

theorem cross_validate_folds:
  assumes "cross_validate be st X y k = Inr (st', avg)"
  shows "\<exists>folds scores. tss_split k (length (data X)) = Inr folds
           \<and> length scores = k \<and> avg = average_metrics scores
           \<and> (\<forall>j<k. \<exists>st1 p.
                 train_models be trainer_init (arr_take X (fst (folds ! j))) (map ((!) y) (fst (folds ! j))) = Inr st1
               \<and> predict be st1 (arr_take X (snd (folds ! j))) default_weights = Inr p
               \<and> evaluate (map ((!) y) (snd (folds ! j))) p = Inr (scores ! j))"
proof -
  obtain folds st2 scores where sp: "tss_split k (length (data X)) = Inr folds"
    and cv: "cv_folds be st X y folds = Inr (st2, scores)"
    and avg: "avg = average_metrics scores"
    using assms by (auto simp: cross_validate_def split: prod.splits)
  have "length folds = k"
    using sp by (simp add: tss_split_Inr)
  with cv_folds_Inr [OF cv] sp avg show ?thesis
    by auto
qed

theorem cross_validate_folds_witness:
  "\<exists>scores. length scores = 2
     \<and> \<lparr>mse = 0, rmse = 0, mae = 0, r2 = Fin 1\<rparr> = average_metrics scores"
  using cross_validate_folds [OF demo_cross_validate] tss_split_2_6 by auto



text \<open>
  C21. Cross-validation with \<open>n_splits = k\<close> raises \<open>ValueError\<close> before any
  training when \<open>k < 2\<close> or when there are fewer than \<open>k + 1\<close> windows:
  with the default five splits, fewer than six windows.
\<close>

theorem cross_validate_too_few_samples:
  assumes "k < 2 \<or> length (data X) < k + 1"
  shows "cross_validate be st X y k = Inl ValueError"
  using assms by (auto simp: cross_validate_def tss_split_def)

theorem cross_validate_too_few_samples_witness:
  "cross_validate demo_backend trainer_init demo_windows (replicate 6 0) 6 = Inl ValueError"
  by (rule cross_validate_too_few_samples) (simp add: demo_windows_def np_array_windows_def)

subsection \<open>Runs that succeed\<close>

text \<open>
  The contract a backend meets when both learners fit any non-empty training
  set: the condition under which the coordinator's own code never fails.
\<close>

lemma train_models_ok:
  assumes "\<forall>sh X y. y \<noteq> [] \<longrightarrow> (\<exists>m. lstm_fit be sh X y = Inr m)"
    and "\<forall>X y. X \<noteq> [] \<longrightarrow> y \<noteq> [] \<longrightarrow> (\<exists>m. xgb_fit be X y = Inr m)"
    and "shape X = s0 # s1 # s2 # r" and "data X \<noteq> []" and "y \<noteq> []"
  shows "\<exists>m1 m2. train_models be st X y = Inr \<lparr>lstm_model = Some m1, xgb_model = Some m2\<rparr>"
proof -
  obtain m1 where "lstm_fit be (s1, s2) (data X) y = Inr m1"
    using assms(1,5) by blast
  moreover obtain m2 where "xgb_fit be (map concat (data X)) y = Inr m2"
    using assms(2,4,5) by simp blast
  ultimately show ?thesis
    using assms(3,4) train_models_Inr by blast
qed

lemma predict_ok:
  assumes "data X \<noteq> []"
  shows "\<exists>p. predict be \<lparr>lstm_model = Some m1, xgb_model = Some m2\<rparr> X w = Inr p
             \<and> length p = length (data X)"
  using assms by (simp add: predict_Some)

lemma evaluate_ok:
  "length yt = length yp \<Longrightarrow> yt \<noteq> [] \<Longrightarrow> \<exists>m. evaluate yt yp = Inr m"
  using metrics_checked(3) evaluate_checked by metis

lemma cv_folds_ok:
  assumes "\<forall>sh X y. y \<noteq> [] \<longrightarrow> (\<exists>m. lstm_fit be sh X y = Inr m)"
    and "\<forall>X y. X \<noteq> [] \<longrightarrow> y \<noteq> [] \<longrightarrow> (\<exists>m. xgb_fit be X y = Inr m)"
    and "shape X = s0 # s1 # s2 # r"
    and "\<forall>(tr, va)\<in>set fs. tr \<noteq> [] \<and> va \<noteq> []"
  shows "\<exists>res. cv_folds be st X y fs = Inr res"
  using assms(4)
proof (induction fs arbitrary: st)
  case Nil
  then show ?case by simp
next
  case (Cons f fs)
  obtain tr va where f: "f = (tr, va)" by fastforce
  with Cons.prems have tr: "tr \<noteq> []" and va: "va \<noteq> []" by auto
  obtain m1 m2 where tm: "train_models be st (arr_take X tr) (map ((!) y) tr)
                           = Inr \<lparr>lstm_model = Some m1, xgb_model = Some m2\<rparr>"
    using train_models_ok [OF assms(1,2), of "arr_take X tr" "length tr" s1 s2 r "map ((!) y) tr" st]
      assms(3) tr by auto
  obtain p where pr: "predict be \<lparr>lstm_model = Some m1, xgb_model = Some m2\<rparr> (arr_take X va) default_weights = Inr p"
    and lp: "length p = length va"
    using predict_ok [of "arr_take X va" be m1 m2 default_weights] va by auto
  obtain sc where ev: "evaluate (map ((!) y) va) p = Inr sc"
    using evaluate_ok [of "map ((!) y) va" p] lp va by auto
  have "\<forall>(tr, va)\<in>set fs. tr \<noteq> [] \<and> va \<noteq> []"
    using Cons.prems by simp
  then obtain res where "cv_folds be \<lparr>lstm_model = Some m1, xgb_model = Some m2\<rparr> X y fs = Inr res"
    using Cons.IH by blast
  then show ?case
    using tm pr ev by (simp add: f split: prod.splits)
qed

lemma cross_validate_ok:
  assumes "\<forall>sh X y. y \<noteq> [] \<longrightarrow> (\<exists>m. lstm_fit be sh X y = Inr m)"
    and "\<forall>X y. X \<noteq> [] \<longrightarrow> y \<noteq> [] \<longrightarrow> (\<exists>m. xgb_fit be X y = Inr m)"
    and "shape X = s0 # s1 # s2 # r" and "2 \<le> k" and "k + 1 \<le> length (data X)"
  shows "\<exists>res. cross_validate be st X y k = Inr res"
proof -
  obtain folds where sp: "tss_split k (length (data X)) = Inr folds"
    using assms(4,5) tss_split_Inr by blast
  then have "\<forall>(tr, va)\<in>set folds. tr \<noteq> [] \<and> va \<noteq> []"
    using tss_split_folds_shape [OF sp] by auto
  then obtain st' scores where "cv_folds be st X y folds = Inr (st', scores)"
    using cv_folds_ok [OF assms(1-3)] by fastforce
  with sp show ?thesis
    by (simp add: cross_validate_def)
qed

end
