(* ===== verification/Pipeline.thy ===== *)
theory Pipeline
  imports Windows Trainer
begin

text \<open>
  The application flow of \<open>main()\<close> in \<open>src/nft/*/src/main.py\<close>
  (lines 64-127), after the sidebar has produced its inputs: the frame
  returned by \<open>get_stock_data\<close> (sorted by date, indicators added), the
  windows of \<open>prepare_data\<close>, the 80/20 prefix/suffix split, training,
  the weighted prediction on the test windows, its evaluation, the dates
  passed to the plot, and the cross-validation. Every exception of the block
  is caught and shown (\<open>Failed\<close>); an empty frame is reported before
  anything runs (\<open>FetchFailed\<close>). Here the provider's bars are an input;
  the fetch itself and the sidebar are composed with this flow in \<open>App\<close>.
\<close>

text \<open>
  \<open>int(len(X) * 0.8)\<close>. The float product rounds to the nearest double of
  \<open>0.8 n\<close>, which has the same integer part as the exact product for every
  array length that fits in memory; the model uses the exact product.
\<close>

definition train_size :: "nat \<Rightarrow> nat" where
  "train_size n = nat \<lfloor>real n * 0.8\<rfloor>"

record app_report =
  test_metrics :: metrics
  test_dates :: "nat list"
  y_test :: "real list"
  y_pred :: "real list"
  cv_scores :: metrics

text \<open>
  How a run ends. \<open>CVFailed\<close> is an exception of \<open>cross_validate\<close>, raised after
  the test metrics, dates and predictions have been computed (and shown).
\<close>

datatype app_outcome =
    FetchFailed
  | Failed py_error
  | CVFailed metrics "nat list" "real list" "real list" py_error
  | Report app_report

text \<open>
  The flow from the frame \<open>df\<close> that \<open>get_stock_data\<close> returned: the
  \<open>len(df) == 0\<close> check, then the body of the \<open>try\<close> block.
\<close>

definition main_frame ::
  "('l, 'x) backend \<Rightarrow> string \<Rightarrow> ebar list \<Rightarrow> nat \<Rightarrow> real \<Rightarrow> app_outcome" where
  "main_frame be tok df L w =
     (let dp = data_processor_init tok;
          mt = trainer_init
      in if df = [] then FetchFailed
      else (case prepare_data dp df L of
        Inl e \<Rightarrow> Failed e
      | Inr (dp1, Xs, ys) \<Rightarrow>
          (let X = np_array_windows n_feature_columns Xs;
               ts = train_size (length Xs);
               X_train = arr_slice X 0 ts;
               X_test = arr_slice X ts (length Xs);
               y_train = take ts ys;
               y_test' = drop ts ys
           in case train_models be mt X_train y_train of
             Inl e \<Rightarrow> Failed e
           | Inr mt1 \<Rightarrow>
               (case predict be mt1 X_test (w, 1 - w) of
                 Inl e \<Rightarrow> Failed e
               | Inr yp \<Rightarrow>
                   (case evaluate y_test' yp of
                     Inl e \<Rightarrow> Failed e
                   | Inr m \<Rightarrow>
                       (let dates = drop (ts + L) (map trade_date df)
                        in case cross_validate be mt1 X ys 5 of
                             Inl e \<Rightarrow> CVFailed m dates y_test' yp e
                           | Inr (mt2, cv) \<Rightarrow>
                               Report \<lparr>test_metrics = m, test_dates = dates, y_test = y_test',
                                       y_pred = yp, cv_scores = cv\<rparr>))))))"

text \<open>\<open>main()\<close> when the provider returned the bars \<open>bars\<close>: \<open>get_stock_data\<close> sorts them and adds the indicators.\<close>

definition main_run ::
  "('l, 'x) backend \<Rightarrow> string \<Rightarrow> bar list \<Rightarrow> nat \<Rightarrow> real \<Rightarrow> app_outcome" where
  "main_run be tok bars L w = main_frame be tok (stock_frame bars) L w"

text \<open>A strictly rising series of \<open>n\<close> daily bars, for the examples.\<close>

definition ramp_bars :: "nat \<Rightarrow> bar list" where
  "ramp_bars n = map (\<lambda>k. \<lparr>trade_date = k, open' = real k, high = real k, low = real k,
                            close = real k, vol = 1\<rparr>) [0..<n]"

subsection \<open>The warm-up rows\<close>

lemma map_Fin_comp_close: "map (Fin \<circ> close) df = map Fin (map close df)"
  by simp

lemma MA_NaN_iff:
  assumes "i < length df"
  shows "(MA5 (add_technical_indicators df ! i) = NaN \<longleftrightarrow> i < 4)
       \<and> (MA10 (add_technical_indicators df ! i) = NaN \<longleftrightarrow> i < 9)
       \<and> (MA20 (add_technical_indicators df ! i) = NaN \<longleftrightarrow> i < 19)"
  using assms
  by (simp add: nth_add_technical_indicators rolling_mean_def rolling_map_Fin
      map_Fin_comp_close del: map_map)

lemma Volatility_Fin:
  assumes "i < length df" and "19 \<le> i"
  shows "\<exists>r. Volatility (add_technical_indicators df ! i) = Fin r"
proof -
  have "length (map close (slice df (i - 19) (i + 1))) = 20"
    using assms by (simp add: slice_full_length)
  then obtain r where "std1 (map close (slice df (i - 19) (i + 1))) = Fin r"
    using std1_window_Fin by blast
  with assms show ?thesis
    by (simp add: Volatility_add_technical_indicators)
qed

lemma Volatility_NaN_iff:
  assumes "i < length df"
  shows "Volatility (add_technical_indicators df ! i) = NaN \<longleftrightarrow> i < 19"
  using Volatility_Fin [OF assms] assms
  by (cases "i < 19") (auto simp: Volatility_add_technical_indicators)

lemma row_has_nan_add_technical_indicators:
  assumes "i < length df"
  shows "row_has_nan (add_technical_indicators df ! i)
           \<longleftrightarrow> i < 19 \<or> RSI (add_technical_indicators df ! i) = NaN"
proof -
  obtain a where a: "MACD (add_technical_indicators df ! i) = Fin a"
    using MACD_Signal_add_technical_indicators(1) [OF assms] by blast
  obtain b where b: "Signal (add_technical_indicators df ! i) = Fin b"
    using MACD_Signal_add_technical_indicators(2) [OF assms] by blast
  have "NaN \<in> set (feature_row (add_technical_indicators df ! i))
          \<longleftrightarrow> MA5 (add_technical_indicators df ! i) = NaN \<or> MA10 (add_technical_indicators df ! i) = NaN
            \<or> MA20 (add_technical_indicators df ! i) = NaN \<or> RSI (add_technical_indicators df ! i) = NaN
            \<or> Volatility (add_technical_indicators df ! i) = NaN"
    by (auto simp: feature_row_def a b)
  then show ?thesis
    using MA_NaN_iff [OF assms] Volatility_NaN_iff [OF assms]
    by (auto simp: row_has_nan_def)
qed

lemma cells_NaN_or_fin:
  assumes "i < length df"
  shows "\<forall>c\<in>set (feature_row (add_technical_indicators df ! i)). c = NaN \<or> is_fin c"
proof -
  have ma: "MA5 (add_technical_indicators df ! i) = NaN \<or> is_fin (MA5 (add_technical_indicators df ! i))"
    "MA10 (add_technical_indicators df ! i) = NaN \<or> is_fin (MA10 (add_technical_indicators df ! i))"
    "MA20 (add_technical_indicators df ! i) = NaN \<or> is_fin (MA20 (add_technical_indicators df ! i))"
    using assms
    by (simp_all add: nth_add_technical_indicators rolling_mean_def rolling_map_Fin
        map_Fin_comp_close del: map_map)
  have "RSI (add_technical_indicators df ! i) = NaN \<or> is_fin (RSI (add_technical_indicators df ! i))"
    using rsi_column_cases [of i "map close df" 14] assms
    by (auto simp: RSI_add_technical_indicators)
  moreover have "Volatility (add_technical_indicators df ! i) = NaN
                 \<or> is_fin (Volatility (add_technical_indicators df ! i))"
    using Volatility_NaN_iff [OF assms] Volatility_Fin [OF assms] by (cases "i < 19") auto
  moreover obtain a b where "MACD (add_technical_indicators df ! i) = Fin a"
      and "Signal (add_technical_indicators df ! i) = Fin b"
    using MACD_Signal_add_technical_indicators [OF assms] by blast
  ultimately show ?thesis
    using ma by (auto simp: feature_row_def)
qed

lemma dropna_enriched_fin:
  "\<forall>r\<in>set (dropna (add_technical_indicators df)). \<forall>c\<in>set (feature_row r). is_fin c"
proof (intro ballI)
  fix r c
  assume r: "r \<in> set (dropna (add_technical_indicators df))" and c: "c \<in> set (feature_row r)"
  then obtain i where i: "i < length df" and ri: "r = add_technical_indicators df ! i"
    by (auto simp: dropna_def in_set_conv_nth)
  have "\<not> row_has_nan r"
    using r by (simp add: dropna_def)
  then have "c \<noteq> NaN"
    using c by (auto simp: row_has_nan_def)
  then show "is_fin c"
    using cells_NaN_or_fin [OF i] c ri by auto
qed

lemma check_array_enriched:
  assumes "dropna (add_technical_indicators df) \<noteq> []"
  shows "\<exists>Xr. check_array (map feature_row (dropna (add_technical_indicators df))) = Inr Xr"
proof (cases "check_array (map feature_row (dropna (add_technical_indicators df)))")
  case (Inl e)
  then show ?thesis
    using assms dropna_enriched_fin [of df] by (auto simp: check_array_Inl)
qed simp

lemma filter_eq_drop:
  assumes "\<forall>i<length xs. P (xs ! i) \<longleftrightarrow> k \<le> i"
  shows "filter P xs = drop k xs"
proof -
  have "filter P (take k xs) = []"
    using assms by (auto simp: filter_empty_conv in_set_conv_nth)
  moreover have "filter P (drop k xs) = drop k xs"
    using assms by (auto simp: filter_id_conv in_set_conv_nth)
  ultimately show ?thesis
    by (metis append_take_drop_id filter_append self_append_conv2)
qed

lemma dropna_rising:
  assumes "sorted_wrt (<) (map close df)"
  shows "dropna (add_technical_indicators df) = drop 19 (add_technical_indicators df)"
  unfolding dropna_def
proof (rule filter_eq_drop, intro allI impI)
  fix i assume "i < length (add_technical_indicators df)"
  then have i: "i < length df" by simp
  have "19 \<le> i \<Longrightarrow> RSI (add_technical_indicators df ! i) = Fin 100"
    using assms i by (simp add: RSI_add_technical_indicators rsi_column_rising)
  then show "(\<not> row_has_nan (add_technical_indicators df ! i)) \<longleftrightarrow> 19 \<le> i"
    using row_has_nan_add_technical_indicators [OF i] by auto
qed

lemma rising_frame_run:
  assumes "sorted_wrt (<) (map close bars)" and "19 < length bars"
  shows "\<exists>Xr sc. prepare_data dp (add_technical_indicators bars) L
           = Inr (dp\<lparr>scaler := Some sc\<rparr>,
                  make_sequences (map (transform_row sc) Xr)
                    (map close (drop 19 (add_technical_indicators bars))) L)
         \<and> length Xr = length bars - 19"
proof -
  have d: "dropna (add_technical_indicators bars) = drop 19 (add_technical_indicators bars)"
    by (rule dropna_rising [OF assms(1)])
  then have "dropna (add_technical_indicators bars) \<noteq> []"
    using assms(2) by simp
  then obtain Xr where ca: "check_array (map feature_row (dropna (add_technical_indicators bars))) = Inr Xr"
    using check_array_enriched by blast
  have "length Xr = length bars - 19"
    using check_array_rows [OF ca] d by simp
  with prepare_data_check_Inr [OF ca, of dp L] d show ?thesis
    by auto
qed

lemma sorted_ramp_bars: "sorted_wrt (<) (map close (ramp_bars n))"
  by (simp add: ramp_bars_def sorted_wrt_map comp_def sorted_wrt_upt)

lemma length_ramp_bars [simp]: "length (ramp_bars n) = n"
  by (simp add: ramp_bars_def)

subsection \<open>Properties of the application flow\<close>

text \<open>
  C23. On a strictly rising series, \<open>prepare_data\<close> of the enriched frame
  keeps only the rows from index 19 on (MA20 and the volatility are NaN before),
  so it makes \<open>n - 19 - L\<close> windows, the target of window \<open>k\<close> being the close
  of bar \<open>k + 19 + L\<close>. The scenario of the design (30 rising bars,
  \<open>sequence_length = 10\<close>, 20 windows expected) yields one window.
\<close>

theorem rising_frame_windows:
  assumes "sorted_wrt (<) (map close bars)" and "19 < length bars"
  shows "\<exists>dp' X y. prepare_data dp (add_technical_indicators bars) L = Inr (dp', X, y)
           \<and> length X = length bars - 19 - L
           \<and> (\<forall>k<length X. y ! k = close (bars ! (k + 19 + L)))"
proof -
  obtain Xr sc where run: "prepare_data dp (add_technical_indicators bars) L
           = Inr (dp\<lparr>scaler := Some sc\<rparr>,
                  make_sequences (map (transform_row sc) Xr)
                    (map close (drop 19 (add_technical_indicators bars))) L)"
    and len: "length Xr = length bars - 19"
    using rising_frame_run [OF assms] by blast
  let ?ms = "make_sequences (map (transform_row sc) Xr) (map close (drop 19 (add_technical_indicators bars))) L"
  have "length (fst ?ms) = length bars - 19 - L"
    using len by (simp add: length_make_sequences)
  moreover have "snd ?ms ! k = close (bars ! (k + 19 + L))" if "k < length (fst ?ms)" for k
    using that len by (simp add: length_make_sequences nth_make_sequences ac_simps)
  ultimately show ?thesis
    using run by (metis prod.collapse)
qed

theorem rising_frame_windows_witness:
  "\<exists>dp' X y. prepare_data (data_processor_init ''t'') (add_technical_indicators (ramp_bars 30)) 10
               = Inr (dp', X, y) \<and> length X = 1"
  using rising_frame_windows [OF sorted_ramp_bars, of 30 "data_processor_init ''t''" 10] by auto

lemma train_size_eq: "train_size n = 4 * n div 5"
proof -
  have "real n * 0.8 = real (4 * n) / real 5"
    by simp
  then have "\<lfloor>real n * 0.8\<rfloor> = int (4 * n div 5)"
    by (simp only: floor_divide_of_nat_eq)
  then show ?thesis
    by (simp add: train_size_def)
qed

lemma stock_frame_sorted:
  "sorted_wrt (<) (map trade_date bars) \<Longrightarrow> stock_frame bars = add_technical_indicators bars"
  by (simp add: stock_frame_def sort_by_date_def sort_key_id_if_sorted strict_sorted_imp_sorted)

lemma data_arr_slice [simp]: "data (arr_slice a i j) = slice (data a) i j"
  by (simp add: arr_slice_def)

lemma shape_arr_slice [simp]: "shape (arr_slice a i j) = length (slice (data a) i j) # tl (shape a)"
  by (simp add: arr_slice_def)

lemma main_run_tested:
  assumes lstm: "\<forall>sh X y. y \<noteq> [] \<longrightarrow> (\<exists>m. lstm_fit be sh X y = Inr m)"
    and xgb: "\<forall>X y. X \<noteq> [] \<longrightarrow> y \<noteq> [] \<longrightarrow> (\<exists>m. xgb_fit be X y = Inr m)"
    and dates: "sorted_wrt (<) (map trade_date bars)"
    and rising: "sorted_wrt (<) (map close bars)"
    and long: "21 + L \<le> length bars"
  shows "\<exists>X ys mt1 yp m s1 s2.
           shape X = [length bars - 19 - L, s1, s2] \<and> length (data X) = length bars - 19 - L
         \<and> ys = map (\<lambda>i. close (bars ! (i + L + 19))) [0..<length bars - 19 - L]
         \<and> length yp = length bars - 19 - L - train_size (length bars - 19 - L)
         \<and> evaluate (drop (train_size (length bars - 19 - L)) ys) yp = Inr m
         \<and> main_run be tok bars L w =
             (case cross_validate be mt1 X ys 5 of
                Inl e \<Rightarrow> CVFailed m (drop (train_size (length bars - 19 - L) + L) (map trade_date bars))
                           (drop (train_size (length bars - 19 - L)) ys) yp e
              | Inr (mt2, cv) \<Rightarrow>
                  Report \<lparr>test_metrics = m,
                          test_dates = drop (train_size (length bars - 19 - L) + L) (map trade_date bars),
                          y_test = drop (train_size (length bars - 19 - L)) ys, y_pred = yp, cv_scores = cv\<rparr>)"
proof -
  define df where "df = add_technical_indicators bars"
  define dp where "dp = data_processor_init tok"
  obtain Xr sc where run: "prepare_data dp df L
           = Inr (dp\<lparr>scaler := Some sc\<rparr>,
                  make_sequences (map (transform_row sc) Xr) (map close (drop 19 df)) L)"
    and lXr: "length Xr = length bars - 19"
    using rising_frame_run [OF rising, of dp L] long unfolding df_def by auto
  define Xs where "Xs = fst (make_sequences (map (transform_row sc) Xr) (map close (drop 19 df)) L)"
  define ys where "ys = snd (make_sequences (map (transform_row sc) Xr) (map close (drop 19 df)) L)"
  define n where "n = length Xs"
  define ts where "ts = train_size n"
  define X where "X = np_array_windows n_feature_columns Xs"
  have n: "n = length bars - 19 - L" and lys: "length ys = n"
    using lXr by (simp_all add: n_def Xs_def ys_def length_make_sequences)
  have n2: "2 \<le> n"
    using n long by simp
  have ts: "0 < ts" "ts < n"
    using n2 by (simp_all add: ts_def train_size_eq)
  have Xs: "Xs \<noteq> []"
    using n2 n_def by auto
  have shX: "shape X = [n, length (hd Xs), n_feature_columns]" and dX: "data X = Xs"
    using Xs by (simp_all add: X_def np_array_windows_def n_def)
  have ys_eq: "ys = map (\<lambda>i. close (bars ! (i + L + 19))) [0..<n]"
  proof (rule nth_equalityI)
    show "length ys = length (map (\<lambda>i. close (bars ! (i + L + 19))) [0..<n])"
      using lys by simp
  next
    fix i assume "i < length ys"
    then have i: "i < length Xr - L" "i + L + 19 < length bars"
      using lys n lXr by simp_all
    then show "ys ! i = map (\<lambda>i. close (bars ! (i + L + 19))) [0..<n] ! i"
      using nth_make_sequences(2) [of i "map (transform_row sc) Xr" L "map close (drop 19 df)"] lXr
      by (simp add: ys_def df_def add.commute add.left_commute n lys)
  qed
  have "shape (arr_slice X 0 ts) = ts # length (hd Xs) # n_feature_columns # []"
    and "data (arr_slice X 0 ts) \<noteq> []" and "take ts ys \<noteq> []"
    using ts lys dX shX by (auto simp: slice_def n_def)
  then obtain m1 m2 where tm: "train_models be trainer_init (arr_slice X 0 ts) (take ts ys)
                            = Inr \<lparr>lstm_model = Some m1, xgb_model = Some m2\<rparr>"
    using train_models_ok [OF lstm xgb] by blast
  obtain yp where pr: "predict be \<lparr>lstm_model = Some m1, xgb_model = Some m2\<rparr> (arr_slice X ts n) (w, 1 - w) = Inr yp"
    and lyp: "length yp = n - ts"
    using predict_ok [of "arr_slice X ts n" be m1 m2 "(w, 1 - w)"] ts dX
    by (auto simp: slice_def n_def)
  obtain m where ev: "evaluate (drop ts ys) yp = Inr m"
    using evaluate_ok [of "drop ts ys" yp] lys lyp ts by auto
  have "length df = length bars"
    by (simp add: df_def)
  then have "df \<noteq> []"
    using long by auto
  moreover have "stock_frame bars = df"
    using stock_frame_sorted [OF dates] by (simp add: df_def)
  moreover have "make_sequences (map (transform_row sc) Xr) (map close (drop 19 df)) L = (Xs, ys)"
    by (simp add: Xs_def ys_def)
  moreover have "map trade_date df = map trade_date bars"
    by (simp add: df_def map_equality_iff)
  ultimately have mr: "main_run be tok bars L w =
             (case cross_validate be \<lparr>lstm_model = Some m1, xgb_model = Some m2\<rparr> X ys 5 of
                Inl e \<Rightarrow> CVFailed m (drop (ts + L) (map trade_date bars)) (drop ts ys) yp e
              | Inr (mt2, cv) \<Rightarrow>
                  Report \<lparr>test_metrics = m, test_dates = drop (ts + L) (map trade_date bars),
                          y_test = drop ts ys, y_pred = yp, cv_scores = cv\<rparr>)"
    using run tm pr ev
    by (simp add: main_run_def main_frame_def Let_def dp_def [symmetric] n_def [symmetric] ts_def [symmetric]
        X_def [symmetric] split: prod.split sum.split)
  have tsn: "train_size n = ts"
    by (simp add: ts_def)
  have dXn: "length (data X) = n"
    using dX by (simp add: n_def)
  show ?thesis
    unfolding n [symmetric] tsn
    by (intro exI [of _ X] exI [of _ ys] exI [of _ "\<lparr>lstm_model = Some m1, xgb_model = Some m2\<rparr>"]
        exI [of _ yp] exI [of _ m] exI [of _ "length (hd Xs)"] exI [of _ n_feature_columns]
        conjI shX dXn ys_eq lyp ev mr)
qed

lemma main_run_Report:
  assumes lstm: "\<forall>sh X y. y \<noteq> [] \<longrightarrow> (\<exists>m. lstm_fit be sh X y = Inr m)"
    and xgb: "\<forall>X y. X \<noteq> [] \<longrightarrow> y \<noteq> [] \<longrightarrow> (\<exists>m. xgb_fit be X y = Inr m)"
    and dates: "sorted_wrt (<) (map trade_date bars)"
    and rising: "sorted_wrt (<) (map close bars)"
    and long: "25 + L \<le> length bars"
  shows "\<exists>r. main_run be tok bars L w = Report r"
proof -
  obtain X ys mt1 yp m s1 s2 where shX: "shape X = [length bars - 19 - L, s1, s2]"
    and dX: "length (data X) = length bars - 19 - L"
    and eq: "main_run be tok bars L w =
             (case cross_validate be mt1 X ys 5 of
                Inl e \<Rightarrow> CVFailed m (drop (train_size (length bars - 19 - L) + L) (map trade_date bars))
                           (drop (train_size (length bars - 19 - L)) ys) yp e
              | Inr (mt2, cv) \<Rightarrow>
                  Report \<lparr>test_metrics = m,
                          test_dates = drop (train_size (length bars - 19 - L) + L) (map trade_date bars),
                          y_test = drop (train_size (length bars - 19 - L)) ys, y_pred = yp, cv_scores = cv\<rparr>)"
    using main_run_tested [OF lstm xgb dates rising, of L tok w] long by auto
  have "5 + 1 \<le> length (data X)"
    using dX long by simp
  then obtain res where "cross_validate be mt1 X ys 5 = Inr res"
    using cross_validate_ok [OF lstm xgb shX, of 5 mt1 ys] by auto
  then show ?thesis
    using eq by (cases res) simp
qed

lemma main_run_ReportD:
  assumes "main_run be tok bars L w = Report r"
  shows "\<exists>dp1 Xs ys mt1 mt2. stock_frame bars \<noteq> []
     \<and> prepare_data (data_processor_init tok) (stock_frame bars) L = Inr (dp1, Xs, ys)
     \<and> train_models be trainer_init (arr_slice (np_array_windows n_feature_columns Xs) 0 (train_size (length Xs)))
           (take (train_size (length Xs)) ys) = Inr mt1
     \<and> predict be mt1 (arr_slice (np_array_windows n_feature_columns Xs) (train_size (length Xs)) (length Xs))
           (w, 1 - w) = Inr (y_pred r)
     \<and> evaluate (drop (train_size (length Xs)) ys) (y_pred r) = Inr (test_metrics r)
     \<and> cross_validate be mt1 (np_array_windows n_feature_columns Xs) ys 5 = Inr (mt2, cv_scores r)
     \<and> y_test r = drop (train_size (length Xs)) ys
     \<and> test_dates r = drop (train_size (length Xs) + L) (map trade_date (stock_frame bars))"
  using assms
  by (auto simp: main_run_def main_frame_def Let_def split: if_splits sum.splits prod.splits)

lemma train_models_windows_nonempty:
  assumes "train_models be st (arr_slice (np_array_windows F Xs) i j) y = Inr st'"
  shows "Xs \<noteq> []"
  using assms by (auto simp: train_models_Inr np_array_windows_def)

lemma train_size_le: "train_size n \<le> n"
  by (simp add: train_size_eq)

lemma dropna_enriched_drop:
  "dropna (add_technical_indicators df) = dropna (drop 19 (add_technical_indicators df))"
proof -
  have "dropna (take 19 (add_technical_indicators df)) = []"
    using row_has_nan_add_technical_indicators
    by (auto simp: dropna_def filter_empty_conv in_set_conv_nth)
  then show ?thesis
    by (metis append_take_drop_id dropna_def filter_append self_append_conv2)
qed

lemma length_dropna_enriched:
  "length (dropna (add_technical_indicators df)) \<le> length df - 19"
  using length_dropna_le [of "drop 19 (add_technical_indicators df)"]
  by (simp add: dropna_enriched_drop)

lemma demo_backend_fits:
  "\<forall>sh X y. y \<noteq> [] \<longrightarrow> (\<exists>m. lstm_fit demo_backend sh X y = Inr m)"
  "\<forall>X y. X \<noteq> [] \<longrightarrow> y \<noteq> [] \<longrightarrow> (\<exists>m. xgb_fit demo_backend X y = Inr m)"
  by (simp_all add: demo_backend_def)

lemma sorted_dates_ramp_bars: "sorted_wrt (<) (map trade_date (ramp_bars n))"
  by (simp add: ramp_bars_def sorted_wrt_map comp_def sorted_wrt_upt)

lemma demo_main_run: "\<exists>r. main_run demo_backend ''t'' (ramp_bars 26) 1 0.7 = Report r"
  by (rule main_run_Report [OF demo_backend_fits sorted_dates_ramp_bars sorted_ramp_bars]) simp

text \<open>
  Liveness of the application flow: with learners that fit any
  non-empty training set, a date-ordered, strictly rising series of at
  least \<open>25 + L\<close> bars always reaches the report (no exception is shown),
  and the report evaluates the last \<open>n - train_size n\<close> of the
  \<open>n = length bars - 19 - L\<close> windows.
\<close>

theorem main_run_reports:
  assumes "\<forall>sh X y. y \<noteq> [] \<longrightarrow> (\<exists>m. lstm_fit be sh X y = Inr m)"
    and "\<forall>X y. X \<noteq> [] \<longrightarrow> y \<noteq> [] \<longrightarrow> (\<exists>m. xgb_fit be X y = Inr m)"
    and "sorted_wrt (<) (map trade_date bars)" and "sorted_wrt (<) (map close bars)"
    and "25 + L \<le> length bars"
  shows "\<exists>r. main_run be tok bars L w = Report r
           \<and> length (y_test r) = (length bars - 19 - L) - train_size (length bars - 19 - L)"
proof -
  obtain r where run: "main_run be tok bars L w = Report r"
    using main_run_Report [OF assms] by blast
  then obtain dp1 Xs ys where pd: "prepare_data (data_processor_init tok) (stock_frame bars) L = Inr (dp1, Xs, ys)"
    and yt: "y_test r = drop (train_size (length Xs)) ys"
    using main_run_ReportD by blast
  have sf: "stock_frame bars = add_technical_indicators bars"
    using stock_frame_sorted [OF assms(3)] .
  obtain Xr sc where run2: "prepare_data (data_processor_init tok) (add_technical_indicators bars) L
           = Inr ((data_processor_init tok)\<lparr>scaler := Some sc\<rparr>,
                  make_sequences (map (transform_row sc) Xr)
                    (map close (drop 19 (add_technical_indicators bars))) L)"
    and lXr: "length Xr = length bars - 19"
    using rising_frame_run [OF assms(4)] assms(5) by fastforce
  have ms: "make_sequences (map (transform_row sc) Xr)
                (map close (drop 19 (add_technical_indicators bars))) L = (Xs, ys)"
    using pd run2 by (simp add: sf)
  have "Xs = fst (make_sequences (map (transform_row sc) Xr)
                (map close (drop 19 (add_technical_indicators bars))) L)"
    and "ys = snd (make_sequences (map (transform_row sc) Xr)
                (map close (drop 19 (add_technical_indicators bars))) L)"
    using ms by (metis fst_conv, metis snd_conv)
  then have "length Xs = length bars - 19 - L" and "length ys = length bars - 19 - L"
    using lXr by (simp_all add: length_make_sequences)
  with run yt show ?thesis
    by auto
qed

theorem main_run_reports_witness:
  "\<exists>r. main_run demo_backend ''t'' (ramp_bars 26) 1 0.7 = Report r \<and> length (y_test r) = 2"
proof -
  have "\<exists>r. main_run demo_backend ''t'' (ramp_bars 26) 1 0.7 = Report r
           \<and> length (y_test r) = (length (ramp_bars 26) - 19 - 1) - train_size (length (ramp_bars 26) - 19 - 1)"
    by (rule main_run_reports [OF demo_backend_fits sorted_dates_ramp_bars sorted_ramp_bars]) simp
  then show ?thesis
    by (simp add: train_size_eq)
qed

text \<open>
  The dates shown with the test predictions are misaligned:
  \<open>test_dates = df['trade_date'].values[train_size + sequence_length:]\<close> indexes
  the frame before \<open>dropna\<close>, so it has as many more entries than
  \<open>y_test\<close> as rows were dropped, and at least 19 rows are always dropped
  (the MA20 and volatility warm-up). The x-axis of the plot is shifted
  by at least 19 trading days against the targets.
\<close>

theorem test_dates_misaligned:
  assumes "main_run be tok bars L w = Report r"
  shows "length (test_dates r) = length (y_test r) + (length bars - length (dropna (stock_frame bars)))
         \<and> min 19 (length bars) \<le> length bars - length (dropna (stock_frame bars))"
proof -
  obtain dp1 Xs ys mt1 where pd: "prepare_data (data_processor_init tok) (stock_frame bars) L = Inr (dp1, Xs, ys)"
    and tm: "train_models be trainer_init (arr_slice (np_array_windows n_feature_columns Xs) 0 (train_size (length Xs)))
           (take (train_size (length Xs)) ys) = Inr mt1"
    and yt: "y_test r = drop (train_size (length Xs)) ys"
    and td: "test_dates r = drop (train_size (length Xs) + L) (map trade_date (stock_frame bars))"
    using main_run_ReportD [OF assms] by blast
  obtain Xr sc where lXr: "length Xr = length (dropna (stock_frame bars))"
    and X: "Xs = fst (make_sequences (map (transform_row sc) Xr) (map close (dropna (stock_frame bars))) L)"
    and y: "ys = snd (make_sequences (map (transform_row sc) Xr) (map close (dropna (stock_frame bars))) L)"
    by (rule prepare_data_Inr_facts [OF pd])
  have "Xs \<noteq> []"
    by (rule train_models_windows_nonempty [OF tm])
  then have lX: "length Xs = length (dropna (stock_frame bars)) - L" "0 < length Xs"
    using lXr by (simp add: X length_make_sequences, simp)
  have ly: "length ys = length Xs"
    using length_make_sequences [of "map (transform_row sc) Xr"] by (simp add: X y)
  define D where "D = length (dropna (stock_frame bars))"
  define T where "T = train_size (length Xs)"
  have T: "T \<le> length Xs"
    by (simp add: T_def train_size_le)
  have D: "D \<le> length bars" "D \<le> length bars - 19"
    using length_dropna_le [of "stock_frame bars"] length_dropna_enriched [of "sort_by_date bars"]
    by (simp_all add: D_def stock_frame_def sort_by_date_def)
  have "length (test_dates r) = length bars - (T + L)"
    using td by (simp add: T_def stock_frame_def sort_by_date_def)
  moreover have "length (y_test r) = length Xs - T"
    using yt ly by (simp add: T_def)
  ultimately show ?thesis
    using lX T D by (simp add: D_def [symmetric]; arith)
qed

theorem test_dates_misaligned_witness:
  "\<exists>r. main_run demo_backend ''t'' (ramp_bars 26) 1 0.7 = Report r
     \<and> length (test_dates r) = length (y_test r) + (26 - length (dropna (stock_frame (ramp_bars 26))))"
proof -
  obtain r where run: "main_run demo_backend ''t'' (ramp_bars 26) 1 0.7 = Report r"
    using demo_main_run by blast
  have "length (test_dates r) = length (y_test r) + (length (ramp_bars 26) - length (dropna (stock_frame (ramp_bars 26))))"
    using test_dates_misaligned [OF run] by blast
  with run show ?thesis
    by auto
qed

text \<open>
  C26. The cross-validation ignores the LSTM weight chosen in the sidebar:
  \<open>cross_validate\<close> calls \<open>predict\<close> with the default weights (0.6, 0.4), so a
  run with any other weight \<open>w'\<close> also reports, with the same
  cross-validation scores, test targets and dates.
\<close>

theorem cv_ignores_weight:
  assumes "main_run be tok bars L w = Report r"
  shows "\<exists>r'. main_run be tok bars L w' = Report r' \<and> cv_scores r' = cv_scores r
              \<and> y_test r' = y_test r \<and> test_dates r' = test_dates r"
proof -
  obtain dp1 Xs ys mt1 mt2 where ne: "stock_frame bars \<noteq> []"
    and pd: "prepare_data (data_processor_init tok) (stock_frame bars) L = Inr (dp1, Xs, ys)"
    and tm: "train_models be trainer_init (arr_slice (np_array_windows n_feature_columns Xs) 0 (train_size (length Xs)))
           (take (train_size (length Xs)) ys) = Inr mt1"
    and pr: "predict be mt1 (arr_slice (np_array_windows n_feature_columns Xs) (train_size (length Xs)) (length Xs))
           (w, 1 - w) = Inr (y_pred r)"
    and ev: "evaluate (drop (train_size (length Xs)) ys) (y_pred r) = Inr (test_metrics r)"
    and cv: "cross_validate be mt1 (np_array_windows n_feature_columns Xs) ys 5 = Inr (mt2, cv_scores r)"
    and yt: "y_test r = drop (train_size (length Xs)) ys"
    and td: "test_dates r = drop (train_size (length Xs) + L) (map trade_date (stock_frame bars))"
    using main_run_ReportD [OF assms] by blast
  define Xte where "Xte = arr_slice (np_array_windows n_feature_columns Xs) (train_size (length Xs)) (length Xs)"
  define yte where "yte = drop (train_size (length Xs)) ys"
  have pr0: "predict be mt1 Xte (w, 1 - w) = Inr (y_pred r)"
    using pr by (simp only: Xte_def)
  obtain m1 m2 where ms: "lstm_model mt1 = Some m1" "xgb_model mt1 = Some m2" and dX: "data Xte \<noteq> []"
    using pr0 unfolding predict_Inr by blast
  define p' where "p' = map2 (\<lambda>a b. w' * a + (1 - w') * b)
                (map (lstm_predict be m1) (data Xte)) (map (xgb_predict be m2) (map concat (data Xte)))"
  have pr': "predict be mt1 Xte (w', 1 - w') = Inr p'"
    using predict_Some [OF ms dX] by (simp add: p'_def)
  have "y_pred r = map2 (\<lambda>a b. w * a + (1 - w) * b)
                (map (lstm_predict be m1) (data Xte)) (map (xgb_predict be m2) (map concat (data Xte)))"
    using pr0 predict_Some [OF ms dX] by simp
  then have lp': "length p' = length (y_pred r)"
    by (simp add: p'_def)
  have "length yte = length (y_pred r)" and "yte \<noteq> []"
    using evaluate_InrD [of yte "y_pred r" "test_metrics r"] ev by (simp_all add: yte_def)
  then obtain m' where ev': "evaluate yte p' = Inr m'"
    using evaluate_ok lp' by metis
  have "main_run be tok bars L w' = Report \<lparr>test_metrics = m', test_dates = test_dates r,
          y_test = y_test r, y_pred = p', cv_scores = cv_scores r\<rparr>"
    using ne pd tm pr' ev' cv yt td
    by (simp add: main_run_def main_frame_def Let_def Xte_def [symmetric] yte_def [symmetric])
  then show ?thesis
    by auto
qed

theorem cv_ignores_weight_witness:
  "\<exists>r r'. main_run demo_backend ''t'' (ramp_bars 26) 1 0.7 = Report r
     \<and> main_run demo_backend ''t'' (ramp_bars 26) 1 0.2 = Report r' \<and> cv_scores r' = cv_scores r"
proof -
  obtain r where run: "main_run demo_backend ''t'' (ramp_bars 26) 1 0.7 = Report r"
    using demo_main_run by blast
  with cv_ignores_weight [OF run, of "0.2"] show ?thesis
    by blast
qed

end
