(* ===== verification/App.thy ===== *)
theory App
  imports Pipeline
begin

text \<open>
  The Streamlit application of \<open>src/nft/*/src/main.py\<close> with its data source,
  \<open>DataProcessor.get_stock_data\<close> of \<open>data_processor.py\<close>. The data source
  makes three collaborator calls: tushare's \<open>pro.daily\<close> (the price bars),
  akshare's \<open>stock_zh_a_hist\<close> (a second frame, \<open>tech_df\<close>) and that frame's
  sort by its date column. Each may raise; their results, and the exception
  values \<open>'e\<close>, are inputs (\<open>provider\<close>). \<open>get_stock_data\<close> catches every
  exception, prints it and returns \<open>None\<close>; what it prints is kept as the
  list of printed exceptions. The sidebar's inputs are a \<open>sidebar\<close> record:
  the sliders bound the sequence length to [5, 30] and the LSTM weight to
  [0, 1]; the dates are day numbers formatted by \<open>strftime('%Y%m%d')\<close>, a
  parameter. \<open>main_app\<close> is \<open>main()\<close> after the button press: the fetch, the
  \<open>None\<close> check, then \<open>main_frame\<close>.
\<close>

record ('e, 't) provider =
  pro_daily :: "string \<Rightarrow> string \<Rightarrow> string \<Rightarrow> 'e + bar list"
  ak_stock_zh_a_hist :: "string \<Rightarrow> string \<Rightarrow> string \<Rightarrow> 'e + 't"
  sort_tech :: "'t \<Rightarrow> 'e + 't"

text \<open>\<open>stock_code.split('.')[0]\<close>: the code up to its first dot.\<close>

definition split_code :: "string \<Rightarrow> string" where
  "split_code stock_code = takeWhile (\<lambda>c. c \<noteq> CHR ''.'') stock_code"

definition get_stock_data ::
  "('e, 't) provider \<Rightarrow> string \<Rightarrow> string \<Rightarrow> string \<Rightarrow> 'e list \<times> ebar list option" where
  "get_stock_data prov stock_code start_date end_date =
     (case pro_daily prov stock_code start_date end_date of
        Inl e \<Rightarrow> ([e], None)
      | Inr df \<Rightarrow>
          (let stock_code_ak = split_code stock_code
           in case ak_stock_zh_a_hist prov stock_code_ak start_date end_date of
                Inl e \<Rightarrow> ([e], None)
              | Inr tech_df \<Rightarrow>
                  (let df' = sort_by_date df
                   in case sort_tech prov tech_df of
                        Inl e \<Rightarrow> ([e], None)
                      | Inr _ \<Rightarrow> ([], Some (add_technical_indicators df')))))"

record sidebar =
  stock_code :: string
  start_day :: int
  end_day :: int
  sequence_length :: nat
  ensemble_weight :: real

text \<open>The widgets' initial values: the end date is today, the start date a year before.\<close>

definition sidebar_default :: "int \<Rightarrow> sidebar" where
  "sidebar_default today =
     \<lparr>stock_code = ''000001.SZ'', start_day = today - 365, end_day = today,
      sequence_length = 10, ensemble_weight = 0.6\<rparr>"

text \<open>What the two sliders can produce: \<open>slider(5, 30)\<close> and \<open>slider(0.0, 1.0)\<close>.\<close>

definition sidebar_ok :: "sidebar \<Rightarrow> bool" where
  "sidebar_ok sb \<longleftrightarrow>
     5 \<le> sequence_length sb \<and> sequence_length sb \<le> 30
     \<and> 0 \<le> ensemble_weight sb \<and> ensemble_weight sb \<le> 1"

definition main_app ::
  "('l, 'x) backend \<Rightarrow> string \<Rightarrow> ('e, 't) provider \<Rightarrow> (int \<Rightarrow> string) \<Rightarrow> sidebar
     \<Rightarrow> 'e list \<times> app_outcome" where
  "main_app be tok prov strftime sb =
     (case get_stock_data prov (stock_code sb) (strftime (start_day sb)) (strftime (end_day sb)) of
        (out, None) \<Rightarrow> (out, FetchFailed)
      | (out, Some df) \<Rightarrow> (out, main_frame be tok df (sequence_length sb) (ensemble_weight sb)))"

text \<open>A provider whose tushare call returns \<open>n\<close> rising bars and whose akshare call fails or succeeds.\<close>

definition demo_provider :: "nat \<Rightarrow> bool \<Rightarrow> (string, unit) provider" where
  "demo_provider n ak_ok =
     \<lparr>pro_daily = (\<lambda>c s e. Inr (ramp_bars n)),
      ak_stock_zh_a_hist = (\<lambda>c s e. if ak_ok then Inr () else Inl ''ConnectionError''),
      sort_tech = (\<lambda>t. Inr t)\<rparr>"

subsection \<open>Lemmas\<close>

lemma get_stock_data_Some:
  assumes "pro_daily prov c s e = Inr bars"
    and "ak_stock_zh_a_hist prov (split_code c) s e = Inr t" and "sort_tech prov t = Inr t'"
  shows "get_stock_data prov c s e = ([], Some (stock_frame bars))"
  using assms by (simp add: get_stock_data_def stock_frame_def)

lemma get_stock_data_ak_fails:
  assumes "pro_daily prov c s e = Inr bars"
    and "ak_stock_zh_a_hist prov (split_code c) s e = Inl ex"
  shows "get_stock_data prov c s e = ([ex], None)"
  using assms by (simp add: get_stock_data_def)

lemma sidebar_default_ok: "sidebar_ok (sidebar_default today)"
  by (simp add: sidebar_ok_def sidebar_default_def)

lemma split_code_default: "split_code ''000001.SZ'' = ''000001''"
  by (simp add: split_code_def)

lemma main_app_fetched:
  assumes "pro_daily prov (stock_code sb) (strftime (start_day sb)) (strftime (end_day sb)) = Inr bars"
    and "ak_stock_zh_a_hist prov (split_code (stock_code sb)) (strftime (start_day sb)) (strftime (end_day sb)) = Inr t"
    and "sort_tech prov t = Inr t'"
  shows "main_app be tok prov strftime sb = ([], main_run be tok bars (sequence_length sb) (ensemble_weight sb))"
  using get_stock_data_Some [OF assms] by (simp add: main_app_def main_run_def)

lemma main_app_ak_fails:
  assumes "pro_daily prov (stock_code sb) (strftime (start_day sb)) (strftime (end_day sb)) = Inr bars"
    and "ak_stock_zh_a_hist prov (split_code (stock_code sb)) (strftime (start_day sb)) (strftime (end_day sb)) = Inl ex"
  shows "main_app be tok prov strftime sb = ([ex], FetchFailed)"
  using get_stock_data_ak_fails [OF assms] by (simp add: main_app_def)

subsection \<open>The whole application\<close>



text \<open>
  C37. The akshare frame is fetched and sorted but never used: when tushare
  returned the bars, an akshare failure alone turns the request into the
  fetch error (the exception is printed, not propagated), and when akshare
  answers, whatever it returned, the application's outcome is that of the
  flow on the tushare bars.
\<close>

theorem main_app_akshare_unused:
  assumes "pro_daily prov (stock_code sb) (strftime (start_day sb)) (strftime (end_day sb)) = Inr bars"
  shows "(\<forall>ex. ak_stock_zh_a_hist prov (split_code (stock_code sb)) (strftime (start_day sb)) (strftime (end_day sb)) = Inl ex
            \<longrightarrow> main_app be tok prov strftime sb = ([ex], FetchFailed))
       \<and> (\<forall>t t'. ak_stock_zh_a_hist prov (split_code (stock_code sb)) (strftime (start_day sb)) (strftime (end_day sb)) = Inr t
            \<longrightarrow> sort_tech prov t = Inr t'
            \<longrightarrow> main_app be tok prov strftime sb = ([], main_run be tok bars (sequence_length sb) (ensemble_weight sb)))"
  using main_app_ak_fails [OF assms] main_app_fetched [OF assms] by blast

theorem main_app_akshare_unused_witness:
  "main_app demo_backend ''t'' (demo_provider 55 False) (\<lambda>d. ''20240101'') (sidebar_default 0) = ([''ConnectionError''], FetchFailed)"
  using main_app_akshare_unused [where prov = "demo_provider 55 False" and strftime = "\<lambda>d. ''20240101''"
      and sb = "sidebar_default 0" and bars = "ramp_bars 55" and be = demo_backend and tok = "''t''"]
  by (simp add: demo_provider_def)

end
