(* ===== verification/Display.thy ===== *)
theory Display
  imports App
begin

text \<open>
  What \<open>main()\<close> of \<open>src/nft/*/src/main.py\<close> shows. \<open>plot_predictions\<close>
  builds a plotly figure: an empty \<open>go.Figure()\<close>, two line traces added in
  order (the actual prices in blue, the predictions in red, both against the
  same dates) and a layout. The fixed Chinese captions of the interface are
  the constructors of \<open>ui_text\<close>; the figure title interpolates the stock
  code (the parameter \<open>stock_code\<close>, here \<open>code\<close>, since the sidebar record
  has a field of that name). \<open>render\<close> is the sequence of Streamlit
  elements \<open>main()\<close> writes for each outcome, in the order the code writes
  them: the metrics and the chart
  come before the cross-validation, so an exception of \<open>cross_validate\<close> is
  shown after them. \<open>app_screen\<close> is the whole of \<open>main()\<close> after the button
  press: what \<open>get_stock_data\<close> prints, and what the page shows.
\<close>

datatype ui_text = ActualPrice | PredictedPrice | ForecastTitle string | DateAxis | PriceAxis

record scatter =
  sc_x :: "nat list"
  sc_y :: "real list"
  sc_mode :: string
  sc_name :: ui_text
  sc_color :: string

record layout =
  lay_title :: ui_text
  lay_xaxis_title :: ui_text
  lay_yaxis_title :: ui_text
  lay_hovermode :: string

record figure =
  fig_traces :: "scatter list"
  fig_layout :: "layout option"

definition go_figure :: figure where
  "go_figure = \<lparr>fig_traces = [], fig_layout = None\<rparr>"

definition add_trace :: "figure \<Rightarrow> scatter \<Rightarrow> figure" where
  "add_trace fig t = fig\<lparr>fig_traces := fig_traces fig @ [t]\<rparr>"

definition update_layout :: "figure \<Rightarrow> layout \<Rightarrow> figure" where
  "update_layout fig l = fig\<lparr>fig_layout := Some l\<rparr>"

definition plot_predictions :: "nat list \<Rightarrow> real list \<Rightarrow> real list \<Rightarrow> string \<Rightarrow> figure" where
  "plot_predictions dates actual predicted code =
     (let fig0 = go_figure;
          fig1 = add_trace fig0 \<lparr>sc_x = dates, sc_y = actual, sc_mode = ''lines'',
                                 sc_name = ActualPrice, sc_color = ''blue''\<rparr>;
          fig2 = add_trace fig1 \<lparr>sc_x = dates, sc_y = predicted, sc_mode = ''lines'',
                                 sc_name = PredictedPrice, sc_color = ''red''\<rparr>
      in update_layout fig2 \<lparr>lay_title = ForecastTitle code, lay_xaxis_title = DateAxis,
                              lay_yaxis_title = PriceAxis, lay_hovermode = ''x unified''\<rparr>)"

text \<open>The Streamlit elements \<open>main()\<close> writes after the button press.\<close>

datatype widget =
    FetchError
  | MetricsSubheader
  | MetricCards metrics
  | Chart figure
  | CVSubheader
  | CVTable metrics
  | ErrorBox py_error

fun render :: "string \<Rightarrow> app_outcome \<Rightarrow> widget list" where
  "render code FetchFailed = [FetchError]"
| "render code (Failed e) = [ErrorBox e]"
| "render code (CVFailed m dates yt yp e) =
     [MetricsSubheader, MetricCards m, Chart (plot_predictions dates yt yp code), ErrorBox e]"
| "render code (Report r) =
     [MetricsSubheader, MetricCards (test_metrics r),
      Chart (plot_predictions (test_dates r) (y_test r) (y_pred r) code),
      CVSubheader, CVTable (cv_scores r)]"

definition app_screen ::
  "('l, 'x) backend \<Rightarrow> string \<Rightarrow> ('e, 't) provider \<Rightarrow> (int \<Rightarrow> string) \<Rightarrow> sidebar
     \<Rightarrow> 'e list \<times> widget list" where
  "app_screen be tok prov strftime sb =
     (case main_app be tok prov strftime sb of (out, res) \<Rightarrow> (out, render (stock_code sb) res))"

subsection \<open>Lemmas\<close>

lemma plot_predictions_traces [simp]:
  "fig_traces (plot_predictions dates actual predicted code) =
     [\<lparr>sc_x = dates, sc_y = actual, sc_mode = ''lines'', sc_name = ActualPrice, sc_color = ''blue''\<rparr>,
      \<lparr>sc_x = dates, sc_y = predicted, sc_mode = ''lines'', sc_name = PredictedPrice, sc_color = ''red''\<rparr>]"
  by (simp add: plot_predictions_def go_figure_def add_trace_def update_layout_def)

lemma evaluate_one_r2:
  assumes "evaluate [a] [b] = Inr m"
  shows "r2 m = NaN"
proof -
  have "r2_score [a] [b] = Inr NaN"
    by (simp add: r2_score_def)
  then show ?thesis
    using assms evaluate_checked [of "[a]" "[b]" NaN] by auto
qed

lemma app_screen_fetched:
  assumes "pro_daily prov (stock_code sb) (strftime (start_day sb)) (strftime (end_day sb)) = Inr bars"
    and "ak_stock_zh_a_hist prov (split_code (stock_code sb)) (strftime (start_day sb)) (strftime (end_day sb)) = Inr t"
    and "sort_tech prov t = Inr t'"
  shows "app_screen be tok prov strftime sb
           = ([], render (stock_code sb) (main_run be tok bars (sequence_length sb) (ensemble_weight sb)))"
  using main_app_fetched [OF assms, of be tok] by (simp add: app_screen_def)

subsection \<open>What the page shows\<close>

text \<open>
  C40. Boundary input and ordering: when the cleaned series gives exactly
  five windows (\<open>length bars = 24 + L\<close> for a rising series), training, the
  prediction and the evaluation of the one test window succeed, the page
  shows the metrics (with R2 = NaN, one sample) and the chart, and only then
  the \<open>ValueError\<close> of the five-split cross-validation: partial output
  followed by an error, where the spec asks for failures without partial
  output.
\<close>

theorem cv_failure_after_results:
  assumes lstm: "\<forall>sh X y. y \<noteq> [] \<longrightarrow> (\<exists>m. lstm_fit be sh X y = Inr m)"
    and xgb: "\<forall>X y. X \<noteq> [] \<longrightarrow> y \<noteq> [] \<longrightarrow> (\<exists>m. xgb_fit be X y = Inr m)"
    and ok: "sidebar_ok sb"
    and f1: "pro_daily prov (stock_code sb) (strftime (start_day sb)) (strftime (end_day sb)) = Inr bars"
    and f2: "ak_stock_zh_a_hist prov (split_code (stock_code sb)) (strftime (start_day sb)) (strftime (end_day sb)) = Inr t"
    and f3: "sort_tech prov t = Inr t'"
    and dates: "sorted_wrt (<) (map trade_date bars)" and rising: "sorted_wrt (<) (map close bars)"
    and len: "length bars = 24 + sequence_length sb"
  shows "\<exists>m dates yt yp. app_screen be tok prov strftime sb
           = ([], [MetricsSubheader, MetricCards m, Chart (plot_predictions dates yt yp (stock_code sb)),
                   ErrorBox ValueError])
         \<and> length yt = 1 \<and> r2 m = NaN"
proof -
  define L where "L = sequence_length sb"
  have n5: "length bars - 19 - L = 5"
    using len by (simp add: L_def)
  obtain X ys mt1 yp m s1 s2 where dX: "length (data X) = length bars - 19 - L"
    and ys: "ys = map (\<lambda>i. close (bars ! (i + L + 19))) [0..<length bars - 19 - L]"
    and lyp: "length yp = length bars - 19 - L - train_size (length bars - 19 - L)"
    and ev: "evaluate (drop (train_size (length bars - 19 - L)) ys) yp = Inr m"
    and mr: "main_run be tok bars L (ensemble_weight sb) =
             (case cross_validate be mt1 X ys 5 of
                Inl e \<Rightarrow> CVFailed m (drop (train_size (length bars - 19 - L) + L) (map trade_date bars))
                           (drop (train_size (length bars - 19 - L)) ys) yp e
              | Inr (mt2, cv) \<Rightarrow>
                  Report \<lparr>test_metrics = m,
                          test_dates = drop (train_size (length bars - 19 - L) + L) (map trade_date bars),
                          y_test = drop (train_size (length bars - 19 - L)) ys, y_pred = yp, cv_scores = cv\<rparr>)"
    using main_run_tested [OF lstm xgb dates rising, of L tok "ensemble_weight sb"] len by (auto simp: L_def)
  have ts: "train_size 5 = 4"
    by (simp add: train_size_eq)
  have cv: "cross_validate be mt1 X ys 5 = Inl ValueError"
    using dX n5 by (simp add: cross_validate_def tss_split_def)
  have lyt: "length (drop 4 ys) = 1" and lyp1: "length yp = 1"
    using ys lyp n5 ts by simp_all
  then obtain a b where "drop 4 ys = [a]" and "yp = [b]"
    by (metis One_nat_def length_0_conv length_Suc_conv)
  then have "r2 m = NaN"
    using ev n5 ts evaluate_one_r2 by simp
  moreover have "app_screen be tok prov strftime sb
       = ([], [MetricsSubheader, MetricCards m,
               Chart (plot_predictions (drop (4 + L) (map trade_date bars)) (drop 4 ys) yp (stock_code sb)),
               ErrorBox ValueError])"
    using app_screen_fetched [OF f1 f2 f3, of be tok] mr cv n5 ts by (simp add: L_def)
  ultimately show ?thesis
    using lyt by blast
qed

theorem cv_failure_after_results_witness:
  "\<exists>m dates yt yp. app_screen demo_backend ''t'' (demo_provider 34 True) (\<lambda>d. ''20240101'') (sidebar_default 0)
     = ([], [MetricsSubheader, MetricCards m, Chart (plot_predictions dates yt yp ''000001.SZ''),
             ErrorBox ValueError])
     \<and> length yt = 1 \<and> r2 m = NaN"
proof -
  have "\<exists>m dates yt yp. app_screen demo_backend ''t'' (demo_provider 34 True) (\<lambda>d. ''20240101'') (sidebar_default 0)
     = ([], [MetricsSubheader, MetricCards m,
             Chart (plot_predictions dates yt yp (stock_code (sidebar_default 0))), ErrorBox ValueError])
     \<and> length yt = 1 \<and> r2 m = NaN"
    by (rule cv_failure_after_results [OF demo_backend_fits sidebar_default_ok,
          where prov = "demo_provider 34 True" and t = "()" and t' = "()" and bars = "ramp_bars 34"])
       (simp_all add: demo_provider_def sorted_dates_ramp_bars sorted_ramp_bars sidebar_default_def)
  then show ?thesis
    by (simp add: sidebar_default_def)
qed

text \<open>
  C25. The chart pairs each actual price with a date 19 trading days too
  early: on every report for a rising series (any slider setting), the
  actual-price trace has 19 more dates than prices, and its \<open>k\<close>-th point
  is drawn at the date of bar \<open>T + L + k\<close> with the close of bar
  \<open>T + L + k + 19\<close>, where \<open>T = train_size n\<close> is the split point. The 19
  rows \<open>dropna\<close> removes (the MA20 and volatility warm-up) are still counted
  in \<open>df['trade_date']\<close>.
\<close>

theorem chart_dates_shifted:
  assumes lstm: "\<forall>sh X y. y \<noteq> [] \<longrightarrow> (\<exists>m. lstm_fit be sh X y = Inr m)"
    and xgb: "\<forall>X y. X \<noteq> [] \<longrightarrow> y \<noteq> [] \<longrightarrow> (\<exists>m. xgb_fit be X y = Inr m)"
    and ok: "sidebar_ok sb"
    and f1: "pro_daily prov (stock_code sb) (strftime (start_day sb)) (strftime (end_day sb)) = Inr bars"
    and f2: "ak_stock_zh_a_hist prov (split_code (stock_code sb)) (strftime (start_day sb)) (strftime (end_day sb)) = Inr t"
    and f3: "sort_tech prov t = Inr t'"
    and dates: "sorted_wrt (<) (map trade_date bars)" and rising: "sorted_wrt (<) (map close bars)"
    and long: "55 \<le> length bars"
  shows "\<exists>m fig cv. app_screen be tok prov strftime sb
           = ([], [MetricsSubheader, MetricCards m, Chart fig, CVSubheader, CVTable cv])
         \<and> length (sc_x (hd (fig_traces fig))) = length (sc_y (hd (fig_traces fig))) + 19
         \<and> (\<forall>k<length (sc_y (hd (fig_traces fig))).
              sc_x (hd (fig_traces fig)) ! k
                = trade_date (bars ! (train_size (length bars - 19 - sequence_length sb) + sequence_length sb + k))
            \<and> sc_y (hd (fig_traces fig)) ! k
                = close (bars ! (train_size (length bars - 19 - sequence_length sb) + sequence_length sb + k + 19)))"
proof -
  define L where "L = sequence_length sb"
  define n where "n = length bars - 19 - L"
  define T where "T = train_size n"
  have L30: "L \<le> 30"
    using ok by (simp add: sidebar_ok_def L_def)
  obtain X ys mt1 yp m s1 s2 where shX: "shape X = [n, s1, s2]" and dX: "length (data X) = n"
    and ys: "ys = map (\<lambda>i. close (bars ! (i + L + 19))) [0..<n]"
    and mr: "main_run be tok bars L (ensemble_weight sb) =
             (case cross_validate be mt1 X ys 5 of
                Inl e \<Rightarrow> CVFailed m (drop (T + L) (map trade_date bars)) (drop T ys) yp e
              | Inr (mt2, cv) \<Rightarrow>
                  Report \<lparr>test_metrics = m, test_dates = drop (T + L) (map trade_date bars),
                          y_test = drop T ys, y_pred = yp, cv_scores = cv\<rparr>)"
    using main_run_tested [OF lstm xgb dates rising, of L tok "ensemble_weight sb"] long L30
    unfolding n_def [symmetric] T_def [symmetric] by auto
  have "5 + 1 \<le> length (data X)"
    using dX long L30 by (simp add: n_def)
  then obtain mt2 cv where cv: "cross_validate be mt1 X ys 5 = Inr (mt2, cv)"
    using cross_validate_ok [OF lstm xgb shX, of 5 mt1 ys] by auto
  define fig where "fig = plot_predictions (drop (T + L) (map trade_date bars)) (drop T ys) yp (stock_code sb)"
  have screen: "app_screen be tok prov strftime sb
       = ([], [MetricsSubheader, MetricCards m, Chart fig, CVSubheader, CVTable cv])"
    using app_screen_fetched [OF f1 f2 f3, of be tok] mr cv by (simp add: L_def fig_def)
  have hd: "sc_x (hd (fig_traces fig)) = drop (T + L) (map trade_date bars)"
    "sc_y (hd (fig_traces fig)) = drop T ys"
    by (simp_all add: fig_def)
  have T: "T \<le> n" and nb: "n + 19 + L = length bars"
    using long L30 by (simp_all add: T_def n_def train_size_le)
  have len: "length (sc_x (hd (fig_traces fig))) = length (sc_y (hd (fig_traces fig))) + 19"
    using hd T nb ys by simp
  have pts: "\<forall>k<length (sc_y (hd (fig_traces fig))).
              sc_x (hd (fig_traces fig)) ! k = trade_date (bars ! (T + L + k))
            \<and> sc_y (hd (fig_traces fig)) ! k = close (bars ! (T + L + k + 19))"
  proof (intro allI impI)
    fix k assume "k < length (sc_y (hd (fig_traces fig)))"
    then have k: "T + k < n"
      using hd ys T by simp
    then show "sc_x (hd (fig_traces fig)) ! k = trade_date (bars ! (T + L + k))
            \<and> sc_y (hd (fig_traces fig)) ! k = close (bars ! (T + L + k + 19))"
      using hd nb ys by (simp add: algebra_simps)
  qed
  show ?thesis
    using screen len pts by (auto simp: T_def n_def L_def)
qed

theorem chart_dates_shifted_witness:
  "\<exists>m fig cv. app_screen demo_backend ''t'' (demo_provider 55 True) (\<lambda>d. ''20240101'') (sidebar_default 0)
       = ([], [MetricsSubheader, MetricCards m, Chart fig, CVSubheader, CVTable cv])
     \<and> length (sc_x (hd (fig_traces fig))) = length (sc_y (hd (fig_traces fig))) + 19
     \<and> (\<forall>k<length (sc_y (hd (fig_traces fig))).
          sc_x (hd (fig_traces fig)) ! k = trade_date (ramp_bars 55 ! (30 + k))
        \<and> sc_y (hd (fig_traces fig)) ! k = close (ramp_bars 55 ! (49 + k)))"
proof -
  have ts: "train_size 26 = 20"
    by (simp add: train_size_eq)
  have "\<exists>m fig cv. app_screen demo_backend ''t'' (demo_provider 55 True) (\<lambda>d. ''20240101'') (sidebar_default 0)
           = ([], [MetricsSubheader, MetricCards m, Chart fig, CVSubheader, CVTable cv])
         \<and> length (sc_x (hd (fig_traces fig))) = length (sc_y (hd (fig_traces fig))) + 19
         \<and> (\<forall>k<length (sc_y (hd (fig_traces fig))).
              sc_x (hd (fig_traces fig)) ! k
                = trade_date (ramp_bars 55 ! (train_size (length (ramp_bars 55) - 19 - sequence_length (sidebar_default 0))
                                             + sequence_length (sidebar_default 0) + k))
            \<and> sc_y (hd (fig_traces fig)) ! k
                = close (ramp_bars 55 ! (train_size (length (ramp_bars 55) - 19 - sequence_length (sidebar_default 0))
                                        + sequence_length (sidebar_default 0) + k + 19)))"
    by (rule chart_dates_shifted [OF demo_backend_fits sidebar_default_ok,
          where prov = "demo_provider 55 True" and t = "()" and t' = "()" and bars = "ramp_bars 55"])
       (simp_all add: demo_provider_def sorted_dates_ramp_bars sorted_ramp_bars)
  then show ?thesis
    by (simp add: sidebar_default_def ts add.commute)
qed

end
