(* ===== verification/GoonData.thy ===== *)
theory GoonData
  imports Pipeline
begin

text \<open>
  The second code base's \<open>DataProcessor\<close>, \<open>src/goon/src/data/data_processor.py\<close>.
  \<open>clean_data\<close> works on the numeric columns of a raw frame, a table of
  float cells (rows of equal width): it removes repeated rows (the first
  occurrence is kept; pandas compares NaN equal to NaN), replaces each NaN by
  the mean of the non-NaN values of its column (\<open>fillna(df.mean())\<close>), then
  forward-fills what is still NaN (\<open>fillna(method='ffill')\<close>).
  \<open>calculate_technical_indicators\<close> sorts by date and computes the same
  moving averages, MACD, signal line and RSI as the first code base, without
  the volatility column. \<open>prepare_time_series_data\<close> windows the matrix
  \<open>df[features + [target]].values\<close>, \<open>split_train_test\<close> cuts a frame at
  \<open>int(len(df) * (1 - test_size))\<close>.
  The string columns of the raw frame (code, date) and their forward fill, and
  \<open>normalize_features\<close> (a scaler fitted with NaN cells present), are not
  modelled.
\<close>

type_synonym table = "pyfloat list list"

function drop_duplicates :: "'a list \<Rightarrow> 'a list" where
  "drop_duplicates [] = []"
| "drop_duplicates (r # rs) = r # drop_duplicates (filter (\<lambda>s. s \<noteq> r) rs)"
  by pat_completeness auto
termination
  by (relation "measure length") (auto simp: length_filter_le le_imp_less_Suc)

text \<open>\<open>Series.mean()\<close>: the mean of the non-NaN cells, NaN when there are none.\<close>

definition col_mean :: "pyfloat list \<Rightarrow> pyfloat" where
  "col_mean col = (let vs = filter (\<lambda>c. c \<noteq> NaN) col in if vs = [] then NaN else np_mean vs)"

definition column_of :: "table \<Rightarrow> nat \<Rightarrow> pyfloat list" where
  "column_of t j = map (\<lambda>r. r ! j) t"

definition fillna_mean :: "table \<Rightarrow> table" where
  "fillna_mean t =
     map (\<lambda>r. map (\<lambda>j. if r ! j = NaN then col_mean (column_of t j) else r ! j) [0..<length r]) t"

fun ffill_rows :: "pyfloat list \<Rightarrow> table \<Rightarrow> table" where
  "ffill_rows prev [] = []"
| "ffill_rows prev (r # rs) =
     (let r' = map2 (\<lambda>p c. if c = NaN then p else c) prev r in r' # ffill_rows r' rs)"

definition ffill :: "table \<Rightarrow> table" where
  "ffill t = (case t of [] \<Rightarrow> [] | r # _ \<Rightarrow> ffill_rows (replicate (length r) NaN) t)"

definition clean_data :: "table \<Rightarrow> table" where
  "clean_data t = ffill (fillna_mean (drop_duplicates t))"

record gbar = bar +
  g_MA5 :: pyfloat
  g_MA10 :: pyfloat
  g_MA20 :: pyfloat
  g_MACD :: pyfloat
  g_Signal_Line :: pyfloat
  g_RSI :: pyfloat

definition calculate_technical_indicators :: "bar list \<Rightarrow> gbar list" where
  "calculate_technical_indicators df0 =
     (let df = sort_key trade_date df0;
          c = map close df;
          ma5 = rolling_mean 5 (map Fin c);
          ma10 = rolling_mean 10 (map Fin c);
          ma20 = rolling_mean 20 (map Fin c);
          exp1 = ewm_mean 12 c;
          exp2 = ewm_mean 26 c;
          macd = map2 (-) exp1 exp2;
          sig = ewm_mean 9 macd;
          rsi = rsi_column 14 c
      in map (\<lambda>i. bar.extend (df ! i)
                    \<lparr>g_MA5 = ma5 ! i, g_MA10 = ma10 ! i, g_MA20 = ma20 ! i,
                     g_MACD = Fin (macd ! i), g_Signal_Line = Fin (sig ! i), g_RSI = rsi ! i\<rparr>)
             [0..<length df])"

text \<open>The first code base's enriched bar, without its volatility column.\<close>

definition gbar_of_ebar :: "ebar \<Rightarrow> gbar" where
  "gbar_of_ebar e =
     bar.extend (bar.truncate e)
       \<lparr>g_MA5 = MA5 e, g_MA10 = MA10 e, g_MA20 = MA20 e, g_MACD = MACD e,
        g_Signal_Line = Signal e, g_RSI = RSI e\<rparr>"

text \<open>
  \<open>for i in range(len(data) - sequence_length)\<close>: window \<open>data[i:i+L, :-1]\<close>
  (all columns but the target), target \<open>data[i+L, -1]\<close>.
\<close>

definition prepare_time_series_data :: "'a list list \<Rightarrow> nat \<Rightarrow> 'a list list list \<times> 'a list" where
  "prepare_time_series_data vals L =
     (map (\<lambda>i. map butlast (slice vals i (i + L))) [0..<length vals - L],
      map (\<lambda>i. last (vals ! (i + L))) [0..<length vals - L])"

definition split_train_test :: "'a list \<Rightarrow> real \<Rightarrow> 'a list \<times> 'a list" where
  "split_train_test df test_size =
     (let k = py_index (py_int (real (length df) * (1 - test_size))) (length df)
      in (take k df, drop k df))"

subsection \<open>Lemmas\<close>

lemma drop_duplicates_distinct: "distinct t \<Longrightarrow> drop_duplicates t = t"
proof (induction t)
  case Nil
  then show ?case by simp
next
  case (Cons r rs)
  then have "filter (\<lambda>s. s \<noteq> r) rs = rs"
    by (auto simp: filter_id_conv)
  with Cons show ?case by simp
qed

lemma length_fillna_mean [simp]: "length (fillna_mean t) = length t"
  by (simp add: fillna_mean_def)

lemma nth_fillna_mean:
  "i < length t \<Longrightarrow> j < length (t ! i) \<Longrightarrow>
     fillna_mean t ! i ! j = (if t ! i ! j = NaN then col_mean (column_of t j) else t ! i ! j)"
  by (simp add: fillna_mean_def)

lemma length_fillna_mean_row [simp]: "i < length t \<Longrightarrow> length (fillna_mean t ! i) = length (t ! i)"
  by (simp add: fillna_mean_def)

lemma length_ffill_rows [simp]: "length (ffill_rows prev t) = length t"
  by (induction t arbitrary: prev) (simp_all add: Let_def)

lemma ffill_rows_keeps:
  assumes "\<forall>r\<in>set t. length r = w" and "length prev = w"
    and "i < length t" and "j < w" and "t ! i ! j \<noteq> NaN"
  shows "ffill_rows prev t ! i ! j = t ! i ! j"
  using assms
proof (induction t arbitrary: prev i)
  case Nil
  then show ?case by simp
next
  case (Cons r rs)
  show ?case
  proof (cases i)
    case 0
    then show ?thesis using Cons.prems by (simp add: Let_def)
  next
    case (Suc i')
    then show ?thesis using Cons.prems Cons.IH [of "map2 (\<lambda>p c. if c = NaN then p else c) prev r" i']
      by (simp add: Let_def)
  qed
qed

lemma ffill_keeps:
  assumes "\<forall>r\<in>set t. length r = w" and "i < length t" and "j < w" and "t ! i ! j \<noteq> NaN"
  shows "ffill t ! i ! j = t ! i ! j"
proof (cases t)
  case Nil
  then show ?thesis using assms by simp
next
  case (Cons r rs)
  then have "length (replicate (length r) NaN) = w"
    using assms(1) by simp
  with assms Cons show ?thesis
    using ffill_rows_keeps [OF assms(1) _ assms(2-4)] by (simp add: ffill_def)
qed

lemma col_mean_fin:
  assumes "\<forall>c\<in>set col. c = NaN \<or> is_fin c" and "\<exists>c\<in>set col. c \<noteq> NaN"
  shows "\<exists>x. col_mean col = Fin x"
proof -
  define vs where "vs = filter (\<lambda>c. c \<noteq> NaN) col"
  have "\<forall>c\<in>set vs. is_fin c" and "vs \<noteq> []"
    using assms by (auto simp: vs_def filter_empty_conv)
  then obtain xs where "vs = map Fin xs" and "xs \<noteq> []"
    by (metis fins_None_iff fins_Some_iff not_None_eq list.map_disc_iff)
  then show ?thesis
    by (simp add: col_mean_def vs_def [symmetric] np_mean_Fin)
qed

subsection \<open>Properties of the second code base's data processing\<close>

text \<open>
  C27. The two code bases compute the same indicators: the second one's
  \<open>calculate_technical_indicators\<close> is the first one's enriched frame
  (\<open>get_stock_data\<close>: sort, then \<open>_add_technical_indicators\<close>) without the
  volatility column, row by row.
\<close>

theorem goon_indicators_equiv:
  "calculate_technical_indicators df = map gbar_of_ebar (stock_frame df)"
proof (rule nth_equalityI)
  show "length (calculate_technical_indicators df) = length (map gbar_of_ebar (stock_frame df))"
    by (simp add: calculate_technical_indicators_def stock_frame_def sort_by_date_def Let_def)
next
  fix i assume "i < length (calculate_technical_indicators df)"
  then have i: "i < length (sort_key trade_date df)"
    by (simp add: calculate_technical_indicators_def Let_def)
  then show "calculate_technical_indicators df ! i = map gbar_of_ebar (stock_frame df) ! i"
    by (simp add: calculate_technical_indicators_def stock_frame_def sort_by_date_def
        nth_add_technical_indicators gbar_of_ebar_def Let_def)
qed

text \<open>
  C28. \<open>clean_data\<close> imputes with the future: in a table of distinct rows of
  width \<open>w\<close>, a NaN cell is replaced by the mean of every non-NaN value of
  its column, later rows included, so the cleaned value of a row depends on
  rows after it.
\<close>

theorem clean_data_mean_imputation:
  assumes "distinct t" and "\<forall>r\<in>set t. length r = w" and "i < length t" and "j < w"
    and "t ! i ! j = NaN" and "\<forall>c\<in>set (column_of t j). c = NaN \<or> is_fin c"
    and "\<exists>c\<in>set (column_of t j). c \<noteq> NaN"
  shows "clean_data t ! i ! j = col_mean (column_of t j) \<and> col_mean (column_of t j) \<noteq> NaN"
proof -
  obtain x where m: "col_mean (column_of t j) = Fin x"
    using col_mean_fin [OF assms(6,7)] by blast
  have w: "\<forall>r\<in>set (fillna_mean t). length r = w"
    using assms(2) by (auto simp: fillna_mean_def)
  have "fillna_mean t ! i ! j = Fin x"
    using assms(2-5) m by (simp add: nth_fillna_mean)
  then have "ffill (fillna_mean t) ! i ! j = Fin x"
    using ffill_keeps [OF w, of i j] assms(3,4) by simp
  then show ?thesis
    using assms(1) m by (simp add: clean_data_def drop_duplicates_distinct)
qed

theorem clean_data_mean_imputation_witness:
  "clean_data [[NaN], [Fin 2]] ! 0 ! 0 = Fin 2 \<and> clean_data [[NaN]] ! 0 ! 0 = NaN"
proof
  have "clean_data [[NaN], [Fin 2]] ! 0 ! 0 = col_mean (column_of [[NaN], [Fin 2]] 0)
        \<and> col_mean (column_of [[NaN], [Fin 2]] 0) \<noteq> NaN"
    by (rule clean_data_mean_imputation [where w = 1]) (simp_all add: column_of_def)
  then show "clean_data [[NaN], [Fin 2]] ! 0 ! 0 = Fin 2"
    by (simp add: col_mean_def column_of_def np_mean_def)
  show "clean_data [[NaN]] ! 0 ! 0 = NaN"
    by (simp add: clean_data_def fillna_mean_def col_mean_def column_of_def ffill_def)
qed

text \<open>
  C29. \<open>prepare_time_series_data\<close> is the first code base's window builder on
  the matrix \<open>features + [target]\<close>: windows of the feature columns, the
  target column read one row after each window.
\<close>

theorem prepare_time_series_equiv:
  "prepare_time_series_data (vals :: real list list) L = make_sequences (map butlast vals) (map last vals) L"
  by (simp add: prepare_time_series_data_def make_sequences_def slice_map)

text \<open>
  C30. \<open>split_train_test\<close> is a prefix/suffix split (no shuffling): the two
  parts concatenate to the frame, and with the default \<open>test_size = 0.2\<close> it
  cuts where \<open>main.py\<close> cuts its windows, at \<open>train_size\<close>.
\<close>

theorem split_train_test_prefix:
  "fst (split_train_test df t) @ snd (split_train_test df t) = df
   \<and> split_train_test df 0.2 = (take (train_size (length df)) df, drop (train_size (length df)) df)"
proof -
  have "py_int (real (length df) * (1 - 0.2)) = \<lfloor>real (length df) * 0.8\<rfloor>"
    by simp
  moreover have "nat \<lfloor>real (length df) * 0.8\<rfloor> \<le> length df"
    using train_size_le [of "length df"] by (simp add: train_size_def)
  ultimately show ?thesis
    by (simp add: split_train_test_def Let_def train_size_def min_absorb1)
qed

end
