(* ===== verification/GoonFetch.thy ===== *)
theory GoonFetch
  imports GoonData
begin

text \<open>
  The second code base's \<open>DataFetcher\<close>, \<open>src/goon/src/data/data_fetcher.py\<close>:
  three wrappers around the tushare client that \<open>ts.pro_api(token)\<close> builds.
  A pandas frame is its column names and its rows. The client's calls are
  inputs (\<open>ts_pro_api\<close>); each returns a frame or raises an exception of
  type \<open>'e\<close>. Every wrapper catches the exception, prints a message naming
  the call (and the stock code where the call has one) with the exception,
  and returns the empty frame \<open>pd.DataFrame()\<close>. The printed messages are
  the first component of each result.
\<close>

record 'v frame =
  columns :: "string list"
  rows :: "'v list list"

text \<open>\<open>pd.DataFrame()\<close>: no columns and no rows.\<close>

definition empty_frame :: "'v frame" where
  "empty_frame = \<lparr>columns = [], rows = []\<rparr>"

text \<open>The three messages the wrappers print, with the values they interpolate.\<close>

datatype 'e fetch_msg = DailyFailed string 'e | BasicFailed 'e | FinancialFailed string 'e

record ('e, 'v) ts_pro_api =
  daily :: "string \<Rightarrow> string \<Rightarrow> string \<Rightarrow> 'e + 'v frame"
  stock_basic :: "string \<Rightarrow> string \<Rightarrow> 'e + 'v frame"
  fina_indicator :: "string \<Rightarrow> string \<Rightarrow> string \<Rightarrow> 'e + 'v frame"

record ('e, 'v) data_fetcher =
  ts_api :: "('e, 'v) ts_pro_api"

definition data_fetcher_init ::
  "(string \<Rightarrow> ('e, 'v) ts_pro_api) \<Rightarrow> string \<Rightarrow> ('e, 'v) data_fetcher" where
  "data_fetcher_init pro_api tushare_token = \<lparr>ts_api = pro_api tushare_token\<rparr>"

definition fetch_stock_daily ::
  "('e, 'v) data_fetcher \<Rightarrow> string \<Rightarrow> string \<Rightarrow> string \<Rightarrow> 'e fetch_msg list \<times> 'v frame" where
  "fetch_stock_daily f stock_code start_date end_date =
     (case daily (ts_api f) stock_code start_date end_date of
        Inr df \<Rightarrow> ([], df)
      | Inl e \<Rightarrow> ([DailyFailed stock_code e], empty_frame))"

definition fetch_stock_basic :: "('e, 'v) data_fetcher \<Rightarrow> 'e fetch_msg list \<times> 'v frame" where
  "fetch_stock_basic f =
     (case stock_basic (ts_api f) '''' ''L'' of
        Inr df \<Rightarrow> ([], df)
      | Inl e \<Rightarrow> ([BasicFailed e], empty_frame))"

definition fetch_financial_data ::
  "('e, 'v) data_fetcher \<Rightarrow> string \<Rightarrow> string \<Rightarrow> string \<Rightarrow> 'e fetch_msg list \<times> 'v frame" where
  "fetch_financial_data f stock_code start_date end_date =
     (case fina_indicator (ts_api f) stock_code start_date end_date of
        Inr df \<Rightarrow> ([], df)
      | Inl e \<Rightarrow> ([FinancialFailed stock_code e], empty_frame))"

subsection \<open>Lemmas\<close>

lemma fetch_stock_daily_Inl [simp]:
  "daily (ts_api f) c s e = Inl ex \<Longrightarrow> fetch_stock_daily f c s e = ([DailyFailed c ex], empty_frame)"
  by (simp add: fetch_stock_daily_def)

lemma fetch_stock_daily_Inr [simp]:
  "daily (ts_api f) c s e = Inr df \<Longrightarrow> fetch_stock_daily f c s e = ([], df)"
  by (simp add: fetch_stock_daily_def)

lemma clean_data_Nil [simp]: "clean_data [] = []"
  by (simp add: clean_data_def fillna_mean_def ffill_def)

lemma prepare_time_series_data_Nil [simp]: "prepare_time_series_data [] L = ([], [])"
  by (simp add: prepare_time_series_data_def)

end
