(* ===== verification/GoonNormalize.thy ===== *)
theory GoonNormalize
  imports GoonFetch
begin

text \<open>
  The frame-level methods of the second code base's \<open>DataProcessor\<close>
  (\<open>src/goon/src/data/data_processor.py\<close>): \<open>clean_data\<close> on a frame whose
  columns are all numeric, \<open>normalize_features\<close>, and the column selection
  \<open>df[features + [target]]\<close> of \<open>prepare_time_series_data\<close>. Selecting a
  column the frame lacks raises \<open>KeyError\<close>. The processor's state is its
  scaler, refitted by every \<open>normalize_features\<close> call. The scaler is
  scikit-learn's \<open>MinMaxScaler\<close> on a matrix that may hold NaN: its input
  check rejects an empty matrix, a matrix without columns and infinite
  cells (\<open>ValueError\<close>) but lets NaN through; the per-column minimum and
  maximum ignore NaN (\<open>nanmin\<close>, \<open>nanmax\<close>), an all-NaN column has NaN
  bounds, and a NaN cell stays NaN. The assignment
  \<open>df_normalized[features] = ...\<close> replaces each named column in turn.
\<close>

primrec col_index :: "string list \<Rightarrow> string \<Rightarrow> nat" where
  "col_index [] n = 0"
| "col_index (c # cs) n = (if c = n then 0 else Suc (col_index cs n))"

definition select_columns :: "string list \<Rightarrow> 'v frame \<Rightarrow> 'v list list result" where
  "select_columns names df =
     (if \<exists>n\<in>set names. n \<notin> set (columns df) then Inl KeyError
      else Inr (map (\<lambda>r. map (\<lambda>n. r ! col_index (columns df) n) names) (rows df)))"

definition set_column :: "string \<Rightarrow> 'v list \<Rightarrow> 'v frame \<Rightarrow> 'v frame" where
  "set_column name col df =
     df\<lparr>rows := map2 (\<lambda>r v. map2 (\<lambda>n c. if n = name then v else c) (columns df) r) (rows df) col\<rparr>"

definition assign_columns :: "string list \<Rightarrow> 'v list list \<Rightarrow> 'v frame \<Rightarrow> 'v frame" where
  "assign_columns names Y df =
     foldl (\<lambda>d (k, n). set_column n (map (\<lambda>r. r ! k) Y) d) df (enumerate 0 names)"

fun fin_vals :: "pyfloat list \<Rightarrow> real list" where
  "fin_vals [] = []"
| "fin_vals (Fin x # cs) = x # fin_vals cs"
| "fin_vals (c # cs) = fin_vals cs"

definition nanmin :: "pyfloat list \<Rightarrow> pyfloat" where
  "nanmin col = (let vs = fin_vals col in if vs = [] then NaN else Fin (Min (set vs)))"

definition nanmax :: "pyfloat list \<Rightarrow> pyfloat" where
  "nanmax col = (let vs = fin_vals col in if vs = [] then NaN else Fin (Max (set vs)))"

record nan_scaler =
  nan_data_min :: "pyfloat list"
  nan_data_max :: "pyfloat list"

text \<open>\<open>x * scale_ + min_\<close> with \<open>scale_ = 1 / _handle_zeros_in_scale(max - min)\<close> and \<open>min_ = 0 - min * scale_\<close>.\<close>

definition nan_scale_cell :: "pyfloat \<Rightarrow> pyfloat \<Rightarrow> pyfloat \<Rightarrow> pyfloat" where
  "nan_scale_cell lo hi c =
     (case (lo, hi, c) of
        (Fin l, Fin h, Fin x) \<Rightarrow>
          (let s = 1 / handle_zeros_in_scale (h - l) in Fin (x * s + (0 - l * s)))
      | _ \<Rightarrow> NaN)"

definition nan_fit_transform :: "pyfloat list list \<Rightarrow> (nan_scaler \<times> pyfloat list list) result" where
  "nan_fit_transform X =
     (if X = [] \<or> hd X = [] then Inl ValueError
      else if \<exists>r\<in>set X. \<exists>c\<in>set r. c = PInf \<or> c = NInf then Inl ValueError
      else (let m = length (hd X);
                los = map (\<lambda>j. nanmin (column_of X j)) [0..<m];
                his = map (\<lambda>j. nanmax (column_of X j)) [0..<m]
            in Inr (\<lparr>nan_data_min = los, nan_data_max = his\<rparr>,
                    map (\<lambda>r. map (\<lambda>j. nan_scale_cell (los ! j) (his ! j) (r ! j)) [0..<m]) X)))"

record goon_processor =
  g_scaler :: "nan_scaler option"

definition goon_processor_init :: goon_processor where
  "goon_processor_init = \<lparr>g_scaler = None\<rparr>"

definition clean_frame :: "pyfloat frame \<Rightarrow> pyfloat frame" where
  "clean_frame df = df\<lparr>rows := clean_data (rows df)\<rparr>"

definition normalize_features ::
  "goon_processor \<Rightarrow> pyfloat frame \<Rightarrow> string list \<Rightarrow> (goon_processor \<times> pyfloat frame) result" where
  "normalize_features gp df features =
     (case select_columns features df of
        Inl e \<Rightarrow> Inl e
      | Inr X \<Rightarrow>
          (case nan_fit_transform X of
             Inl e \<Rightarrow> Inl e
           | Inr (sc, Y) \<Rightarrow> Inr (gp\<lparr>g_scaler := Some sc\<rparr>, assign_columns features Y df)))"

definition prepare_time_series_frame ::
  "pyfloat frame \<Rightarrow> string list \<Rightarrow> string \<Rightarrow> nat \<Rightarrow> (pyfloat list list list \<times> pyfloat list) result" where
  "prepare_time_series_frame df features target L =
     (case select_columns (features @ [target]) df of
        Inl e \<Rightarrow> Inl e
      | Inr vals \<Rightarrow> Inr (prepare_time_series_data vals L))"

text \<open>A table of width \<open>w\<close> whose cells are finite or NaN, and a frame whose rows have one cell per column.\<close>

definition tab_ok :: "nat \<Rightarrow> pyfloat list list \<Rightarrow> bool" where
  "tab_ok w t \<longleftrightarrow> (\<forall>r\<in>set t. length r = w \<and> (\<forall>c\<in>set r. c = NaN \<or> is_fin c))"

definition frame_wf :: "'v frame \<Rightarrow> bool" where
  "frame_wf df \<longleftrightarrow> (\<forall>r\<in>set (rows df). length r = length (columns df))"

text \<open>A frame with missing cells and a client whose daily call fails, for the examples.\<close>

definition demo_frame :: "pyfloat frame" where
  "demo_frame = \<lparr>columns = [''open'', ''close''], rows = [[NaN, Fin 1], [Fin 2, Fin 3], [Fin 4, NaN]]\<rparr>"

definition failing_fetcher :: "(string, pyfloat) data_fetcher" where
  "failing_fetcher =
     \<lparr>ts_api = \<lparr>daily = (\<lambda>c s e. Inl ''timeout''), stock_basic = (\<lambda>x l. Inl ''timeout''),
                fina_indicator = (\<lambda>c s e. Inl ''timeout'')\<rparr>\<rparr>"

subsection \<open>Lemmas\<close>

lemma set_drop_duplicates [simp]: "set (drop_duplicates t) = set t"
  by (induction t rule: drop_duplicates.induct) auto

lemma drop_duplicates_Nil_iff [simp]: "drop_duplicates t = [] \<longleftrightarrow> t = []"
  by (metis set_drop_duplicates set_empty)

lemma col_mean_NaN_or_fin:
  assumes "\<forall>c\<in>set col. c = NaN \<or> is_fin c"
  shows "col_mean col = NaN \<or> is_fin (col_mean col)"
proof (cases "\<exists>c\<in>set col. c \<noteq> NaN")
  case True
  then show ?thesis using col_mean_fin [OF assms] by auto
next
  case False
  then have "filter (\<lambda>c. c \<noteq> NaN) col = []"
    by (simp add: filter_empty_conv)
  then show ?thesis by (simp add: col_mean_def)
qed

lemma column_of_ok: "tab_ok w t \<Longrightarrow> j < w \<Longrightarrow> \<forall>c\<in>set (column_of t j). c = NaN \<or> is_fin c"
  by (auto simp: tab_ok_def column_of_def)

lemma fillna_mean_ok:
  assumes "tab_ok w t"
  shows "tab_ok w (fillna_mean t)"
  unfolding tab_ok_def
proof
  fix r' assume "r' \<in> set (fillna_mean t)"
  then obtain r where r: "r \<in> set t"
    and r': "r' = map (\<lambda>j. if r ! j = NaN then col_mean (column_of t j) else r ! j) [0..<length r]"
    by (auto simp: fillna_mean_def)
  have lr: "length r = w" and cr: "\<forall>c\<in>set r. c = NaN \<or> is_fin c"
    using assms r by (simp_all add: tab_ok_def)
  have "c = NaN \<or> is_fin c" if cin: "c \<in> set r'" for c
  proof -
    obtain j where j0: "j < length r" and c: "c = (if r ! j = NaN then col_mean (column_of t j) else r ! j)"
      using cin unfolding r' by auto
    have j: "j < w"
      using j0 lr by simp
    show ?thesis
      using col_mean_NaN_or_fin [OF column_of_ok [OF assms j]] cr j lr c by (auto split: if_splits)
  qed
  then show "length r' = w \<and> (\<forall>c\<in>set r'. c = NaN \<or> is_fin c)"
    using r' lr by simp
qed

lemma map2_cells:
  assumes "\<forall>c\<in>set xs. P c" and "\<forall>c\<in>set ys. P c"
  shows "\<forall>c\<in>set (map2 (\<lambda>p c. if c = NaN then p else c) xs ys). P c"
proof
  fix c assume "c \<in> set (map2 (\<lambda>p c. if c = NaN then p else c) xs ys)"
  then obtain p q where pq: "(p, q) \<in> set (zip xs ys)" and c: "c = (if q = NaN then p else q)"
    by auto
  have "p \<in> set xs" "q \<in> set ys"
    using set_zip_leftD [OF pq] set_zip_rightD [OF pq] .
  then show "P c"
    using assms c by auto
qed

lemma ffill_rows_ok:
  "tab_ok w t \<Longrightarrow> length prev = w \<Longrightarrow> \<forall>c\<in>set prev. c = NaN \<or> is_fin c \<Longrightarrow> tab_ok w (ffill_rows prev t)"
proof (induction t arbitrary: prev)
  case Nil
  then show ?case by (simp add: tab_ok_def)
next
  case (Cons r rs)
  define r' where "r' = map2 (\<lambda>p c. if c = NaN then p else c) prev r"
  have r: "length r = w" "\<forall>c\<in>set r. c = NaN \<or> is_fin c" and rs: "tab_ok w rs"
    using Cons.prems(1) by (simp_all add: tab_ok_def)
  have l: "length r' = w"
    using r(1) Cons.prems(2) by (simp add: r'_def)
  have c: "\<forall>c\<in>set r'. c = NaN \<or> is_fin c"
    unfolding r'_def using map2_cells [OF Cons.prems(3) r(2)] .
  have "tab_ok w (ffill_rows r' rs)"
    using Cons.IH [OF rs l c] .
  then show ?case
    using l c by (simp add: tab_ok_def Let_def r'_def [symmetric])
qed

lemma ffill_ok:
  assumes "tab_ok w t"
  shows "tab_ok w (ffill t)"
proof (cases t)
  case Nil
  then show ?thesis by (simp add: ffill_def tab_ok_def)
next
  case (Cons r rs)
  then have "length r = w"
    using assms by (simp add: tab_ok_def)
  then show ?thesis
    using ffill_rows_ok [OF assms, of "replicate (length r) NaN"] Cons by (simp add: ffill_def)
qed

lemma drop_duplicates_ok: "tab_ok w t \<Longrightarrow> tab_ok w (drop_duplicates t)"
  by (simp add: tab_ok_def)

lemma clean_data_ok: "tab_ok w t \<Longrightarrow> tab_ok w (clean_data t)"
  unfolding clean_data_def by (intro ffill_ok fillna_mean_ok drop_duplicates_ok)

lemma length_ffill [simp]: "length (ffill t) = length t"
  by (cases t) (simp_all add: ffill_def Let_def)

lemma length_clean_data [simp]: "length (clean_data t) = length (drop_duplicates t)"
  by (simp add: clean_data_def)

lemma is_fin_not_NaN: "is_fin c \<Longrightarrow> c \<noteq> NaN"
  by (cases c) simp_all

lemma clean_data_col_fin:
  assumes ok: "tab_ok w t" and j: "j < w" and ex: "\<exists>r\<in>set t. r ! j \<noteq> NaN"
  shows "\<forall>r\<in>set (clean_data t). is_fin (r ! j)"
proof -
  define t1 where "t1 = drop_duplicates t"
  have ok1: "tab_ok w t1"
    using ok by (simp add: t1_def tab_ok_def)
  have "\<exists>c\<in>set (column_of t1 j). c \<noteq> NaN"
    using ex by (auto simp: t1_def column_of_def)
  then obtain x where m: "col_mean (column_of t1 j) = Fin x"
    using col_mean_fin [OF column_of_ok [OF ok1 j]] by blast
  define t2 where "t2 = fillna_mean t1"
  have ok2: "tab_ok w t2"
    using fillna_mean_ok [OF ok1] by (simp add: t2_def)
  have f2: "is_fin (t2 ! i ! j)" if i: "i < length t2" for i
  proof -
    have i1: "i < length t1"
      using i by (simp add: t2_def)
    then have "t1 ! i \<in> set t1"
      by simp
    then have "length (t1 ! i) = w" and "\<forall>c\<in>set (t1 ! i). c = NaN \<or> is_fin c"
      using ok1 by (simp_all add: tab_ok_def)
    then show ?thesis
      using nth_fillna_mean [OF i1, of j] j m by (auto simp: t2_def)
  qed
  have rect2: "\<forall>r\<in>set t2. length r = w"
    using ok2 by (simp add: tab_ok_def)
  show ?thesis
  proof
    fix r assume "r \<in> set (clean_data t)"
    then obtain i where i: "i < length t2" and r: "r = ffill t2 ! i"
      by (auto simp: clean_data_def t1_def [symmetric] t2_def [symmetric] in_set_conv_nth)
    show "is_fin (r ! j)"
      using ffill_keeps [OF rect2 i j is_fin_not_NaN [OF f2 [OF i]]] f2 [OF i] r by simp
  qed
qed

lemma nan_scale_cell_unit:
  assumes "l \<le> x" and "x \<le> h"
  shows "\<exists>v. nan_scale_cell (Fin l) (Fin h) (Fin x) = Fin v \<and> 0 \<le> v \<and> v \<le> 1"
proof (cases "h = l")
  case True
  then show ?thesis
    using assms by (simp add: nan_scale_cell_def handle_zeros_in_scale_def)
next
  case False
  then have hl: "0 < h - l"
    using assms by simp
  have "nan_scale_cell (Fin l) (Fin h) (Fin x) = Fin ((x - l) / (h - l))"
    using False by (simp add: nan_scale_cell_def handle_zeros_in_scale_def Let_def diff_divide_distrib)
  moreover have "0 \<le> (x - l) / (h - l)" and "(x - l) / (h - l) \<le> 1"
    using assms hl by simp_all
  ultimately show ?thesis
    by blast
qed

lemma fin_vals_Fin: "Fin x \<in> set col \<Longrightarrow> x \<in> set (fin_vals col)"
  by (induction col rule: fin_vals.induct) auto

lemma nanmin_le:
  assumes "Fin x \<in> set col"
  shows "\<exists>l. nanmin col = Fin l \<and> l \<le> x"
  using fin_vals_Fin [OF assms] by (auto simp: nanmin_def Let_def)

lemma nanmax_ge:
  assumes "Fin x \<in> set col"
  shows "\<exists>h. nanmax col = Fin h \<and> x \<le> h"
  using fin_vals_Fin [OF assms] by (auto simp: nanmax_def Let_def)

lemma nan_fit_transform_unit:
  assumes ne: "X \<noteq> []" "hd X \<noteq> []" and rect: "\<forall>r\<in>set X. length r = m"
    and fin: "\<forall>r\<in>set X. \<forall>c\<in>set r. is_fin c"
  shows "\<exists>sc Y. nan_fit_transform X = Inr (sc, Y) \<and> length Y = length X
           \<and> (\<forall>i<length Y. length (Y ! i) = m \<and> (\<forall>j<m. \<exists>v. Y ! i ! j = Fin v \<and> 0 \<le> v \<and> v \<le> 1))"
proof -
  have m: "length (hd X) = m"
    using rect ne(1) by simp
  have noinf: "\<not> (\<exists>r\<in>set X. \<exists>c\<in>set r. c = PInf \<or> c = NInf)"
    using fin by fastforce
  define los where "los = map (\<lambda>j. nanmin (column_of X j)) [0..<m]"
  define his where "his = map (\<lambda>j. nanmax (column_of X j)) [0..<m]"
  define Y where "Y = map (\<lambda>r. map (\<lambda>j. nan_scale_cell (los ! j) (his ! j) (r ! j)) [0..<m]) X"
  have run: "nan_fit_transform X = Inr (\<lparr>nan_data_min = los, nan_data_max = his\<rparr>, Y)"
    using ne noinf m by (simp add: nan_fit_transform_def Let_def los_def his_def Y_def)
  have cell: "\<exists>v. Y ! i ! j = Fin v \<and> 0 \<le> v \<and> v \<le> 1" if i: "i < length X" and j: "j < m" for i j
  proof -
    have Xi: "X ! i \<in> set X"
      using i by simp
    then obtain x where x: "X ! i ! j = Fin x"
      using fin rect j by (metis is_fin_iff nth_mem)
    have "Fin x \<in> set (column_of X j)"
      using Xi x by (force simp: column_of_def)
    then obtain l h where l: "nanmin (column_of X j) = Fin l" "l \<le> x"
      and h: "nanmax (column_of X j) = Fin h" "x \<le> h"
      using nanmin_le nanmax_ge by blast
    show ?thesis
      using nan_scale_cell_unit [OF l(2) h(2)] i j x l(1) h(1) by (simp add: Y_def los_def his_def)
  qed
  show ?thesis
    using run cell by (auto simp: Y_def)
qed

lemma col_index_lt: "n \<in> set cs \<Longrightarrow> col_index cs n < length cs"
  by (induction cs) auto

lemma nth_col_index: "n \<in> set cs \<Longrightarrow> cs ! col_index cs n = n"
  by (induction cs) auto

lemma select_columns_Inr:
  "set names \<subseteq> set (columns df) \<Longrightarrow>
     select_columns names df = Inr (map (\<lambda>r. map (\<lambda>n. r ! col_index (columns df) n) names) (rows df))"
  by (auto simp: select_columns_def)

lemma columns_set_column [simp]: "columns (set_column n col d) = columns d"
  by (simp add: set_column_def)

lemma length_rows_set_column [simp]:
  "length col = length (rows d) \<Longrightarrow> length (rows (set_column n col d)) = length (rows d)"
  by (simp add: set_column_def)

lemma set_column_wf: "frame_wf d \<Longrightarrow> length col = length (rows d) \<Longrightarrow> frame_wf (set_column n col d)"
  by (auto simp: frame_wf_def set_column_def set_zip)

lemma nth_set_column:
  assumes "frame_wf d" and "length col = length (rows d)" and "i < length (rows d)" and "c < length (columns d)"
  shows "rows (set_column n col d) ! i ! c = (if columns d ! c = n then col ! i else rows d ! i ! c)"
proof -
  have "length (rows d ! i) = length (columns d)"
    using assms(1,3) by (simp add: frame_wf_def)
  then show ?thesis
    using assms(2-4) by (simp add: set_column_def)
qed

lemma foldl_set_column:
  assumes "frame_wf d" and "length (rows d) = length Y"
    and "\<forall>(k, n)\<in>set ps. \<forall>i<length Y. Q (Y ! i ! k)"
  shows "columns (foldl (\<lambda>d (k, n). set_column n (map (\<lambda>r. r ! k) Y) d) d ps) = columns d
     \<and> frame_wf (foldl (\<lambda>d (k, n). set_column n (map (\<lambda>r. r ! k) Y) d) d ps)
     \<and> length (rows (foldl (\<lambda>d (k, n). set_column n (map (\<lambda>r. r ! k) Y) d) d ps)) = length Y
     \<and> (\<forall>i<length Y. \<forall>c<length (columns d).
          (columns d ! c \<notin> snd ` set ps \<longrightarrow>
             rows (foldl (\<lambda>d (k, n). set_column n (map (\<lambda>r. r ! k) Y) d) d ps) ! i ! c = rows d ! i ! c)
        \<and> (columns d ! c \<in> snd ` set ps \<longrightarrow>
             Q (rows (foldl (\<lambda>d (k, n). set_column n (map (\<lambda>r. r ! k) Y) d) d ps) ! i ! c)))"
  using assms
proof (induction ps arbitrary: d)
  case Nil
  then show ?case by simp
next
  case (Cons p ps)
  obtain k n where p: "p = (k, n)"
    by (cases p)
  define d1 where "d1 = set_column n (map (\<lambda>r. r ! k) Y) d"
  have wf1: "frame_wf d1" and l1: "length (rows d1) = length Y" and c1: "columns d1 = columns d"
    using Cons.prems set_column_wf [OF Cons.prems(1)] by (simp_all add: d1_def)
  have nth1: "rows d1 ! i ! c = (if columns d ! c = n then Y ! i ! k else rows d ! i ! c)"
    if "i < length Y" "c < length (columns d)" for i c
    using nth_set_column [OF Cons.prems(1), of "map (\<lambda>r. r ! k) Y" i c n] Cons.prems(2) that
    by (simp add: d1_def)
  have Qk: "\<forall>i<length Y. Q (Y ! i ! k)"
    using Cons.prems(3) p by auto
  have IH: "\<forall>(k, n)\<in>set ps. \<forall>i<length Y. Q (Y ! i ! k)"
    using Cons.prems(3) by auto
  define D where "D = foldl (\<lambda>d (k, n). set_column n (map (\<lambda>r. r ! k) Y) d) d1 ps"
  have ih: "columns D = columns d" "frame_wf D" "length (rows D) = length Y"
    and cells: "\<forall>i<length Y. \<forall>c<length (columns d).
          (columns d ! c \<notin> snd ` set ps \<longrightarrow> rows D ! i ! c = rows d1 ! i ! c)
        \<and> (columns d ! c \<in> snd ` set ps \<longrightarrow> Q (rows D ! i ! c))"
    using Cons.IH [OF wf1 l1 IH] c1 by (simp_all add: D_def)
  have "\<forall>i<length Y. \<forall>c<length (columns d).
          (columns d ! c \<notin> snd ` set (p # ps) \<longrightarrow> rows D ! i ! c = rows d ! i ! c)
        \<and> (columns d ! c \<in> snd ` set (p # ps) \<longrightarrow> Q (rows D ! i ! c))"
  proof (intro allI impI conjI)
    fix i c assume i: "i < length Y" and c: "c < length (columns d)"
    show "rows D ! i ! c = rows d ! i ! c" if "columns d ! c \<notin> snd ` set (p # ps)"
      using that cells i c nth1 [OF i c] by (auto simp: p)
    show "Q (rows D ! i ! c)" if "columns d ! c \<in> snd ` set (p # ps)"
    proof (cases "columns d ! c \<in> snd ` set ps")
      case True
      then show ?thesis using cells i c by blast
    next
      case False
      then have "columns d ! c = n"
        using that by (auto simp: p)
      then show ?thesis
        using False cells i c nth1 [OF i c] Qk by auto
    qed
  qed
  then show ?case
    using ih by (simp add: p D_def d1_def)
qed

lemma snd_set_enumerate: "snd ` set (enumerate 0 xs) = set xs"
  by (simp add: enumerate_eq_zip set_map [symmetric] del: set_map)

lemma in_set_enumerate_fst: "(k, n) \<in> set (enumerate 0 xs) \<Longrightarrow> k < length xs"
  by (simp add: in_set_enumerate_eq)

lemma assign_columns_cells:
  assumes "frame_wf d" and "length (rows d) = length Y"
    and "\<forall>i<length Y. length (Y ! i) = length names \<and> (\<forall>k<length names. Q (Y ! i ! k))"
  shows "columns (assign_columns names Y d) = columns d \<and> frame_wf (assign_columns names Y d)
     \<and> length (rows (assign_columns names Y d)) = length Y
     \<and> (\<forall>i<length Y. \<forall>c<length (columns d).
          (columns d ! c \<notin> set names \<longrightarrow> rows (assign_columns names Y d) ! i ! c = rows d ! i ! c)
        \<and> (columns d ! c \<in> set names \<longrightarrow> Q (rows (assign_columns names Y d) ! i ! c)))"
proof -
  have "\<forall>(k, n)\<in>set (enumerate 0 names). \<forall>i<length Y. Q (Y ! i ! k)"
    using assms(3) by (auto dest: in_set_enumerate_fst)
  from foldl_set_column [OF assms(1,2) this]
  show ?thesis
    by (simp add: assign_columns_def snd_set_enumerate)
qed

text \<open>
  C38. Cleaning before normalising removes every NaN from the normalised
  features: on a well-formed frame of finite or NaN cells in which every
  selected feature column has a value, \<open>normalize_features\<close> applied to the
  \<open>clean_data\<close> result succeeds, refits the processor's scaler, keeps the
  columns, scales every cell of a selected column to a finite value in
  [0, 1], and leaves the other columns as cleaned.
\<close>

theorem normalize_after_clean_unit:
  assumes wf: "frame_wf df" and ne: "rows df \<noteq> []"
    and cells: "\<forall>r\<in>set (rows df). \<forall>c\<in>set r. c = NaN \<or> is_fin c"
    and fne: "features \<noteq> []" and fsub: "set features \<subseteq> set (columns df)"
    and has: "\<forall>n\<in>set features. \<exists>r\<in>set (rows df). r ! col_index (columns df) n \<noteq> NaN"
  shows "\<exists>gp' df'. normalize_features gp (clean_frame df) features = Inr (gp', df')
     \<and> g_scaler gp' \<noteq> None \<and> columns df' = columns df \<and> frame_wf df'
     \<and> length (rows df') = length (clean_data (rows df))
     \<and> (\<forall>i<length (rows df'). \<forall>c<length (columns df).
          (columns df ! c \<in> set features \<longrightarrow> (\<exists>v. rows df' ! i ! c = Fin v \<and> 0 \<le> v \<and> v \<le> 1))
        \<and> (columns df ! c \<notin> set features \<longrightarrow> rows df' ! i ! c = clean_data (rows df) ! i ! c))"
proof -
  define w where "w = length (columns df)"
  define t where "t = clean_data (rows df)"
  define idx where "idx = col_index (columns df)"
  have ok: "tab_ok w (rows df)"
    using wf cells by (simp add: tab_ok_def frame_wf_def w_def)
  have okt: "tab_ok w t"
    using clean_data_ok [OF ok] by (simp add: t_def)
  have tne: "t \<noteq> []"
    using ne length_clean_data [of "rows df"] by (metis drop_duplicates_Nil_iff length_0_conv t_def)
  have idx: "idx n < w" if "n \<in> set features" for n
    using col_index_lt fsub that by (auto simp: idx_def w_def)
  have colfin: "\<forall>r\<in>set t. is_fin (r ! idx n)" if "n \<in> set features" for n
    using clean_data_col_fin [OF ok idx [OF that]] has that by (auto simp: t_def idx_def)
  define X where "X = map (\<lambda>r. map (\<lambda>n. r ! idx n) features) t"
  have sel: "select_columns features (clean_frame df) = Inr X"
    using select_columns_Inr [of features "clean_frame df"] fsub
    by (simp add: clean_frame_def X_def t_def idx_def)
  have Xne: "X \<noteq> []" "hd X \<noteq> []"
    using tne fne by (auto simp: X_def hd_map)
  have Xrect: "\<forall>r\<in>set X. length r = length features"
    by (auto simp: X_def)
  have Xfin: "\<forall>r\<in>set X. \<forall>c\<in>set r. is_fin c"
    using colfin by (auto simp: X_def)
  obtain sc Y where fit: "nan_fit_transform X = Inr (sc, Y)" and lY: "length Y = length X"
    and Ycells: "\<forall>i<length Y. length (Y ! i) = length features
                    \<and> (\<forall>j<length features. \<exists>v. Y ! i ! j = Fin v \<and> 0 \<le> v \<and> v \<le> 1)"
    using nan_fit_transform_unit [OF Xne Xrect Xfin] by blast
  have wfc: "frame_wf (clean_frame df)"
    using okt by (simp add: frame_wf_def tab_ok_def clean_frame_def t_def w_def)
  have lc: "length (rows (clean_frame df)) = length Y"
    using lY by (simp add: X_def clean_frame_def t_def)
  note asg = assign_columns_cells [OF wfc lc Ycells]
  have run: "normalize_features gp (clean_frame df) features
             = Inr (gp\<lparr>g_scaler := Some sc\<rparr>, assign_columns features Y (clean_frame df))"
    using sel fit by (simp add: normalize_features_def)
  show ?thesis
    using run asg lc by (auto simp: clean_frame_def t_def)
qed

theorem normalize_after_clean_unit_witness:
  "\<exists>gp' df'. normalize_features goon_processor_init (clean_frame demo_frame) [''close''] = Inr (gp', df')
     \<and> columns df' = [''open'', ''close''] \<and> length (rows df') = 3
     \<and> (\<forall>i<3. \<exists>v. rows df' ! i ! 1 = Fin v \<and> 0 \<le> v \<and> v \<le> 1)"
proof -
  have "\<exists>gp' df'. normalize_features goon_processor_init (clean_frame demo_frame) [''close''] = Inr (gp', df')
     \<and> g_scaler gp' \<noteq> None \<and> columns df' = columns demo_frame \<and> frame_wf df'
     \<and> length (rows df') = length (clean_data (rows demo_frame))
     \<and> (\<forall>i<length (rows df'). \<forall>c<length (columns demo_frame).
          (columns demo_frame ! c \<in> set [''close''] \<longrightarrow> (\<exists>v. rows df' ! i ! c = Fin v \<and> 0 \<le> v \<and> v \<le> 1))
        \<and> (columns demo_frame ! c \<notin> set [''close''] \<longrightarrow> rows df' ! i ! c = clean_data (rows demo_frame) ! i ! c))"
    by (rule normalize_after_clean_unit) (simp_all add: demo_frame_def frame_wf_def)
  moreover have "length (clean_data (rows demo_frame)) = 3"
    by (simp add: demo_frame_def)
  ultimately show ?thesis
    by (fastforce simp: demo_frame_def)
qed

text \<open>
  C39. A failed fetch is not reported as one: the wrapper prints the error and
  returns the same empty frame as an empty answer; cleaning passes it
  through, and the error resurfaces only later, as a \<open>KeyError\<close> of
  \<open>prepare_time_series_data\<close> and of \<open>normalize_features\<close> for any
  non-empty feature list, since the empty frame has no columns.
\<close>

theorem fetch_failure_keyerror:
  assumes "daily (ts_api f) c s e = Inl ex"
  shows "fetch_stock_daily f c s e = ([DailyFailed c ex], empty_frame)
     \<and> clean_frame (snd (fetch_stock_daily f c s e)) = empty_frame
     \<and> prepare_time_series_frame (clean_frame (snd (fetch_stock_daily f c s e))) features target L = Inl KeyError
     \<and> (features \<noteq> [] \<longrightarrow>
          normalize_features gp (clean_frame (snd (fetch_stock_daily f c s e))) features = Inl KeyError)"
proof -
  have ce: "clean_frame empty_frame = (empty_frame :: pyfloat frame)"
    by (simp add: clean_frame_def empty_frame_def)
  have "prepare_time_series_frame empty_frame features target L = Inl KeyError"
    by (auto simp: prepare_time_series_frame_def select_columns_def empty_frame_def)
  moreover have "features \<noteq> [] \<Longrightarrow> normalize_features gp empty_frame features = Inl KeyError"
    by (cases features) (auto simp: normalize_features_def select_columns_def empty_frame_def)
  ultimately show ?thesis
    using assms ce by simp
qed

theorem fetch_failure_keyerror_witness:
  "fetch_stock_daily failing_fetcher ''000001.SZ'' ''20240101'' ''20241231''
     = ([DailyFailed ''000001.SZ'' ''timeout''], empty_frame)
   \<and> prepare_time_series_frame (clean_frame (snd (fetch_stock_daily failing_fetcher ''000001.SZ'' ''20240101'' ''20241231'')))
        [''open''] ''close'' 10 = Inl KeyError"
proof -
  have d: "daily (ts_api failing_fetcher) ''000001.SZ'' ''20240101'' ''20241231'' = Inl ''timeout''"
    by (simp add: failing_fetcher_def)
  show ?thesis
    using fetch_failure_keyerror [OF d, where features = "[''open'']" and target = "''close''"
        and L = 10 and gp = goon_processor_init]
    by blast
qed

end
