(* ===== verification/GoonModels.thy ===== *)
theory GoonModels
  imports Trainer
begin

text \<open>
  The second code base's model classes: \<open>ModelTrainer\<close> of
  \<open>src/goon/src/models/model_trainer.py\<close> and \<open>StockPredictor\<close> of
  \<open>src/goon/src/models/predict.py\<close>. Both hold an optional LSTM and an
  optional XGBoost model. A Python method that raises after assigning an
  attribute leaves that assignment in place, so the trainer's operations
  return the new state together with their result or exception.

  The learners are library code and enter through a \<open>goon_backend\<close> record.
  A Keras network remembers the input shape it was built for and
  \<open>fit\<close> continues from its current weights; fitting or predicting with
  windows of another shape, or with a 2-D array, raises \<open>ValueError\<close>. An
  XGBoost regressor is \<open>Unfitted\<close> until \<open>fit\<close> succeeds, then remembers its
  number of features; predicting with an unfitted model, a 3-D array or
  another number of columns raises \<open>ValueError\<close> (\<open>NotFittedError\<close> is a
  \<open>ValueError\<close>). scikit-learn's \<open>train_test_split(random_state=42)\<close> takes
  the first \<open>ceil(test_size * n)\<close> indices of a random permutation as the test
  set and the next ones as the training set; the permutation of the seeded
  generator is an input \<open>perm\<close> of the model.
\<close>

datatype nd_input = Nd3 ndarray3 | Nd2 "real list list"

record 'w lstm_net =
  in_shape :: "nat \<times> nat"
  weights :: 'w

datatype 'x xgb_obj = Unfitted | Fitted nat 'x

record ('w, 'x) goon_backend =
  lstm_init :: "nat \<times> nat \<Rightarrow> 'w"
  lstm_train :: "'w \<Rightarrow> real list list list \<Rightarrow> real list \<Rightarrow> 'w result"
  lstm_apply :: "'w \<Rightarrow> real list list \<Rightarrow> real"
  xgb_train :: "real list list \<Rightarrow> real list \<Rightarrow> 'x result"
  xgb_apply :: "'x \<Rightarrow> real list \<Rightarrow> real"

text \<open>\<open>model.fit(X, y, ...)\<close> of a built Keras network.\<close>

definition keras_fit :: "('w, 'x) goon_backend \<Rightarrow> 'w lstm_net \<Rightarrow> nd_input \<Rightarrow> real list \<Rightarrow> 'w lstm_net result" where
  "keras_fit be n X y =
     (case X of
        Nd3 a \<Rightarrow> (case shape a of
                   _ # s1 # s2 # _ \<Rightarrow>
                     if (s1, s2) = in_shape n
                     then bind_result (lstm_train be (weights n) (data a) y) (\<lambda>w. Inr (n\<lparr>weights := w\<rparr>))
                     else Inl ValueError
                 | _ \<Rightarrow> Inl ValueError)
      | Nd2 _ \<Rightarrow> Inl ValueError)"

text \<open>\<open>model.predict(X)\<close> of a Keras network: one row \<open>[v]\<close> per window.\<close>

definition keras_predict :: "('w, 'x) goon_backend \<Rightarrow> 'w lstm_net \<Rightarrow> nd_input \<Rightarrow> real list list result" where
  "keras_predict be n X =
     (case X of
        Nd3 a \<Rightarrow> (case shape a of
                   _ # s1 # s2 # _ \<Rightarrow>
                     if (s1, s2) = in_shape n then Inr (map (\<lambda>win. [lstm_apply be (weights n) win]) (data a))
                     else Inl ValueError
                 | _ \<Rightarrow> Inl ValueError)
      | Nd2 _ \<Rightarrow> Inl ValueError)"

definition xgb_predict_obj :: "('w, 'x) goon_backend \<Rightarrow> 'x xgb_obj \<Rightarrow> nd_input \<Rightarrow> real list result" where
  "xgb_predict_obj be m X =
     (case m of
        Unfitted \<Rightarrow> Inl ValueError
      | Fitted k x \<Rightarrow> (case X of
          Nd2 rows \<Rightarrow> if (\<forall>r\<in>set rows. length r = k) then Inr (map (xgb_apply be x) rows) else Inl ValueError
        | Nd3 _ \<Rightarrow> Inl ValueError))"

definition xgb_fit_obj :: "('w, 'x) goon_backend \<Rightarrow> real list list \<Rightarrow> real list \<Rightarrow> 'x xgb_obj result" where
  "xgb_fit_obj be X y =
     (if X = [] then Inl ValueError
      else bind_result (xgb_train be X y) (\<lambda>x. Inr (Fitted (length (hd X)) x)))"

record ('w, 'x) goon_trainer =
  g_lstm :: "'w lstm_net option"
  g_xgb :: "'x xgb_obj option"

definition goon_trainer_init :: "('w, 'x) goon_trainer" where
  "goon_trainer_init = \<lparr>g_lstm = None, g_xgb = None\<rparr>"

text \<open>
  \<open>train_lstm\<close>: the network is built, for the shape of this call's windows,
  only when there is none yet; then it is fitted, continuing from its weights.
\<close>

definition train_lstm ::
  "('w, 'x) goon_backend \<Rightarrow> ('w, 'x) goon_trainer \<Rightarrow> nd_input \<Rightarrow> real list
   \<Rightarrow> ('w, 'x) goon_trainer \<times> unit result" where
  "train_lstm be st X y =
     (let built =
        (case g_lstm st of
           Some n \<Rightarrow> Inr n
         | None \<Rightarrow> (case X of
              Nd3 a \<Rightarrow> (case shape a of
                  _ # s1 # s2 # _ \<Rightarrow> Inr \<lparr>in_shape = (s1, s2), weights = lstm_init be (s1, s2)\<rparr>
                | _ \<Rightarrow> Inl IndexError)
            | Nd2 rows \<Rightarrow> Inl IndexError))
      in case built of
           Inl e \<Rightarrow> (st, Inl e)
         | Inr n \<Rightarrow>
             (case keras_fit be n X y of
                Inl e \<Rightarrow> (st\<lparr>g_lstm := Some n\<rparr>, Inl e)
              | Inr n' \<Rightarrow> (st\<lparr>g_lstm := Some n'\<rparr>, Inr ())))"

text \<open>
  \<open>train_test_split(X, y, test_size, random_state=42)\<close> with the permutation
  \<open>perm\<close> of the indices: \<open>n_test = ceil(test_size * n)\<close>,
  \<open>n_train = n - n_test\<close>, no sample or no training sample is a \<open>ValueError\<close>.
\<close>

definition tts_sizes :: "nat \<Rightarrow> real \<Rightarrow> (nat \<times> nat) result" where
  "tts_sizes n test_size =
     (let n_test = nat \<lceil>test_size * real n\<rceil>
      in if n = 0 \<or> n_test \<ge> n then Inl ValueError else Inr (n - n_test, n_test))"

definition train_test_split ::
  "nat list \<Rightarrow> 'a list \<Rightarrow> real \<Rightarrow> (nat list \<times> nat list) result" where
  "train_test_split perm xs test_size =
     bind_result (tts_sizes (length xs) test_size) (\<lambda>(n_train, n_test).
       Inr (take n_train (drop n_test perm), take n_test perm))"

text \<open>
  \<open>train_xgboost\<close>: a fresh, unfitted regressor is installed, fitted on the
  shuffled training rows and scored on the shuffled test rows.
\<close>

definition train_xgboost ::
  "('w, 'x) goon_backend \<Rightarrow> nat list \<Rightarrow> ('w, 'x) goon_trainer \<Rightarrow> real list list \<Rightarrow> real list \<Rightarrow> real
   \<Rightarrow> ('w, 'x) goon_trainer \<times> (real \<times> real \<times> pyfloat) result" where
  "train_xgboost be perm st X y test_size =
     (case train_test_split perm X test_size of
        Inl e \<Rightarrow> (st, Inl e)
      | Inr (tr, te) \<Rightarrow>
          (let st1 = st\<lparr>g_xgb := Some Unfitted\<rparr>
           in case xgb_fit_obj be (map ((!) X) tr) (map ((!) y) tr) of
                Inl e \<Rightarrow> (st1, Inl e)
              | Inr m \<Rightarrow>
                  (let st2 = st1\<lparr>g_xgb := Some m\<rparr>;
                       y_te = map ((!) y) te
                   in case xgb_predict_obj be m (Nd2 (map ((!) X) te)) of
                        Inl e \<Rightarrow> (st2, Inl e)
                      | Inr yp \<Rightarrow>
                          (st2, bind_result (mean_squared_error y_te yp) (\<lambda>a.
                                bind_result (mean_absolute_error y_te yp) (\<lambda>b.
                                bind_result (r2_score y_te yp) (\<lambda>c. Inr (a, b, c))))))))"

definition evaluate_model ::
  "('w, 'x) goon_backend \<Rightarrow> ('w, 'x) goon_trainer \<Rightarrow> nd_input \<Rightarrow> real list \<Rightarrow> string
   \<Rightarrow> (real \<times> real \<times> pyfloat) result" where
  "evaluate_model be st X y model_type =
     bind_result
       (if model_type = ''lstm'' \<and> g_lstm st \<noteq> None
        then bind_result (keras_predict be (the (g_lstm st)) X) (\<lambda>p. Inr (map hd p))
        else if model_type = ''xgb'' \<and> g_xgb st \<noteq> None
        then xgb_predict_obj be (the (g_xgb st)) X
        else Inl ValueError) (\<lambda>yp.
     bind_result (mean_squared_error y yp) (\<lambda>a.
     bind_result (mean_absolute_error y yp) (\<lambda>b.
     bind_result (r2_score y yp) (\<lambda>c. Inr (a, b, c)))))"

text \<open>
  \<open>save_models\<close>: the network is saved (file output, not modelled), then
  \<open>joblib.dump\<close> is called for a present XGBoost model, but the module never
  imports \<open>joblib\<close>.
\<close>

definition save_models :: "('w, 'x) goon_trainer \<Rightarrow> unit result" where
  "save_models st = (if g_xgb st \<noteq> None then Inl NameError else Inr ())"

definition predict_lstm_t :: "('w, 'x) goon_backend \<Rightarrow> ('w, 'x) goon_trainer \<Rightarrow> nd_input \<Rightarrow> real list list result" where
  "predict_lstm_t be st X = (case g_lstm st of None \<Rightarrow> Inl ValueError | Some n \<Rightarrow> keras_predict be n X)"

definition predict_xgboost_t :: "('w, 'x) goon_backend \<Rightarrow> ('w, 'x) goon_trainer \<Rightarrow> nd_input \<Rightarrow> real list result" where
  "predict_xgboost_t be st X = (case g_xgb st of None \<Rightarrow> Inl ValueError | Some m \<Rightarrow> xgb_predict_obj be m X)"

subsection \<open>The predictor\<close>

record ('w, 'x) stock_predictor =
  p_lstm :: "'w lstm_net option"
  p_xgb :: "'x xgb_obj option"

definition stock_predictor_init :: "('w, 'x) stock_predictor" where
  "stock_predictor_init = \<lparr>p_lstm = None, p_xgb = None\<rparr>"

text \<open>\<open>load_model(path)\<close> and \<open>joblib.load(path)\<close>: file input, a parameter.\<close>

record ('w, 'x) model_store =
  load_lstm :: "string \<Rightarrow> 'w lstm_net result"
  load_xgb :: "string \<Rightarrow> 'x xgb_obj result"

text \<open>\<open>load_models\<close>: an exception of either load is printed and swallowed.\<close>

definition load_models ::
  "('w, 'x) model_store \<Rightarrow> ('w, 'x) stock_predictor \<Rightarrow> string \<Rightarrow> string \<Rightarrow> ('w, 'x) stock_predictor" where
  "load_models ld sp lp xp =
     (case load_lstm ld lp of
        Inl _ \<Rightarrow> sp
      | Inr n \<Rightarrow> (let sp1 = sp\<lparr>p_lstm := Some n\<rparr>
                 in case load_xgb ld xp of Inl _ \<Rightarrow> sp1 | Inr m \<Rightarrow> sp1\<lparr>p_xgb := Some m\<rparr>))"

definition predict_lstm_p :: "('w, 'x) goon_backend \<Rightarrow> ('w, 'x) stock_predictor \<Rightarrow> nd_input \<Rightarrow> real list list result" where
  "predict_lstm_p be sp X = (case p_lstm sp of None \<Rightarrow> Inl ValueError | Some n \<Rightarrow> keras_predict be n X)"

definition predict_xgboost_p :: "('w, 'x) goon_backend \<Rightarrow> ('w, 'x) stock_predictor \<Rightarrow> nd_input \<Rightarrow> real list result" where
  "predict_xgboost_p be sp X = (case p_xgb sp of None \<Rightarrow> Inl ValueError | Some m \<Rightarrow> xgb_predict_obj be m X)"

text \<open>
  numpy's \<open>a * P + b * v\<close> for \<open>P\<close> of shape \<open>(N, 1)\<close> and \<open>v\<close> of shape
  \<open>(M,)\<close>: the shapes broadcast to \<open>(N, M)\<close>.
\<close>

definition broadcast_add :: "real \<Rightarrow> real list list \<Rightarrow> real \<Rightarrow> real list \<Rightarrow> real list list" where
  "broadcast_add a P b v = map (\<lambda>r. map (\<lambda>x. a * hd r + b * x) v) P"

definition ensemble_predict ::
  "('w, 'x) goon_backend \<Rightarrow> ('w, 'x) stock_predictor \<Rightarrow> nd_input \<Rightarrow> nd_input \<Rightarrow> real list option
   \<Rightarrow> real list list result" where
  "ensemble_predict be sp Xl Xx ws0 =
     (let w = (case ws0 of None \<Rightarrow> [0.5, 0.5] | Some ws \<Rightarrow> ws)
      in bind_result (predict_lstm_p be sp Xl) (\<lambda>lp.
         bind_result (predict_xgboost_p be sp Xx) (\<lambda>xp.
           if length w < 2 then Inl IndexError else Inr (broadcast_add (w ! 0) lp (w ! 1) xp))))"

text \<open>
  \<open>predict_next_day\<close>: the last \<open>L\<close> rows reshaped to \<open>(1, L, F)\<close> (a
  \<open>ValueError\<close> when fewer rows are there), the last row for XGBoost, and
  element \<open>[0][0]\<close> (or \<open>[0]\<close>) of each prediction.
\<close>

definition predict_next_day ::
  "('w, 'x) goon_backend \<Rightarrow> ('w, 'x) stock_predictor \<Rightarrow> real list list \<Rightarrow> nat \<Rightarrow> nat
   \<Rightarrow> (real \<times> real \<times> real) result" where
  "predict_next_day be sp cur L F =
     (let n = length cur;
          rows = drop (py_index (- int L) n) cur
      in if length rows * F \<noteq> L * F then Inl ValueError
      else (let lstm_input = Nd3 \<lparr>shape = [1, L, F], data = [rows]\<rparr>;
                xgb_input = Nd2 (drop (py_index (-1) n) cur)
            in bind_result (predict_lstm_p be sp lstm_input) (\<lambda>lp.
               bind_result (predict_xgboost_p be sp xgb_input) (\<lambda>xp.
               bind_result (ensemble_predict be sp lstm_input xgb_input (Some [0.6, 0.4])) (\<lambda>ep.
                 if lp = [] \<or> xp = [] \<or> ep = [] \<or> hd ep = [] then Inl IndexError
                 else Inr (hd (hd lp), hd xp, hd (hd ep)))))))"

subsection \<open>The trainer as a state machine\<close>

datatype goon_op =
    TrainLstm nd_input "real list"
  | TrainXgb "nat list" "real list list" "real list" real
  | EvaluateModel nd_input "real list" string
  | SaveModels
  | PredictLstm nd_input
  | PredictXgb nd_input

fun goon_exec :: "('w, 'x) goon_backend \<Rightarrow> ('w, 'x) goon_trainer \<Rightarrow> goon_op \<Rightarrow> ('w, 'x) goon_trainer" where
  "goon_exec be st (TrainLstm X y) = fst (train_lstm be st X y)"
| "goon_exec be st (TrainXgb perm X y t) = fst (train_xgboost be perm st X y t)"
| "goon_exec be st (EvaluateModel X y m) = st"
| "goon_exec be st SaveModels = st"
| "goon_exec be st (PredictLstm X) = st"
| "goon_exec be st (PredictXgb X) = st"

inductive goon_steps :: "('w, 'x) goon_backend \<Rightarrow> ('w, 'x) goon_trainer \<Rightarrow> ('w, 'x) goon_trainer \<Rightarrow> bool" where
  refl: "goon_steps be st st"
| step: "goon_steps be st st' \<Longrightarrow> goon_steps be st (goon_exec be st' op)"

text \<open>A concrete backend for the examples.\<close>

definition demo_goon_backend :: "(real, unit) goon_backend" where
  "demo_goon_backend =
     \<lparr>lstm_init = (\<lambda>_. 0), lstm_train = (\<lambda>w _ _. Inr (w + 1)), lstm_apply = (\<lambda>w _. w),
      xgb_train = (\<lambda>_ _. Inr ()), xgb_apply = (\<lambda>_ r. hd r)\<rparr>"

subsection \<open>Lemmas\<close>

lemma keras_fit_shape: "keras_fit be n X y = Inr n' \<Longrightarrow> in_shape n' = in_shape n"
  by (auto simp: keras_fit_def split: nd_input.splits list.splits if_splits)

lemma train_lstm_keeps_shape:
  assumes "g_lstm st = Some n"
  shows "\<exists>n'. g_lstm (fst (train_lstm be st X y)) = Some n' \<and> in_shape n' = in_shape n"
proof (cases "keras_fit be n X y")
  case (Inl e)
  then show ?thesis
    using assms by (simp add: train_lstm_def)
next
  case (Inr n')
  then show ?thesis
    using assms keras_fit_shape [OF Inr] by (simp add: train_lstm_def)
qed

lemma train_xgboost_g_lstm [simp]: "g_lstm (fst (train_xgboost be perm st X y t)) = g_lstm st"
  by (simp add: train_xgboost_def Let_def split: sum.splits prod.splits)

lemma goon_exec_keeps_shape:
  assumes "g_lstm st = Some n"
  shows "\<exists>n'. g_lstm (goon_exec be st op) = Some n' \<and> in_shape n' = in_shape n"
  using assms train_lstm_keeps_shape by (cases op) auto

lemma goon_steps_keep_shape:
  assumes "goon_steps be st st'" and "g_lstm st = Some n"
  shows "\<exists>n'. g_lstm st' = Some n' \<and> in_shape n' = in_shape n"
  using assms
proof (induction rule: goon_steps.induct)
  case (refl be st)
  then show ?case by simp
next
  case (step be st st' op)
  then obtain n' where "g_lstm st' = Some n'" and "in_shape n' = in_shape n"
    by blast
  then show ?case
    using goon_exec_keeps_shape [of st' n' be op] by auto
qed

lemma train_lstm_other_shape:
  assumes "g_lstm st = Some n" and "shape a = k # s1 # s2 # r" and "(s1, s2) \<noteq> in_shape n"
  shows "snd (train_lstm be st (Nd3 a) y) = Inl ValueError"
  using assms by (simp add: train_lstm_def keras_fit_def)

lemma set_take_drop_perm:
  assumes "distinct perm" and "set perm = {..<n}" and "length perm = n" and "a + b = n"
  shows "set (take a (drop b perm)) \<union> set (take b perm) = {..<n}"
    and "set (take a (drop b perm)) \<inter> set (take b perm) = {}"
proof -
  have d: "take a (drop b perm) = drop b perm"
    using assms(3,4) by simp
  have u: "set (take b perm) \<union> set (drop b perm) = set perm"
    by (metis set_append append_take_drop_id)
  have "distinct (take b perm @ drop b perm)"
    using assms(1) by simp
  then have i: "set (take b perm) \<inter> set (drop b perm) = {}"
    by (simp only: distinct_append)
  show "set (take a (drop b perm)) \<union> set (take b perm) = {..<n}"
    using u assms(2) by (simp add: d Un_commute)
  show "set (take a (drop b perm)) \<inter> set (take b perm) = {}"
    using i by (simp add: d Int_commute)
qed

lemma upper_block:
  fixes R T :: "nat set"
  assumes "R \<union> T = {..<n}" and "R \<inter> T = {}" and "card T = k"
  shows "(\<forall>i\<in>R. \<forall>j\<in>T. i < j) \<longleftrightarrow> T = {n - k..<n}"
proof
  assume below: "\<forall>i\<in>R. \<forall>j\<in>T. i < j"
  have fin: "finite T"
    using assms(1) by (metis finite_Un finite_lessThan)
  show "T = {n - k..<n}"
  proof (cases "T = {}")
    case True
    then show ?thesis using assms(3) by simp
  next
    case False
    define m where "m = Min T"
    have mT: "m \<in> T" and mmin: "\<forall>j\<in>T. m \<le> j"
      using fin False by (simp_all add: m_def)
    have "T = {m..<n}"
    proof
      show "T \<subseteq> {m..<n}"
        using mmin assms(1) by auto
      show "{m..<n} \<subseteq> T"
      proof
        fix j assume j: "j \<in> {m..<n}"
        show "j \<in> T"
        proof (rule ccontr)
          assume "j \<notin> T"
          then have "j \<in> R" using j assms(1) by auto
          then have "j < m" using below mT by blast
          then show False using j by simp
        qed
      qed
    qed
    moreover have "m = n - k"
      using \<open>T = {m..<n}\<close> assms(3) mT assms(1) by auto
    ultimately show ?thesis by simp
  qed
next
  assume T: "T = {n - k..<n}"
  show "\<forall>i\<in>R. \<forall>j\<in>T. i < j"
  proof (intro ballI)
    fix i j assume i: "i \<in> R" and j: "j \<in> T"
    have "i < n" and "i \<notin> T"
      using i assms(1,2) by auto
    then have "i < n - k"
      using T by auto
    with j T show "i < j"
      by simp
  qed
qed

lemma evaluate_model_metrics:
  "bind_result (mean_squared_error y yp) (\<lambda>a. bind_result (mean_absolute_error y yp) (\<lambda>b.
     bind_result (r2_score y yp) (\<lambda>c. Inr (a, b, c))))
   = map_sum id (\<lambda>m. (mse m, mae m, r2 m)) (evaluate y yp)"
  by (simp add: evaluate_def bind_result_def split: sum.splits)

subsection \<open>Properties of the second code base's trainer\<close>

text \<open>
  C31. Warm start: once \<open>train_lstm\<close> has built a network, every later state
  of the trainer keeps a network of that input shape, and a later
  \<open>train_lstm\<close> call with windows of any other shape raises
  \<open>ValueError\<close>: the model is never rebuilt, where the design requires a fresh
  model for each training set.
\<close>

theorem lstm_never_rebuilt:
  assumes "goon_steps be st0 st" and "g_lstm st0 = Some n"
    and "shape a = k # s1 # s2 # r" and "(s1, s2) \<noteq> in_shape n"
  shows "snd (train_lstm be st (Nd3 a) y) = Inl ValueError"
proof -
  obtain n' where "g_lstm st = Some n'" and "in_shape n' = in_shape n"
    using goon_steps_keep_shape [OF assms(1,2)] by blast
  with assms(3,4) show ?thesis
    using train_lstm_other_shape by metis
qed

theorem lstm_never_rebuilt_witness:
  "snd (train_lstm demo_goon_backend
          (fst (train_lstm demo_goon_backend goon_trainer_init (Nd3 demo_windows) (replicate 6 0)))
          (Nd3 \<lparr>shape = [3, 2, 1], data = replicate 3 [[0], [0]]\<rparr>) [1, 2, 3]) = Inl ValueError"
proof -
  define st where "st = fst (train_lstm demo_goon_backend goon_trainer_init (Nd3 demo_windows) (replicate 6 0))"
  have built: "g_lstm st = Some \<lparr>in_shape = (1, 1), weights = 1\<rparr>"
    by (simp add: st_def train_lstm_def goon_trainer_init_def demo_windows_def np_array_windows_def
        keras_fit_def demo_goon_backend_def)
  have "snd (train_lstm demo_goon_backend st (Nd3 \<lparr>shape = [3, 2, 1], data = replicate 3 [[0], [0]]\<rparr>) [1, 2, 3])
          = Inl ValueError"
    using lstm_never_rebuilt [OF goon_steps.refl built, of "\<lparr>shape = [3, 2, 1], data = replicate 3 [[0], [0]]\<rparr>"
        3 2 1 "[]"] by simp
  then show ?thesis
    by (simp add: st_def)
qed



text \<open>
  C15. The two code bases evaluate alike: \<open>evaluate_model\<close> of the second
  trainer returns exactly the MSE, MAE and R2 (and the same exceptions) as
  the first code base's \<open>evaluate\<close> on the predictions of the selected
  model (the LSTM's first output column, or the XGBoost predictions), and
  raises \<open>ValueError\<close> for any other model type.
\<close>

theorem goon_evaluate_equiv:
  "(g_lstm st = Some n \<and> keras_predict be n X = Inr p
      \<longrightarrow> evaluate_model be st X y ''lstm'' = map_sum id (\<lambda>m. (mse m, mae m, r2 m)) (evaluate y (map hd p)))
   \<and> (g_xgb st = Some mdl \<and> xgb_predict_obj be mdl X = Inr yp
      \<longrightarrow> evaluate_model be st X y ''xgb'' = map_sum id (\<lambda>m. (mse m, mae m, r2 m)) (evaluate y yp))
   \<and> (model_type \<noteq> ''lstm'' \<and> model_type \<noteq> ''xgb''
      \<longrightarrow> evaluate_model be st X y model_type = Inl ValueError)"
  by (simp add: evaluate_model_def evaluate_model_metrics)

theorem goon_evaluate_equiv_witness:
  "evaluate_model demo_goon_backend \<lparr>g_lstm = None, g_xgb = Some (Fitted 1 ())\<rparr> (Nd2 [[1], [2]]) [1, 2] ''xgb''
     = Inr (0, 0, Fin 1)"
proof -
  have "xgb_predict_obj demo_goon_backend (Fitted 1 ()) (Nd2 [[1], [2]]) = Inr [1, 2]"
    by (simp add: xgb_predict_obj_def demo_goon_backend_def)
  then have "evaluate_model demo_goon_backend \<lparr>g_lstm = None, g_xgb = Some (Fitted 1 ())\<rparr> (Nd2 [[1], [2]]) [1, 2] ''xgb''
     = map_sum id (\<lambda>m. (mse m, mae m, r2 m)) (evaluate [1, 2] [1, 2])"
    using goon_evaluate_equiv [where st = "\<lparr>g_lstm = None, g_xgb = Some (Fitted 1 ())\<rparr>" and mdl = "Fitted 1 ()"
        and be = demo_goon_backend and X = "Nd2 [[1], [2]]" and yp = "[1, 2]" and y = "[1, 2]"]
    by simp
  then show ?thesis
    by (simp add: evaluate_def mean_squared_error_def mean_absolute_error_def r2_score_def check_targets_def
        mean_def)
qed

subsection \<open>Properties of the predictor\<close>

text \<open>
  C33. \<open>ensemble_predict\<close> does not combine the two predictions sample by
  sample: the LSTM's \<open>(N, 1)\<close> output and XGBoost's \<open>(M,)\<close> output broadcast
  to an \<open>N \<times> M\<close> matrix whose entry \<open>(i, j)\<close> mixes the LSTM's prediction for
  sample \<open>i\<close> with XGBoost's for sample \<open>j\<close>. Only its diagonal is the
  intended ensemble; \<open>predict_next_day\<close> is unaffected because it reads
  entry \<open>[0][0]\<close> of a single sample.
\<close>

theorem ensemble_predict_broadcast:
  assumes "p_lstm sp = Some n" and "p_xgb sp = Some m"
    and "keras_predict be n Xl = Inr lp" and "xgb_predict_obj be m Xx = Inr xp"
  shows "ensemble_predict be sp Xl Xx None = Inr (map (\<lambda>r. map (\<lambda>x. 0.5 * hd r + 0.5 * x) xp) lp)"
  using assms by (simp add: ensemble_predict_def predict_lstm_p_def predict_xgboost_p_def broadcast_add_def)

theorem ensemble_predict_broadcast_witness:
  "ensemble_predict demo_goon_backend \<lparr>p_lstm = Some \<lparr>in_shape = (1, 1), weights = 3\<rparr>, p_xgb = Some (Fitted 1 ())\<rparr>
     (Nd3 \<lparr>shape = [2, 1, 1], data = [[[0]], [[0]]]\<rparr>) (Nd2 [[1], [2]]) None
   = Inr [[2, 5 / 2], [2, 5 / 2]]"
proof -
  have l: "keras_predict demo_goon_backend \<lparr>in_shape = (1, 1), weights = 3\<rparr>
             (Nd3 \<lparr>shape = [2, 1, 1], data = [[[0]], [[0]]]\<rparr>) = Inr [[3], [3]]"
    by (simp add: keras_predict_def demo_goon_backend_def)
  have x: "xgb_predict_obj demo_goon_backend (Fitted 1 ()) (Nd2 [[1], [2]]) = Inr [1, 2]"
    by (simp add: xgb_predict_obj_def demo_goon_backend_def)
  have "ensemble_predict demo_goon_backend \<lparr>p_lstm = Some \<lparr>in_shape = (1, 1), weights = 3\<rparr>, p_xgb = Some (Fitted 1 ())\<rparr>
     (Nd3 \<lparr>shape = [2, 1, 1], data = [[[0]], [[0]]]\<rparr>) (Nd2 [[1], [2]]) None
     = Inr (map (\<lambda>r. map (\<lambda>x. 0.5 * hd r + 0.5 * x) [1, 2]) [[3], [3]])"
    using ensemble_predict_broadcast [OF _ _ l x] by simp
  then show ?thesis
    by simp
qed

text \<open>
  C36. \<open>predict_next_day\<close> on a history shorter than the sequence length raises
  \<open>ValueError\<close> from the reshape to \<open>(1, L, F)\<close> before any model is
  consulted, where the design asks for \<open>InsufficientDataError\<close>.
\<close>

theorem predict_next_day_short_history:
  assumes "length cur < L" and "0 < F"
  shows "predict_next_day be sp cur L F = Inl ValueError"
proof -
  have "py_index (- int L) (length cur) = 0"
    using assms(1) by (simp add: py_index_def)
  with assms show ?thesis
    by (simp add: predict_next_day_def Let_def)
qed

theorem predict_next_day_short_history_witness:
  "predict_next_day demo_goon_backend stock_predictor_init [[1, 2], [3, 4]] 10 2 = Inl ValueError"
  by (rule predict_next_day_short_history) simp_all

end
