(* ===== verification/Lifecycle.thy ===== *)
theory Lifecycle
  imports Trainer
begin

text \<open>
  The design's ModelPair lifecycle as an abstract machine, and the first code
  base's \<open>ModelTrainer\<close> as an implementation of it. The abstract state
  records which of the two models is trained; \<open>train\<close> makes both trained,
  \<open>predict\<close> is allowed only when both are (otherwise the design's
  \<open>ModelNotTrainedError\<close>). A concrete call either returns normally, giving
  the next trainer state, or raises, which the abstract machine reads as a
  refused operation. The abstraction maps a trainer to the presence of its
  two models.
\<close>

record model_pair =
  seq_trained :: bool
  tree_trained :: bool

datatype pair_op = PTrain | PPredict

fun pair_step :: "model_pair \<Rightarrow> pair_op \<Rightarrow> model_pair option" where
  "pair_step p PTrain = Some \<lparr>seq_trained = True, tree_trained = True\<rparr>"
| "pair_step p PPredict = (if seq_trained p \<and> tree_trained p then Some p else None)"

fun pair_run :: "model_pair \<Rightarrow> pair_op list \<Rightarrow> model_pair option" where
  "pair_run p [] = Some p"
| "pair_run p (o1 # os) = (case pair_step p o1 of None \<Rightarrow> None | Some p' \<Rightarrow> pair_run p' os)"

datatype trainer_op = OTrain ndarray3 "real list" | OPredict ndarray3 "real \<times> real"

fun trainer_step ::
  "('l, 'x) backend \<Rightarrow> ('l, 'x) model_trainer \<Rightarrow> trainer_op \<Rightarrow> ('l, 'x) model_trainer option" where
  "trainer_step be st (OTrain X y) = (case train_models be st X y of Inl _ \<Rightarrow> None | Inr st' \<Rightarrow> Some st')"
| "trainer_step be st (OPredict X w) = (case predict be st X w of Inl _ \<Rightarrow> None | Inr _ \<Rightarrow> Some st)"

fun trainer_run ::
  "('l, 'x) backend \<Rightarrow> ('l, 'x) model_trainer \<Rightarrow> trainer_op list \<Rightarrow> ('l, 'x) model_trainer option" where
  "trainer_run be st [] = Some st"
| "trainer_run be st (o1 # os) =
     (case trainer_step be st o1 of None \<Rightarrow> None | Some st' \<Rightarrow> trainer_run be st' os)"

definition abs_pair :: "('l, 'x) model_trainer \<Rightarrow> model_pair" where
  "abs_pair st = \<lparr>seq_trained = (lstm_model st \<noteq> None), tree_trained = (xgb_model st \<noteq> None)\<rparr>"

fun abs_op :: "trainer_op \<Rightarrow> pair_op" where
  "abs_op (OTrain X y) = PTrain"
| "abs_op (OPredict X w) = PPredict"

subsection \<open>Lemmas\<close>

lemma trainer_step_refines:
  assumes "trainer_step be st op = Some st'"
  shows "pair_step (abs_pair st) (abs_op op) = Some (abs_pair st')"
proof (cases op)
  case (OTrain X y)
  then show ?thesis
    using assms by (auto simp: abs_pair_def train_models_Inr split: sum.splits)
next
  case (OPredict X w)
  then show ?thesis
    using assms by (auto simp: abs_pair_def predict_Inr split: sum.splits)
qed

subsection \<open>Refinement\<close>

text \<open>
  C34. The first code base's trainer refines the design's ModelPair
  lifecycle: along every sequence of \<open>train_models\<close> and \<open>predict\<close> calls
  that all return normally, the abstract machine accepts the same sequence of
  operations and ends in the abstraction of the final trainer; in particular
  no prediction ever returns from a trainer lacking one of its models.
\<close>

theorem trainer_refines_lifecycle:
  assumes "trainer_run be st ops = Some st'"
  shows "pair_run (abs_pair st) (map abs_op ops) = Some (abs_pair st')"
  using assms
proof (induction ops arbitrary: st)
  case Nil
  then show ?case by simp
next
  case (Cons o1 os)
  then obtain st1 where s1: "trainer_step be st o1 = Some st1" and r: "trainer_run be st1 os = Some st'"
    by (auto split: option.splits)
  show ?case
    using trainer_step_refines [OF s1] Cons.IH [OF r] by simp
qed

theorem trainer_refines_lifecycle_witness:
  "pair_run (abs_pair (trainer_init :: (real, unit) model_trainer))
      (map abs_op [OTrain demo_windows (replicate 6 1), OPredict demo_windows (0.5, 0.5)])
   = Some \<lparr>seq_trained = True, tree_trained = True\<rparr>"
proof -
  have run: "trainer_run demo_backend trainer_init [OTrain demo_windows (replicate 6 1), OPredict demo_windows (0.5, 0.5)]
               = Some \<lparr>lstm_model = Some 1, xgb_model = Some ()\<rparr>"
    by (simp add: train_models_def predict_def demo_windows_def np_array_windows_def demo_backend_def
        reshape2d_def mean_def sum_list_replicate)
  show ?thesis
    using trainer_refines_lifecycle [OF run] by (simp add: abs_pair_def)
qed

end
