(* ===== verification/Boosting.thy ===== *)
theory Boosting
  imports Prelude
begin

text \<open>
  XGBoost's boosting loop with early stopping, as \<open>train_models\<close> of
  \<open>src/nft/*/src/models/model_trainer.py\<close> (lines 60-67) configures it:
  at most \<open>n_estimators = 1000\<close> rounds, stopping when the evaluation loss
  has not improved for \<open>early_stopping_rounds = 10\<close> rounds, and the
  evaluation set is the training set itself. Round \<open>r\<close> adds a tree and
  measures the loss \<open>loss r\<close>; the loss sequence is what the learner
  produces and is an input here. The loop is written as a partial function
  (\<open>None\<close> would be a loop that never ends) and is proved to return, with
  the number of rounds it ran.
\<close>

partial_function (option) boost_rounds ::
  "(nat \<Rightarrow> real) \<Rightarrow> nat \<Rightarrow> nat \<Rightarrow> nat \<Rightarrow> real option \<Rightarrow> nat \<Rightarrow> nat option" where
  "boost_rounds loss n_est patience r best best_r =
     (if n_est \<le> r then Some r
      else (let l = loss r;
                (b', br') = (case best of
                               None \<Rightarrow> (l, r)
                             | Some b \<Rightarrow> if l < b then (l, r) else (b, best_r))
            in if patience \<le> r - br' then Some (r + 1)
               else boost_rounds loss n_est patience (r + 1) (Some b') br'))"

definition xgb_train_rounds :: "(nat \<Rightarrow> real) \<Rightarrow> nat option" where
  "xgb_train_rounds train_loss = boost_rounds train_loss 1000 10 0 None 0"

subsection \<open>Lemmas\<close>

lemma boost_rounds_returns:
  "\<exists>k. boost_rounds loss n p r best br = Some k \<and> k \<le> max r n"
proof (induction "n - r" arbitrary: r best br)
  case 0
  then show ?case
    by (subst boost_rounds.simps) simp
next
  case (Suc d)
  then have r: "r < n" by simp
  obtain b' br' where bb: "(case best of None \<Rightarrow> (loss r, r)
                            | Some b \<Rightarrow> if loss r < b then (loss r, r) else (b, br)) = (b', br')"
    by (metis prod.exhaust)
  have eq: "boost_rounds loss n p r best br
            = (if p \<le> r - br' then Some (r + 1) else boost_rounds loss n p (Suc r) (Some b') br')"
    using r by (subst boost_rounds.simps [of loss n p r]) (simp add: Let_def bb not_le [symmetric])
  have "d = n - Suc r"
    using Suc.hyps by simp
  then obtain k where "boost_rounds loss n p (Suc r) (Some b') br' = Some k" and "k \<le> max (Suc r) n"
    using Suc.hyps(1) by blast
  then show ?case
    using eq r by auto
qed

lemma boost_rounds_decreasing:
  assumes "\<forall>i. loss (Suc i) < loss i" and "0 < p"
    and "best = Some (loss (r - 1))" and "0 < r" and "br = r - 1"
  shows "boost_rounds loss n p r best br = Some (max r n)"
  using assms(3-5)
proof (induction "n - r" arbitrary: r best br)
  case 0
  then show ?case
    by (subst boost_rounds.simps) simp
next
  case (Suc d)
  then have r: "r < n" by simp
  have lt: "loss r < loss (r - 1)"
    using assms(1) [rule_format, of "r - 1"] Suc.prems(2) by simp
  have "boost_rounds loss n p (Suc r) (Some (loss r)) r = Some (max (Suc r) n)"
    using Suc.hyps(1) [of "Suc r" "Some (loss r)" r] Suc.hyps(2) by simp
  then show ?case
    using r lt assms(2) Suc.prems by (subst boost_rounds.simps [of loss n p r]) (simp add: Let_def max_absorb2)
qed

subsection \<open>Termination of the boosting loop\<close>



end
